theory Spec2Isabelle
  imports Main "HOL-Library.Word"
begin

section \<open>Values, heap objects and emitted code\<close>

text \<open>
  Modelled from the spec: the \<open>Value\<close> class of the runtime header, which is not part of
  the interpreter's source file. A value is a tagged cell: a machine word and a tag, built
  in the interpreter by \<open>Value(word, tag)\<close> and inspected by \<open>getWord()\<close> and \<open>getTag()\<close>.
  The word is kept as an integer: the signed value of an int32, the bit pattern of a
  float32, the address of a string, object, array, host function or raw pointer.
\<close>

datatype Tag =
  TAG_INT32 | TAG_FLOAT32 | TAG_BOOL | TAG_STRING | TAG_OBJECT | TAG_ARRAY
  | TAG_HOSTFN | TAG_RAWPTR | TAG_UNDEF

datatype Value = Value (getWord: int) (getTag: Tag)

definition TRUE :: Value where "TRUE = Value 1 TAG_BOOL"
definition FALSE :: Value where "FALSE = Value 0 TAG_BOOL"
definition UNDEF :: Value where "UNDEF = Value 0 TAG_UNDEF"

definition int32 :: "32 word \<Rightarrow> Value" where "int32 w = Value (sint w) TAG_INT32"
definition float32 :: "32 word \<Rightarrow> Value" where "float32 w = Value (uint w) TAG_FLOAT32"
definition rawptr :: "int \<Rightarrow> Value" where "rawptr p = Value p TAG_RAWPTR"

definition isInt32 :: "Value \<Rightarrow> bool" where "isInt32 v = (getTag v = TAG_INT32)"
definition isFloat32 :: "Value \<Rightarrow> bool" where "isFloat32 v = (getTag v = TAG_FLOAT32)"
definition isBool :: "Value \<Rightarrow> bool" where "isBool v = (getTag v = TAG_BOOL)"
definition isString :: "Value \<Rightarrow> bool" where "isString v = (getTag v = TAG_STRING)"
definition isObject :: "Value \<Rightarrow> bool" where "isObject v = (getTag v = TAG_OBJECT)"
definition isArray :: "Value \<Rightarrow> bool" where "isArray v = (getTag v = TAG_ARRAY)"
definition isHostFn :: "Value \<Rightarrow> bool" where "isHostFn v = (getTag v = TAG_HOSTFN)"

definition toWord32 :: "Value \<Rightarrow> 32 word" where "toWord32 v = word_of_int (getWord v)"

text \<open>
  Modelled from the spec: the object layer (strings, objects, arrays), also declared in
  the runtime header. A string is an immutable byte sequence, an object a mapping from
  field names to values (kept as an association list, a write replacing or appending), an
  array a growable sequence of values. They live in a heap addressed by the word of the
  value that refers to them.
\<close>

datatype HeapObj = HStr string | HObj "(string \<times> Value) list" | HArr "Value list"

fun setFieldList :: "string \<Rightarrow> Value \<Rightarrow> (string \<times> Value) list \<Rightarrow> (string \<times> Value) list" where
  "setFieldList k v [] = [(k, v)]"
| "setFieldList k v ((k', v') # fs) =
     (if k' = k then (k, v) # fs else (k', v') # setFieldList k v fs)"

text \<open>The opcode enumeration of the interpreter, in the order of the source.\<close>

datatype Opcode =
  GET_LOCAL | SET_LOCAL
  | PUSH | POP | DUP | SWAP
  | ADD_I32 | SUB_I32 | MUL_I32 | LT_I32 | LE_I32 | GT_I32 | GE_I32 | EQ_I32
  | ADD_F32 | SUB_F32 | MUL_F32 | DIV_F32 | LT_F32 | LE_F32 | GT_F32 | GE_F32 | EQ_F32
  | SIN_F32 | COS_F32 | SQRT_F32
  | I32_TO_F32 | F32_TO_I32 | F32_TO_STR | STR_TO_F32
  | EQ_BOOL | HAS_TAG | GET_TAG
  | STR_LEN | GET_CHAR | GET_CHAR_CODE | STR_CAT | EQ_STR
  | NEW_OBJECT | HAS_FIELD | SET_FIELD | GET_FIELD | EQ_OBJ
  | NEW_ARRAY | ARRAY_LEN | ARRAY_PUSH | GET_ELEM | SET_ELEM
  | JUMP | JUMP_STUB | IF_TRUE | CALL | RET | THROW
  | IMPORT | ABORT

text \<open>
  The code heap is a byte array into which \<open>writeCode<T>\<close> stores a value of type \<open>T\<close> at
  the allocation pointer and from which \<open>readCode<T>\<close> reads one at the instruction
  pointer. The model keeps the typed value at the address of its first byte and advances
  pointers by the size of the type, as the source does with \<open>sizeof(T)\<close>; the bytes of a
  value are not modelled. The 16-bit immediates are kept as bit patterns: the compiler
  writes the argument count of a call as \<open>int16_t\<close> and the interpreter reads it back as
  \<open>uint16_t\<close>.
\<close>

datatype Code = COp Opcode | CU16 "16 word" | CVal Value | CPtr int | CTag Tag

definition sizeofOpcode :: int where "sizeofOpcode = 2"
definition sizeofU16 :: int where "sizeofU16 = 2"
definition sizeofPtr :: int where "sizeofPtr = 8"

text \<open>
  Modelled from the spec: \<open>sizeof(Value)\<close> and \<open>sizeof(Tag)\<close>, fixed by the runtime header;
  a 64-bit word followed by a tag, padded to 16 bytes, and a one-byte tag.
\<close>

definition sizeofValue :: int where "sizeofValue = 16"
definition sizeofTag :: int where "sizeofTag = 1"

definition sizeof :: "Code \<Rightarrow> int" where
  "sizeof c = (case c of COp _ \<Rightarrow> sizeofOpcode | CU16 _ \<Rightarrow> sizeofU16
     | CVal _ \<Rightarrow> sizeofValue | CPtr _ \<Rightarrow> sizeofPtr | CTag _ \<Rightarrow> sizeofTag)"

section \<open>The state of the interpreter\<close>

text \<open>
  \<open>BlockVersion\<close> (with the two pointers it inherits from \<open>CodeFragment\<close>) and \<open>RetEntry\<close>.
  A null pointer is the address 0.
\<close>

record BlockVersion =
  startPtr :: int
  endPtr :: int
  vfun :: int
  vblock :: int

record RetEntry =
  excVer :: int

text \<open>
  The global variables of the interpreter. Pointers into the value stack count slots,
  pointers into the code heap count bytes. \<open>versions\<close> is the store of the \<open>BlockVersion\<close>
  records created by \<open>new\<close>, addressed by their pointers; \<open>verAlloc\<close> is the address the
  next one gets. \<open>heap\<close> and \<open>heapAlloc\<close> are the object layer's store.
\<close>

record vm =
  codeHeap :: int
  codeHeapLimit :: int
  codeHeapAlloc :: int
  code :: "int \<Rightarrow> Code option"
  versionMap :: "int \<Rightarrow> int list option"
  versions :: "int \<Rightarrow> BlockVersion option"
  verAlloc :: int
  instrMap :: "int \<Rightarrow> int option"
  retAddrMap :: "int \<Rightarrow> RetEntry option"
  stackLimit :: int
  stackBase :: int
  framePtr :: int
  stackPtr :: int
  stack :: "int \<Rightarrow> Value"
  instrPtr :: int
  charStrings :: "nat \<Rightarrow> Value"
  heap :: "int \<Rightarrow> HeapObj option"
  heapAlloc :: int

text \<open>
  A \<open>RunError\<close> is the exception the interpreter throws and a caller can catch. The other
  outcomes end the process: a failed \<open>assert\<close> (assertions are taken as compiled in, as
  the interpreter's own tests rely on them), \<open>exit\<close>, an exception that is not a
  \<open>RunError\<close>, and \<open>Undefined\<close> for what C++ leaves undefined (a read through a pointer
  that does not point to an object of the expected type).
\<close>

datatype error = RunError string | AssertFailed | Exited | Uncaught string | Undefined

fun fatal :: "error + 'a \<Rightarrow> bool" where
  "fatal (Inl (RunError m)) = False"
| "fatal (Inl e) = True"
| "fatal (Inr x) = False"

text \<open>
  A statement of the source is a function from the state to a result and the state it
  leaves: a thrown exception does not undo the assignments made before it.
\<close>

type_synonym 'a M = "vm \<Rightarrow> (error + 'a) \<times> vm"

definition ret :: "'a \<Rightarrow> 'a M" where
  "ret x s = (Inr x, s)"

definition throw :: "error \<Rightarrow> 'a M" where
  "throw e s = (Inl e, s)"

definition bnd :: "'a M \<Rightarrow> ('a \<Rightarrow> 'b M) \<Rightarrow> 'b M" where
  "bnd m f s = (case m s of (Inl e, s') \<Rightarrow> (Inl e, s') | (Inr x, s') \<Rightarrow> f x s')"

definition assert :: "bool \<Rightarrow> unit M" where
  "assert b = (if b then ret () else throw AssertFailed)"

definition gets :: "(vm \<Rightarrow> 'a) \<Rightarrow> 'a M" where
  "gets f s = (Inr (f s), s)"

definition modify :: "(vm \<Rightarrow> vm) \<Rightarrow> unit M" where
  "modify f s = (Inr (), f s)"

section \<open>Code heap and value stack primitives\<close>

definition writeCode :: "Code \<Rightarrow> unit M" where
  "writeCode val s =
     (if codeHeapAlloc s < codeHeapLimit s then
        (let s' = s\<lparr>code := (code s)(codeHeapAlloc s \<mapsto> val),
                     codeHeapAlloc := codeHeapAlloc s + sizeof val\<rparr>
         in if codeHeapAlloc s' \<le> codeHeapLimit s' then (Inr (), s')
            else (Inl AssertFailed, s'))
      else (Inl AssertFailed, s))"

text \<open>
  \<open>readCode<T>\<close> returns a reference to the value at the instruction pointer; the model
  returns the value, and the handlers that assign through the reference use the address
  the instruction pointer had.
\<close>

definition readCode :: "int \<Rightarrow> Code M" where
  "readCode sz s =
     (if instrPtr s + sz \<le> codeHeapLimit s then
        (case code s (instrPtr s) of
           Some c \<Rightarrow> (Inr c, s\<lparr>instrPtr := instrPtr s + sz\<rparr>)
         | None \<Rightarrow> (Inl Undefined, s))
      else (Inl AssertFailed, s))"

definition readOpcode :: "Opcode M" where
  "readOpcode = bnd (readCode sizeofOpcode)
     (\<lambda>c. case c of COp op \<Rightarrow> ret op | _ \<Rightarrow> throw Undefined)"

definition readU16 :: "(16 word) M" where
  "readU16 = bnd (readCode sizeofU16)
     (\<lambda>c. case c of CU16 w \<Rightarrow> ret w | _ \<Rightarrow> throw Undefined)"

definition readValue :: "Value M" where
  "readValue = bnd (readCode sizeofValue)
     (\<lambda>c. case c of CVal v \<Rightarrow> ret v | _ \<Rightarrow> throw Undefined)"

definition readPtr :: "int M" where
  "readPtr = bnd (readCode sizeofPtr)
     (\<lambda>c. case c of CPtr p \<Rightarrow> ret p | _ \<Rightarrow> throw Undefined)"

definition readTag :: "Tag M" where
  "readTag = bnd (readCode sizeofTag)
     (\<lambda>c. case c of CTag t \<Rightarrow> ret t | _ \<Rightarrow> throw Undefined)"

definition pushVal :: "Value \<Rightarrow> unit M" where
  "pushVal val s =
     (if stackPtr s > stackLimit s then
        (Inr (), s\<lparr>stackPtr := stackPtr s - 1, stack := (stack s)(stackPtr s - 1 := val)\<rparr>)
      else (Inl AssertFailed, s))"

definition pushBool :: "bool \<Rightarrow> unit M" where
  "pushBool val = pushVal (if val then TRUE else FALSE)"

definition popVal :: "Value M" where
  "popVal s =
     (if stackPtr s < stackBase s then
        (Inr (stack s (stackPtr s)), s\<lparr>stackPtr := stackPtr s + 1\<rparr>)
      else (Inl AssertFailed, s))"

definition popBool :: "bool M" where
  "popBool = bnd popVal (\<lambda>val. bnd (assert (isBool val)) (\<lambda>_. ret (getWord val \<noteq> 0)))"

definition popInt32 :: "(32 word) M" where
  "popInt32 = bnd popVal (\<lambda>val. bnd (assert (isInt32 val)) (\<lambda>_. ret (toWord32 val)))"

definition popFloat32 :: "(32 word) M" where
  "popFloat32 = bnd popVal (\<lambda>val. bnd (assert (isFloat32 val)) (\<lambda>_. ret (toWord32 val)))"

definition stackSize :: "vm \<Rightarrow> int" where
  "stackSize s = stackBase s - stackPtr s"

definition frameSize :: "vm \<Rightarrow> int" where
  "frameSize s = framePtr s - stackPtr s + 1"

section \<open>The object layer and the inline cache\<close>

text \<open>
  Modelled from the spec: the operations of strings, objects and arrays that the
  interpreter calls (\<open>length\<close>, indexed access, \<open>hasField\<close>, \<open>getField\<close>, \<open>setField\<close>,
  \<open>newObject\<close>, \<open>push\<close>, ...). Following a handle that does not refer to an object of
  the expected kind is \<open>Undefined\<close>.
\<close>

definition strBytes :: "int \<Rightarrow> string M" where
  "strBytes p s = (case heap s p of Some (HStr bs) \<Rightarrow> (Inr bs, s) | _ \<Rightarrow> (Inl Undefined, s))"

definition objFields :: "int \<Rightarrow> ((string \<times> Value) list) M" where
  "objFields p s = (case heap s p of Some (HObj fs) \<Rightarrow> (Inr fs, s) | _ \<Rightarrow> (Inl Undefined, s))"

definition arrElems :: "int \<Rightarrow> (Value list) M" where
  "arrElems p s = (case heap s p of Some (HArr vs) \<Rightarrow> (Inr vs, s) | _ \<Rightarrow> (Inl Undefined, s))"

definition newHeapObj :: "HeapObj \<Rightarrow> int M" where
  "newHeapObj obj s =
     (Inr (heapAlloc s), s\<lparr>heap := (heap s)(heapAlloc s \<mapsto> obj), heapAlloc := heapAlloc s + 1\<rparr>)"

definition storeHeapObj :: "int \<Rightarrow> HeapObj \<Rightarrow> unit M" where
  "storeHeapObj p obj s = (Inr (), s\<lparr>heap := (heap s)(p \<mapsto> obj)\<rparr>)"

definition newString :: "string \<Rightarrow> Value M" where
  "newString bs = bnd (newHeapObj (HStr bs)) (\<lambda>p. ret (Value p TAG_STRING))"

definition hasField :: "int \<Rightarrow> string \<Rightarrow> bool M" where
  "hasField obj name = bnd (objFields obj) (\<lambda>fs. ret (map_of fs name \<noteq> None))"

definition getField :: "int \<Rightarrow> string \<Rightarrow> Value M" where
  "getField obj name = bnd (objFields obj)
     (\<lambda>fs. case map_of fs name of Some val \<Rightarrow> ret val | None \<Rightarrow> throw Undefined)"

definition setField :: "int \<Rightarrow> string \<Rightarrow> Value \<Rightarrow> unit M" where
  "setField obj name val = bnd (objFields obj)
     (\<lambda>fs. storeHeapObj obj (HObj (setFieldList name val fs)))"

definition popStr :: "int M" where
  "popStr = bnd popVal (\<lambda>val. bnd (assert (isString val)) (\<lambda>_. ret (getWord val)))"

definition popObj :: "int M" where
  "popObj = bnd popVal (\<lambda>val. bnd (assert (isObject val)) (\<lambda>_. ret (getWord val)))"

definition popArr :: "int M" where
  "popArr = bnd popVal (\<lambda>val. bnd (assert (isArray val)) (\<lambda>_. ret (getWord val)))"

text \<open>
  Modelled from the spec: equality of values (\<open>operator ==\<close> of the runtime header): by
  value on primitive tags, by reference on objects and arrays, by byte sequence on
  strings.
\<close>

definition valEq :: "vm \<Rightarrow> Value \<Rightarrow> Value \<Rightarrow> bool" where
  "valEq s a b =
     (if getTag a = TAG_STRING \<and> getTag b = TAG_STRING then
        (case (heap s (getWord a), heap s (getWord b)) of
           (Some (HStr x), Some (HStr y)) \<Rightarrow> x = y
         | _ \<Rightarrow> a = b)
      else a = b)"

definition dq :: char where "dq = CHR 0x22"

text \<open>
  \<open>ICache\<close>: a field lookup that remembers the slot where the field was last found. The
  remembered slot only speeds the lookup up, so the model keeps the field name alone.
\<close>

definition ICache_getField :: "string \<Rightarrow> int \<Rightarrow> Value M" where
  "ICache_getField fieldName obj = bnd (objFields obj)
     (\<lambda>fs. case map_of fs fieldName of
        Some val \<Rightarrow> ret val
      | None \<Rightarrow> throw (RunError (''missing field '' @ [dq] @ fieldName @ [dq])))"

definition ICache_getInt32 :: "string \<Rightarrow> int \<Rightarrow> (32 word) M" where
  "ICache_getInt32 fieldName obj = bnd (ICache_getField fieldName obj)
     (\<lambda>val. bnd (assert (isInt32 val)) (\<lambda>_. ret (toWord32 val)))"

definition ICache_getStr :: "string \<Rightarrow> int \<Rightarrow> int M" where
  "ICache_getStr fieldName obj = bnd (ICache_getField fieldName obj)
     (\<lambda>val. bnd (assert (isString val)) (\<lambda>_. ret (getWord val)))"

definition ICache_getObj :: "string \<Rightarrow> int \<Rightarrow> int M" where
  "ICache_getObj fieldName obj = bnd (ICache_getField fieldName obj)
     (\<lambda>val. bnd (assert (isObject val)) (\<lambda>_. ret (getWord val)))"

definition ICache_getArr :: "string \<Rightarrow> int \<Rightarrow> int M" where
  "ICache_getArr fieldName obj = bnd (ICache_getField fieldName obj)
     (\<lambda>val. bnd (assert (isArray val)) (\<lambda>_. ret (getWord val)))"

section \<open>What the interpreter takes from its collaborators\<close>

text \<open>
  The functions the interpreter calls and does not define are parameters of the model:
  the float32 arithmetic of the machine (on bit patterns), \<open>std::to_string\<close> and
  \<open>std::stof\<close> (which throws an exception that is not a \<open>RunError\<close> when it cannot
  convert), \<open>strToTag\<close>, \<open>isValidIdent\<close>, \<open>posToString\<close>, \<open>import\<close>, and the host functions,
  called by their address with their arguments. An import and a host function run on
  the state of the interpreter, which they may change (a host function may call back into
  \<open>callFun\<close>).
\<close>

record host =
  addF32 :: "32 word \<Rightarrow> 32 word \<Rightarrow> 32 word"
  subF32 :: "32 word \<Rightarrow> 32 word \<Rightarrow> 32 word"
  mulF32 :: "32 word \<Rightarrow> 32 word \<Rightarrow> 32 word"
  divF32 :: "32 word \<Rightarrow> 32 word \<Rightarrow> 32 word"
  ltF32 :: "32 word \<Rightarrow> 32 word \<Rightarrow> bool"
  leF32 :: "32 word \<Rightarrow> 32 word \<Rightarrow> bool"
  gtF32 :: "32 word \<Rightarrow> 32 word \<Rightarrow> bool"
  geF32 :: "32 word \<Rightarrow> 32 word \<Rightarrow> bool"
  eqF32 :: "32 word \<Rightarrow> 32 word \<Rightarrow> bool"
  sinF32 :: "32 word \<Rightarrow> 32 word"
  cosF32 :: "32 word \<Rightarrow> 32 word"
  sqrtF32 :: "32 word \<Rightarrow> 32 word"
  i32ToF32 :: "32 word \<Rightarrow> 32 word"
  f32ToI32 :: "32 word \<Rightarrow> 32 word"
  f32ToString :: "32 word \<Rightarrow> string"
  stof :: "string \<Rightarrow> 32 word option"
  strToTag :: "string \<Rightarrow> Tag"
  isValidIdent :: "string \<Rightarrow> bool"
  posToString :: "(int \<Rightarrow> HeapObj option) \<Rightarrow> Value \<Rightarrow> string"
  importPkg :: "string \<Rightarrow> vm \<Rightarrow> (error + Value) \<times> vm"
  callHost :: "int \<Rightarrow> Value list \<Rightarrow> vm \<Rightarrow> (error + Value) \<times> vm"

section \<open>Block versions and the block compiler\<close>

definition getVersion :: "int \<Rightarrow> BlockVersion M" where
  "getVersion p s = (case versions s p of Some ver \<Rightarrow> (Inr ver, s) | None \<Rightarrow> (Inl Undefined, s))"

definition setStartPtr :: "int \<Rightarrow> int \<Rightarrow> unit M" where
  "setStartPtr p x s =
     (case versions s p of
        Some ver \<Rightarrow> (Inr (), s\<lparr>versions := (versions s)(p \<mapsto> ver\<lparr>startPtr := x\<rparr>)\<rparr>)
      | None \<Rightarrow> (Inl Undefined, s))"

definition setEndPtr :: "int \<Rightarrow> int \<Rightarrow> unit M" where
  "setEndPtr p x s =
     (case versions s p of
        Some ver \<Rightarrow> (Inr (), s\<lparr>versions := (versions s)(p \<mapsto> ver\<lparr>endPtr := x\<rparr>)\<rparr>)
      | None \<Rightarrow> (Inl Undefined, s))"

text \<open>
  \<open>getBlockVersion\<close>: the version of a block, created (uncompiled, both pointers null) the
  first time the block is asked for. \<open>new BlockVersion\<close> takes the next address of
  \<open>verAlloc\<close>.
\<close>

definition getBlockVersion :: "int \<Rightarrow> int \<Rightarrow> int M" where
  "getBlockVersion f blk s =
     (case versionMap s blk of
        None \<Rightarrow>
          (let newVersion = verAlloc s in
           (Inr newVersion,
            s\<lparr>versionMap := (versionMap s)(blk \<mapsto> [newVersion]),
              versions := (versions s)(newVersion \<mapsto>
                 \<lparr>startPtr = 0, endPtr = 0, vfun = f, vblock = blk\<rparr>),
              verAlloc := verAlloc s + 1\<rparr>))
      | Some vs \<Rightarrow>
          (if length vs = 1 then
             (case versions s (vs ! 0) of
                Some ver \<Rightarrow> if vfun ver = f then (Inr (vs ! 0), s) else (Inl AssertFailed, s)
              | None \<Rightarrow> (Inl Undefined, s))
           else (Inl AssertFailed, s)))"

text \<open>
  \<open>compile\<close>: one pass over the instruction objects of the block. The body of the loop is
  \<open>compileInstr\<close>, the chain of string comparisons of the source in its order;
  \<open>instrAddr\<close> is the local \<open>instrPtr\<close> of the loop, the address the instruction is
  written at.
\<close>

definition compileInstr :: "host \<Rightarrow> int \<Rightarrow> Value \<Rightarrow> unit M" where
  "compileInstr h version instrVal =
     bnd (assert (isObject instrVal)) (\<lambda>_.
     let instr = getWord instrVal in
     bnd (ICache_getStr ''op'' instr) (\<lambda>opStr.
     bnd (strBytes opStr) (\<lambda>op.
     bnd (gets codeHeapAlloc) (\<lambda>instrAddr.
      if op = ''push'' then
        bnd (ICache_getField ''val'' instr) (\<lambda>val.
        bnd (writeCode (COp PUSH)) (\<lambda>_. writeCode (CVal val)))
      else if op = ''pop'' then writeCode (COp POP)
      else if op = ''dup'' then
        bnd (ICache_getInt32 ''idx'' instr) (\<lambda>idx.
        bnd (writeCode (COp DUP)) (\<lambda>_. writeCode (CU16 (ucast idx))))
      else if op = ''swap'' then writeCode (COp SWAP)
      else if op = ''get_local'' then
        bnd (ICache_getInt32 ''idx'' instr) (\<lambda>idx.
        bnd (writeCode (COp GET_LOCAL)) (\<lambda>_. writeCode (CU16 (ucast idx))))
      else if op = ''set_local'' then
        bnd (ICache_getInt32 ''idx'' instr) (\<lambda>idx.
        bnd (writeCode (COp SET_LOCAL)) (\<lambda>_. writeCode (CU16 (ucast idx))))
      else if op = ''add_i32'' then writeCode (COp ADD_I32)
      else if op = ''sub_i32'' then writeCode (COp SUB_I32)
      else if op = ''mul_i32'' then writeCode (COp MUL_I32)
      else if op = ''lt_i32'' then writeCode (COp LT_I32)
      else if op = ''le_i32'' then writeCode (COp LE_I32)
      else if op = ''gt_i32'' then writeCode (COp GT_I32)
      else if op = ''ge_i32'' then writeCode (COp GE_I32)
      else if op = ''eq_i32'' then writeCode (COp EQ_I32)
      else if op = ''add_f32'' then writeCode (COp ADD_F32)
      else if op = ''sub_f32'' then writeCode (COp SUB_F32)
      else if op = ''mul_f32'' then writeCode (COp MUL_F32)
      else if op = ''div_f32'' then writeCode (COp DIV_F32)
      else if op = ''lt_f32'' then writeCode (COp LT_F32)
      else if op = ''le_f32'' then writeCode (COp LE_F32)
      else if op = ''gt_f32'' then writeCode (COp GT_F32)
      else if op = ''ge_f32'' then writeCode (COp GE_F32)
      else if op = ''eq_f32'' then writeCode (COp EQ_F32)
      else if op = ''sin_f32'' then writeCode (COp SIN_F32)
      else if op = ''cos_f32'' then writeCode (COp COS_F32)
      else if op = ''sqrt_f32'' then writeCode (COp SQRT_F32)
      else if op = ''i32_to_f32'' then writeCode (COp I32_TO_F32)
      else if op = ''f32_to_i32'' then writeCode (COp F32_TO_I32)
      else if op = ''f32_to_str'' then writeCode (COp F32_TO_STR)
      else if op = ''str_to_f32'' then writeCode (COp STR_TO_F32)
      else if op = ''eq_bool'' then writeCode (COp EQ_BOOL)
      else if op = ''has_tag'' then
        bnd (ICache_getStr ''tag'' instr) (\<lambda>tagStr.
        bnd (strBytes tagStr) (\<lambda>tagBytes.
        bnd (writeCode (COp HAS_TAG)) (\<lambda>_. writeCode (CTag (strToTag h tagBytes)))))
      else if op = ''str_len'' then writeCode (COp STR_LEN)
      else if op = ''get_char'' then writeCode (COp GET_CHAR)
      else if op = ''get_char_code'' then writeCode (COp GET_CHAR_CODE)
      else if op = ''str_cat'' then writeCode (COp STR_CAT)
      else if op = ''eq_str'' then writeCode (COp EQ_STR)
      else if op = ''new_object'' then writeCode (COp NEW_OBJECT)
      else if op = ''has_field'' then writeCode (COp HAS_FIELD)
      else if op = ''set_field'' then writeCode (COp SET_FIELD)
      else if op = ''get_field'' then writeCode (COp GET_FIELD)
      else if op = ''new_array'' then writeCode (COp NEW_ARRAY)
      else if op = ''array_len'' then writeCode (COp ARRAY_LEN)
      else if op = ''array_push'' then writeCode (COp ARRAY_PUSH)
      else if op = ''set_elem'' then writeCode (COp SET_ELEM)
      else if op = ''get_elem'' then writeCode (COp GET_ELEM)
      else if op = ''eq_obj'' then writeCode (COp EQ_OBJ)
      else if op = ''jump'' then
        bnd (ICache_getObj ''to'' instr) (\<lambda>dstBB.
        bnd (getVersion version) (\<lambda>ver.
        bnd (getBlockVersion (vfun ver) dstBB) (\<lambda>dstVer.
        bnd (writeCode (COp JUMP_STUB)) (\<lambda>_. writeCode (CPtr dstVer)))))
      else if op = ''if_true'' then
        bnd (ICache_getObj ''then'' instr) (\<lambda>thenBB.
        bnd (ICache_getObj ''else'' instr) (\<lambda>elseBB.
        bnd (getVersion version) (\<lambda>ver.
        bnd (getBlockVersion (vfun ver) thenBB) (\<lambda>thenVer.
        bnd (getVersion version) (\<lambda>ver'.
        bnd (getBlockVersion (vfun ver') elseBB) (\<lambda>elseVer.
        bnd (writeCode (COp IF_TRUE)) (\<lambda>_.
        bnd (writeCode (CPtr thenVer)) (\<lambda>_. writeCode (CPtr elseVer)))))))))
      else if op = ''call'' then
        bnd (modify (\<lambda>s. s\<lparr>instrMap := (instrMap s)(instrAddr \<mapsto> version)\<rparr>)) (\<lambda>_.
        bnd (ICache_getInt32 ''num_args'' instr) (\<lambda>numArgs.
        bnd (ICache_getObj ''ret_to'' instr) (\<lambda>retToBB.
        bnd (getVersion version) (\<lambda>ver.
        bnd (getBlockVersion (vfun ver) retToBB) (\<lambda>retVer.
        bnd (hasField instr ''throw_to'') (\<lambda>hasThrow.
        bnd (if hasThrow then
               bnd (ICache_getObj ''throw_to'' instr) (\<lambda>throwBB.
               bnd (getVersion version) (\<lambda>ver'.
               bnd (getBlockVersion (vfun ver') throwBB) (\<lambda>throwVer.
               ret \<lparr>excVer = throwVer\<rparr>)))
             else ret \<lparr>excVer = 0\<rparr>) (\<lambda>retEntry.
        bnd (modify (\<lambda>s. s\<lparr>retAddrMap := (retAddrMap s)(retVer \<mapsto> retEntry)\<rparr>)) (\<lambda>_.
        bnd (writeCode (COp CALL)) (\<lambda>_.
        bnd (writeCode (CU16 (ucast numArgs))) (\<lambda>_. writeCode (CPtr retVer)))))))))))
      else if op = ''ret'' then writeCode (COp RET)
      else if op = ''throw'' then
        bnd (modify (\<lambda>s. s\<lparr>instrMap := (instrMap s)(instrAddr \<mapsto> version)\<rparr>)) (\<lambda>_.
        writeCode (COp THROW))
      else if op = ''import'' then writeCode (COp IMPORT)
      else if op = ''abort'' then
        bnd (modify (\<lambda>s. s\<lparr>instrMap := (instrMap s)(instrAddr \<mapsto> version)\<rparr>)) (\<lambda>_.
        writeCode (COp ABORT))
      else throw (RunError (''unhandled opcode in basic block '' @ [dq] @ op @ [dq]))))))"

fun compileInstrs :: "host \<Rightarrow> int \<Rightarrow> Value list \<Rightarrow> unit M" where
  "compileInstrs h version [] = ret ()"
| "compileInstrs h version (instrVal # rest) =
     bnd (compileInstr h version instrVal) (\<lambda>_. compileInstrs h version rest)"

definition compile :: "host \<Rightarrow> int \<Rightarrow> unit M" where
  "compile h version =
     bnd (getVersion version) (\<lambda>ver.
     bnd (ICache_getArr ''instrs'' (vblock ver)) (\<lambda>instrsArr.
     bnd (arrElems instrsArr) (\<lambda>instrs.
     if length instrs = 0 then throw (RunError ''empty basic block'')
     else
       bnd (gets codeHeapAlloc) (\<lambda>start.
       bnd (setStartPtr version start) (\<lambda>_.
       bnd (compileInstrs h version instrs) (\<lambda>_.
       bnd (gets codeHeapAlloc) (\<lambda>fin. setEndPtr version fin)))))))"

text \<open>
  \<open>compileIfNeeded\<close> is the statement \<open>if (!ver->startPtr) compile(ver);\<close> of the call,
  branch and return handlers.
\<close>

definition compileIfNeeded :: "host \<Rightarrow> int \<Rightarrow> unit M" where
  "compileIfNeeded h version =
     bnd (getVersion version) (\<lambda>ver. if startPtr ver = 0 then compile h version else ret ())"

section \<open>Calls\<close>

text \<open>
  \<open>size_t\<close> values are natural numbers; \<open>sizeT\<close> is the conversion of an \<open>int32_t\<close> to
  \<open>size_t\<close> (a negative number becomes a large one). \<open>showNat\<close> is \<open>std::to_string\<close> on a
  \<open>size_t\<close>.
\<close>

definition sizeT :: "32 word \<Rightarrow> nat" where
  "sizeT w = nat (sint w mod 2 ^ 64)"

function showNat :: "nat \<Rightarrow> string" where
  "showNat n = (if n < 10 then [char_of (48 + n)]
                else showNat (n div 10) @ [char_of (48 + n mod 10)])"
  by pat_completeness auto
termination
  by (relation "measure id") auto

fun srcPosLoop :: "Value list \<Rightarrow> Value M" where
  "srcPosLoop [] = ret UNDEF"
| "srcPosLoop (instrVal # rest) =
     bnd (assert (isObject instrVal)) (\<lambda>_.
     bnd (hasField (getWord instrVal) ''src_pos'') (\<lambda>has.
     if has then getField (getWord instrVal) ''src_pos'' else srcPosLoop rest))"

text \<open>
  \<open>getSrcPos\<close>: the instructions of the block the instruction was compiled in are
  traversed from the last one; \<open>srcPosLoop\<close> is that loop, on the reversed list.
\<close>

definition getSrcPos :: "int \<Rightarrow> Value M" where
  "getSrcPos instrAddr =
     bnd (gets (\<lambda>s. instrMap s instrAddr)) (\<lambda>itr.
     case itr of
       None \<Rightarrow> ret UNDEF
     | Some version \<Rightarrow>
         bnd (getVersion version) (\<lambda>ver.
         bnd (ICache_getArr ''instrs'' (vblock ver)) (\<lambda>instrsArr.
         bnd (arrElems instrsArr) (\<lambda>instrs.
         bnd (assert (length instrs > 0)) (\<lambda>_. srcPosLoop (rev instrs))))))"

definition argCountMsg :: "string \<Rightarrow> nat \<Rightarrow> nat \<Rightarrow> string" where
  "argCountMsg srcPosStr numArgs numParams =
     srcPosStr @ ''incorrect argument count in call, received '' @ showNat numArgs
       @ '', expected '' @ showNat numParams"

definition checkArgCount :: "host \<Rightarrow> int \<Rightarrow> nat \<Rightarrow> nat \<Rightarrow> unit M" where
  "checkArgCount h instrAddr numParams numArgs =
     bnd (getSrcPos instrAddr) (\<lambda>srcPos.
     if numArgs \<noteq> numParams then
       bnd (gets heap) (\<lambda>hp.
       let srcPosStr = (if isObject srcPos then posToString h hp srcPos @ '' - '' else [])
       in throw (RunError (argCountMsg srcPosStr numArgs numParams)))
     else ret ())"

definition assertS :: "(vm \<Rightarrow> bool) \<Rightarrow> unit M" where
  "assertS P s = (if P s then (Inr (), s) else (Inl AssertFailed, s))"

text \<open>
  \<open>funCall\<close>. The subtraction \<open>numLocals - numArgs\<close> is reached only when
  \<open>numArgs = numParams \<le> numLocals\<close>, so it is the difference of the two numbers.
\<close>

definition funCall :: "host \<Rightarrow> int \<Rightarrow> int \<Rightarrow> nat \<Rightarrow> int \<Rightarrow> unit M" where
  "funCall h callInstr f numArgs retVer =
     bnd (ICache_getObj ''entry'' f) (\<lambda>entryBB.
     bnd (getBlockVersion f entryBB) (\<lambda>entryVer.
     bnd (compileIfNeeded h entryVer) (\<lambda>_.
     bnd (ICache_getInt32 ''num_locals'' f) (\<lambda>numLocals.
     bnd (ICache_getInt32 ''num_params'' f) (\<lambda>numParams.
     bnd (checkArgCount h callInstr (sizeT numParams) numArgs) (\<lambda>_.
     if sint numLocals < sint numParams then
       throw (RunError ''not enough locals to store function parameters'')
     else if numArgs \<noteq> sizeT numParams then
       throw (RunError ''argument count mismatch'')
     else
       bnd (gets stackPtr) (\<lambda>sp.
       let prevStackPtr = sp + int numArgs in
       bnd (gets framePtr) (\<lambda>prevFramePtr.
       bnd (assertS (\<lambda>s. stackPtr s > stackLimit s)) (\<lambda>_.
       bnd (modify (\<lambda>s. s\<lparr>framePtr := stackPtr s + int numArgs - 1\<rparr>)) (\<lambda>_.
       bnd (modify (\<lambda>s. s\<lparr>stackPtr := stackPtr s - (sint numLocals - int numArgs)\<rparr>)) (\<lambda>_.
       bnd (pushVal (rawptr prevStackPtr)) (\<lambda>_.
       bnd (pushVal (rawptr prevFramePtr)) (\<lambda>_.
       bnd (pushVal (rawptr retVer)) (\<lambda>_.
       bnd (getVersion entryVer) (\<lambda>ver.
       modify (\<lambda>s. s\<lparr>instrPtr := startPtr ver\<rparr>))))))))))))))))"

definition hostCall :: "host \<Rightarrow> int \<Rightarrow> Value \<Rightarrow> nat \<Rightarrow> int \<Rightarrow> unit M" where
  "hostCall h callInstr f numArgs retVer =
     (let hostFn = getWord f in
     bnd (gets (\<lambda>s. stackPtr s + int numArgs - 1)) (\<lambda>args.
     bnd (if numArgs = 0 then callHost h hostFn []
          else if numArgs = 1 then (\<lambda>s. callHost h hostFn [stack s args] s)
          else if numArgs = 2 then
            (\<lambda>s. callHost h hostFn [stack s args, stack s (args - 1)] s)
          else if numArgs = 3 then
            (\<lambda>s. callHost h hostFn [stack s args, stack s (args - 1), stack s (args - 2)] s)
          else throw AssertFailed) (\<lambda>retVal.
     bnd (modify (\<lambda>s. s\<lparr>stackPtr := stackPtr s + int numArgs\<rparr>)) (\<lambda>_.
     bnd (pushVal retVal) (\<lambda>_.
     bnd (compileIfNeeded h retVer) (\<lambda>_.
     bnd (getVersion retVer) (\<lambda>ver.
     modify (\<lambda>s. s\<lparr>instrPtr := startPtr ver\<rparr>))))))))"

section \<open>The interpreter loop\<close>

text \<open>
  Assignments through the references that \<open>readCode\<close> returned: \<open>op = JUMP\<close> stores an
  opcode where an opcode was read, \<open>dstAddr = ...\<close> a pointer where a pointer was read.
\<close>

definition setCodeOp :: "int \<Rightarrow> Opcode \<Rightarrow> unit M" where
  "setCodeOp a op s =
     (case code s a of
        Some (COp _) \<Rightarrow> (Inr (), s\<lparr>code := (code s)(a \<mapsto> COp op)\<rparr>)
      | _ \<Rightarrow> (Inl Undefined, s))"

definition setCodePtr :: "int \<Rightarrow> int \<Rightarrow> unit M" where
  "setCodePtr a p s =
     (case code s a of
        Some (CPtr _) \<Rightarrow> (Inr (), s\<lparr>code := (code s)(a \<mapsto> CPtr p)\<rparr>)
      | _ \<Rightarrow> (Inl Undefined, s))"

definition getCodePtr :: "int \<Rightarrow> int M" where
  "getCodePtr a s =
     (case code s a of Some (CPtr p) \<Rightarrow> (Inr p, s) | _ \<Rightarrow> (Inl Undefined, s))"

text \<open>
  One iteration of the loop of \<open>execCode\<close> is \<open>step\<close>: it reads the opcode at the
  instruction pointer and runs its handler, \<open>execInstr\<close>, where \<open>opAddr\<close> is the address
  of the opcode read (\<open>&op\<close>). The result is \<open>Some v\<close> when the loop returns \<open>v\<close> and \<open>None\<close>
  when it goes on. Array indices are \<open>size_t\<close>. Modelled from the spec: a string index
  gives a byte (0 to 255), and a string built from a zero-terminated buffer stops at the
  first zero byte.
\<close>

definition execInstr :: "host \<Rightarrow> int \<Rightarrow> Opcode \<Rightarrow> (Value option) M" where
  "execInstr h opAddr op =
    (let continue = (\<lambda>m. bnd m (\<lambda>_. ret None)) in
     case op of
       PUSH \<Rightarrow> continue (bnd readValue pushVal)
     | POP \<Rightarrow> continue (bnd popVal (\<lambda>_. ret ()))
     | DUP \<Rightarrow> continue
         (bnd readU16 (\<lambda>idx.
          bnd (gets (\<lambda>s. stack s (stackPtr s + uint idx))) pushVal))
     | SWAP \<Rightarrow> continue
         (bnd popVal (\<lambda>v0. bnd popVal (\<lambda>v1. bnd (pushVal v0) (\<lambda>_. pushVal v1))))
     | SET_LOCAL \<Rightarrow> continue
         (bnd readU16 (\<lambda>localIdx.
          bnd (assertS (\<lambda>s. stackPtr s > stackLimit s)) (\<lambda>_.
          bnd popVal (\<lambda>val.
          modify (\<lambda>s. s\<lparr>stack := (stack s)(framePtr s - uint localIdx := val)\<rparr>)))))
     | GET_LOCAL \<Rightarrow> continue
         (bnd readU16 (\<lambda>localIdx.
          bnd (assertS (\<lambda>s. stackPtr s > stackLimit s)) (\<lambda>_.
          bnd (gets (\<lambda>s. stack s (framePtr s - uint localIdx))) pushVal)))
     | ADD_I32 \<Rightarrow> continue
         (bnd popInt32 (\<lambda>arg1. bnd popInt32 (\<lambda>arg0. pushVal (int32 (arg0 + arg1)))))
     | SUB_I32 \<Rightarrow> continue
         (bnd popInt32 (\<lambda>arg1. bnd popInt32 (\<lambda>arg0. pushVal (int32 (arg0 - arg1)))))
     | MUL_I32 \<Rightarrow> continue
         (bnd popInt32 (\<lambda>arg1. bnd popInt32 (\<lambda>arg0. pushVal (int32 (arg0 * arg1)))))
     | LT_I32 \<Rightarrow> continue
         (bnd popInt32 (\<lambda>arg1. bnd popInt32 (\<lambda>arg0. pushBool (sint arg0 < sint arg1))))
     | LE_I32 \<Rightarrow> continue
         (bnd popInt32 (\<lambda>arg1. bnd popInt32 (\<lambda>arg0. pushBool (sint arg0 \<le> sint arg1))))
     | GT_I32 \<Rightarrow> continue
         (bnd popInt32 (\<lambda>arg1. bnd popInt32 (\<lambda>arg0. pushBool (sint arg0 > sint arg1))))
     | GE_I32 \<Rightarrow> continue
         (bnd popInt32 (\<lambda>arg1. bnd popInt32 (\<lambda>arg0. pushBool (sint arg0 \<ge> sint arg1))))
     | EQ_I32 \<Rightarrow> continue
         (bnd popInt32 (\<lambda>arg1. bnd popInt32 (\<lambda>arg0. pushBool (arg0 = arg1))))
     | ADD_F32 \<Rightarrow> continue
         (bnd popFloat32 (\<lambda>arg1. bnd popFloat32 (\<lambda>arg0. pushVal (float32 (addF32 h arg0 arg1)))))
     | SUB_F32 \<Rightarrow> continue
         (bnd popFloat32 (\<lambda>arg1. bnd popFloat32 (\<lambda>arg0. pushVal (float32 (subF32 h arg0 arg1)))))
     | MUL_F32 \<Rightarrow> continue
         (bnd popFloat32 (\<lambda>arg1. bnd popFloat32 (\<lambda>arg0. pushVal (float32 (mulF32 h arg0 arg1)))))
     | DIV_F32 \<Rightarrow> continue
         (bnd popFloat32 (\<lambda>arg1. bnd popFloat32 (\<lambda>arg0. pushVal (float32 (divF32 h arg0 arg1)))))
     | LT_F32 \<Rightarrow> continue
         (bnd popFloat32 (\<lambda>arg1. bnd popFloat32 (\<lambda>arg0. pushBool (ltF32 h arg0 arg1))))
     | LE_F32 \<Rightarrow> continue
         (bnd popFloat32 (\<lambda>arg1. bnd popFloat32 (\<lambda>arg0. pushBool (leF32 h arg0 arg1))))
     | GT_F32 \<Rightarrow> continue
         (bnd popFloat32 (\<lambda>arg1. bnd popFloat32 (\<lambda>arg0. pushBool (gtF32 h arg0 arg1))))
     | GE_F32 \<Rightarrow> continue
         (bnd popFloat32 (\<lambda>arg1. bnd popFloat32 (\<lambda>arg0. pushBool (geF32 h arg0 arg1))))
     | EQ_F32 \<Rightarrow> continue
         (bnd popFloat32 (\<lambda>arg1. bnd popFloat32 (\<lambda>arg0. pushBool (eqF32 h arg0 arg1))))
     | SIN_F32 \<Rightarrow> continue (bnd popFloat32 (\<lambda>arg. pushVal (float32 (sinF32 h arg))))
     | COS_F32 \<Rightarrow> continue (bnd popFloat32 (\<lambda>arg. pushVal (float32 (cosF32 h arg))))
     | SQRT_F32 \<Rightarrow> continue (bnd popFloat32 (\<lambda>arg. pushVal (float32 (sqrtF32 h arg))))
     | I32_TO_F32 \<Rightarrow> continue (bnd popInt32 (\<lambda>arg0. pushVal (float32 (i32ToF32 h arg0))))
     | F32_TO_I32 \<Rightarrow> continue (bnd popFloat32 (\<lambda>arg0. pushVal (int32 (f32ToI32 h arg0))))
     | F32_TO_STR \<Rightarrow> continue
         (bnd popFloat32 (\<lambda>arg0. bnd (newString (f32ToString h arg0)) pushVal))
     | STR_TO_F32 \<Rightarrow> continue
         (bnd popStr (\<lambda>arg0.
          bnd (strBytes arg0) (\<lambda>bs.
          case stof h bs of
            None \<Rightarrow> throw (Uncaught ''stof'')
          | Some w \<Rightarrow> pushVal (float32 w))))
     | EQ_BOOL \<Rightarrow> continue
         (bnd popBool (\<lambda>arg1. bnd popBool (\<lambda>arg0. pushBool (arg0 = arg1))))
     | HAS_TAG \<Rightarrow> continue
         (bnd readTag (\<lambda>testTag. bnd popVal (\<lambda>val. pushBool (getTag val = testTag))))
     | STR_LEN \<Rightarrow> continue
         (bnd popStr (\<lambda>str.
          bnd (strBytes str) (\<lambda>bs. pushVal (int32 (of_nat (length bs))))))
     | GET_CHAR \<Rightarrow> continue
         (bnd popInt32 (\<lambda>i.
          let idx = sizeT i in
          bnd popStr (\<lambda>str.
          bnd (strBytes str) (\<lambda>bs.
          if idx \<ge> length bs then throw (RunError ''get_char, index out of bounds'')
          else
            let ch = (of_char (bs ! idx) :: nat) in
            bnd (gets (\<lambda>s. valEq s (charStrings s ch) FALSE)) (\<lambda>empty.
            bnd (if empty then
                   bnd (newString (takeWhile (\<lambda>c. c \<noteq> CHR 0x00) [bs ! idx])) (\<lambda>v.
                   modify (\<lambda>s. s\<lparr>charStrings := (charStrings s)(ch := v)\<rparr>))
                 else ret ()) (\<lambda>_.
            bnd (gets (\<lambda>s. charStrings s ch)) pushVal))))))
     | GET_CHAR_CODE \<Rightarrow> continue
         (bnd popInt32 (\<lambda>i.
          let idx = sizeT i in
          bnd popStr (\<lambda>str.
          bnd (strBytes str) (\<lambda>bs.
          if idx \<ge> length bs then throw (RunError ''get_char_code, index out of bounds'')
          else pushVal (int32 (of_char (bs ! idx)))))))
     | STR_CAT \<Rightarrow> continue
         (bnd popStr (\<lambda>a.
          bnd popStr (\<lambda>b.
          bnd (strBytes b) (\<lambda>bb.
          bnd (strBytes a) (\<lambda>ab.
          bnd (newString (bb @ ab)) pushVal)))))
     | EQ_STR \<Rightarrow> continue
         (bnd popStr (\<lambda>arg1.
          bnd popStr (\<lambda>arg0.
          bnd (strBytes arg0) (\<lambda>b0.
          bnd (strBytes arg1) (\<lambda>b1. pushBool (b0 = b1))))))
     | NEW_OBJECT \<Rightarrow> continue
         (bnd popInt32 (\<lambda>capacity.
          bnd (newHeapObj (HObj [])) (\<lambda>obj. pushVal (Value obj TAG_OBJECT))))
     | HAS_FIELD \<Rightarrow> continue
         (bnd popStr (\<lambda>fieldStr.
          bnd popObj (\<lambda>obj.
          bnd (strBytes fieldStr) (\<lambda>fieldName.
          bnd (hasField obj fieldName) pushBool))))
     | SET_FIELD \<Rightarrow> continue
         (bnd popVal (\<lambda>val.
          bnd popStr (\<lambda>fieldStr.
          bnd popObj (\<lambda>obj.
          bnd (strBytes fieldStr) (\<lambda>fieldName.
          if \<not> isValidIdent h fieldName then
            throw (RunError (''invalid identifier in set_field '' @ [dq] @ fieldName @ [dq]))
          else setField obj fieldName val)))))
     | GET_FIELD \<Rightarrow> continue
         (bnd popStr (\<lambda>fieldStr.
          bnd popObj (\<lambda>obj.
          bnd (strBytes fieldStr) (\<lambda>fieldName.
          bnd (hasField obj fieldName) (\<lambda>has.
          if \<not> has then
            throw (RunError (''get_field failed, missing field '' @ [dq] @ fieldName @ [dq]))
          else bnd (getField obj fieldName) pushVal)))))
     | EQ_OBJ \<Rightarrow> continue
         (bnd popVal (\<lambda>arg1.
          bnd popVal (\<lambda>arg0.
          bnd (gets (\<lambda>s. valEq s arg0 arg1)) pushBool)))
     | NEW_ARRAY \<Rightarrow> continue
         (bnd popInt32 (\<lambda>len.
          bnd (newHeapObj (HArr [])) (\<lambda>arr. pushVal (Value arr TAG_ARRAY))))
     | ARRAY_LEN \<Rightarrow> continue
         (bnd popArr (\<lambda>arr.
          bnd (arrElems arr) (\<lambda>vs. pushVal (int32 (of_nat (length vs))))))
     | ARRAY_PUSH \<Rightarrow> continue
         (bnd popVal (\<lambda>val.
          bnd popArr (\<lambda>arr.
          bnd (arrElems arr) (\<lambda>vs. storeHeapObj arr (HArr (vs @ [val]))))))
     | SET_ELEM \<Rightarrow> continue
         (bnd popVal (\<lambda>val.
          bnd popInt32 (\<lambda>i.
          let idx = sizeT i in
          bnd popArr (\<lambda>arr.
          bnd (arrElems arr) (\<lambda>vs.
          if idx \<ge> length vs then throw (RunError ''set_elem, index out of bounds'')
          else storeHeapObj arr (HArr (vs[idx := val])))))))
     | GET_ELEM \<Rightarrow> continue
         (bnd popInt32 (\<lambda>i.
          let idx = sizeT i in
          bnd popArr (\<lambda>arr.
          bnd (arrElems arr) (\<lambda>vs.
          if idx \<ge> length vs then throw (RunError ''get_elem, index out of bounds'')
          else pushVal (vs ! idx)))))
     | JUMP_STUB \<Rightarrow> continue
         (bnd (gets instrPtr) (\<lambda>dstAddr.
          bnd readPtr (\<lambda>dstVer.
          bnd (compileIfNeeded h dstVer) (\<lambda>_.
          bnd (setCodeOp opAddr JUMP) (\<lambda>_.
          bnd (getVersion dstVer) (\<lambda>ver.
          bnd (setCodePtr dstAddr (startPtr ver)) (\<lambda>_.
          bnd (getVersion dstVer) (\<lambda>ver'.
          modify (\<lambda>s. s\<lparr>instrPtr := startPtr ver'\<rparr>)))))))))
     | JUMP \<Rightarrow> continue
         (bnd readPtr (\<lambda>dstAddr. modify (\<lambda>s. s\<lparr>instrPtr := dstAddr\<rparr>)))
     | IF_TRUE \<Rightarrow> continue
         (bnd (gets instrPtr) (\<lambda>thenAddr.
          bnd readPtr (\<lambda>thenWord.
          bnd (gets instrPtr) (\<lambda>elseAddr.
          bnd readPtr (\<lambda>elseWord.
          bnd popVal (\<lambda>arg0.
          bnd (gets (\<lambda>s. valEq s arg0 TRUE)) (\<lambda>isTrue.
          if isTrue then
            bnd (gets (\<lambda>s. thenWord < codeHeap s \<or> thenWord \<ge> codeHeapLimit s)) (\<lambda>stub.
            bnd (if stub then
                   bnd (compileIfNeeded h thenWord) (\<lambda>_.
                   bnd (getVersion thenWord) (\<lambda>thenVer.
                   setCodePtr thenAddr (startPtr thenVer)))
                 else ret ()) (\<lambda>_.
            bnd (getCodePtr thenAddr) (\<lambda>target.
            modify (\<lambda>s. s\<lparr>instrPtr := target\<rparr>))))
          else
            bnd (gets (\<lambda>s. elseWord < codeHeap s \<or> elseWord \<ge> codeHeapLimit s)) (\<lambda>stub.
            bnd (if stub then
                   bnd (compileIfNeeded h elseWord) (\<lambda>_.
                   bnd (getVersion elseWord) (\<lambda>elseVer.
                   setCodePtr elseAddr (startPtr elseVer)))
                 else ret ()) (\<lambda>_.
            bnd (getCodePtr elseAddr) (\<lambda>target.
            modify (\<lambda>s. s\<lparr>instrPtr := target\<rparr>)))))))))))
     | CALL \<Rightarrow> continue
         (bnd readU16 (\<lambda>n.
          let numArgs = unat n in
          bnd readPtr (\<lambda>retVer.
          bnd popVal (\<lambda>callee.
          bnd (gets stackSize) (\<lambda>sz.
          if sz < int numArgs then throw (RunError ''stack underflow at call'')
          else if isObject callee then funCall h opAddr (getWord callee) numArgs retVer
          else if isHostFn callee then hostCall h opAddr callee numArgs retVer
          else throw (RunError ''invalid callee at call site''))))))
     | RET \<Rightarrow>
         bnd popVal (\<lambda>retVal.
         bnd popVal (\<lambda>retVerVal.
         let retVer = getWord retVerVal in
         bnd popVal (\<lambda>prevFramePtr.
         bnd popVal (\<lambda>prevStackPtr.
         bnd (modify (\<lambda>s. s\<lparr>framePtr := getWord prevFramePtr\<rparr>)) (\<lambda>_.
         bnd (modify (\<lambda>s. s\<lparr>stackPtr := getWord prevStackPtr\<rparr>)) (\<lambda>_.
         if retVer = 0 then ret (Some retVal)
         else
           bnd (pushVal retVal) (\<lambda>_.
           bnd (compileIfNeeded h retVer) (\<lambda>_.
           bnd (getVersion retVer) (\<lambda>ver.
           bnd (modify (\<lambda>s. s\<lparr>instrPtr := startPtr ver\<rparr>)) (\<lambda>_. ret None))))))))))
     | THROW \<Rightarrow> bnd popVal (\<lambda>retVal. throw AssertFailed)
     | IMPORT \<Rightarrow> continue
         (bnd popVal (\<lambda>nameVal.
          bnd (assert (isString nameVal)) (\<lambda>_.
          bnd (strBytes (getWord nameVal)) (\<lambda>pkgName.
          bnd (importPkg h pkgName) pushVal))))
     | ABORT \<Rightarrow>
         bnd popStr (\<lambda>msgStr.
         bnd (strBytes msgStr) (\<lambda>errMsg.
         bnd (getSrcPos opAddr) (\<lambda>srcPos. throw Exited)))
     | GET_TAG \<Rightarrow> throw AssertFailed)"

definition step :: "host \<Rightarrow> (Value option) M" where
  "step h = bnd (gets instrPtr) (\<lambda>opAddr. bnd readOpcode (\<lambda>op. execInstr h opAddr op))"

text \<open>
  \<open>execCode\<close>: the loop may run forever, so the model takes the number of iterations it
  may make and is \<open>None\<close> when they do not suffice.
\<close>

fun execLoop :: "host \<Rightarrow> nat \<Rightarrow> vm \<Rightarrow> ((error + Value) \<times> vm) option" where
  "execLoop h 0 s = None"
| "execLoop h (Suc n) s =
     (case step h s of
        (Inl e, s') \<Rightarrow> Some (Inl e, s')
      | (Inr (Some v), s') \<Rightarrow> Some (Inr v, s')
      | (Inr None, s') \<Rightarrow> execLoop h n s')"

definition execCode :: "host \<Rightarrow> nat \<Rightarrow> vm \<Rightarrow> ((error + Value) \<times> vm) option" where
  "execCode h n s =
     (if instrPtr s \<ge> codeHeap s \<and> instrPtr s < codeHeapLimit s then execLoop h n s
      else Some (Inl AssertFailed, s))"

section \<open>The call gateway\<close>

fun copyArgs :: "nat \<Rightarrow> Value list \<Rightarrow> unit M" where
  "copyArgs i [] = ret ()"
| "copyArgs i (a # as) =
     bnd (modify (\<lambda>s. s\<lparr>stack := (stack s)(framePtr s - int i := a)\<rparr>)) (\<lambda>_.
     copyArgs (Suc i) as)"

text \<open>
  \<open>callFun\<close> is \<open>callFun_enter\<close> (the statements before the call of \<open>execCode\<close>, returning
  the stack size before the call), \<open>execCode\<close>, and \<open>callFun_leave\<close> (the statements
  after it). \<open>compile\<close> is called whether or not the entry version is compiled.
\<close>

definition callFun_enter :: "host \<Rightarrow> int \<Rightarrow> Value list \<Rightarrow> int M" where
  "callFun_enter h f args =
     bnd (ICache_getInt32 ''num_params'' f) (\<lambda>numParams.
     bnd (ICache_getInt32 ''num_locals'' f) (\<lambda>numLocals.
     bnd (assert (length args \<le> sizeT numParams)) (\<lambda>_.
     bnd (assert (sint numParams \<le> sint numLocals)) (\<lambda>_.
     bnd (gets stackSize) (\<lambda>preCallSz.
     bnd (gets instrPtr) (\<lambda>ip.
     bnd (pushVal (rawptr ip)) (\<lambda>_.
     bnd (gets stackPtr) (\<lambda>prevStackPtr.
     bnd (gets framePtr) (\<lambda>prevFramePtr.
     bnd (modify (\<lambda>s. s\<lparr>framePtr := stackPtr s - 1\<rparr>)) (\<lambda>_.
     bnd (modify (\<lambda>s. s\<lparr>stackPtr := stackPtr s - sint numLocals\<rparr>)) (\<lambda>_.
     bnd (assertS (\<lambda>s. stackPtr s \<ge> stackLimit s)) (\<lambda>_.
     bnd (pushVal (rawptr prevStackPtr)) (\<lambda>_.
     bnd (pushVal (rawptr prevFramePtr)) (\<lambda>_.
     bnd (pushVal (rawptr 0)) (\<lambda>_.
     bnd (copyArgs 0 args) (\<lambda>_.
     bnd (ICache_getObj ''entry'' f) (\<lambda>entryBlock.
     bnd (getBlockVersion f entryBlock) (\<lambda>entryVer.
     bnd (compile h entryVer) (\<lambda>_.
     bnd (getVersion entryVer) (\<lambda>ver.
     bnd (assert (startPtr ver \<noteq> 0)) (\<lambda>_.
     bnd (assert (endPtr ver \<noteq> 0)) (\<lambda>_.
     bnd (assert (endPtr ver - startPtr ver > 0)) (\<lambda>_.
     bnd (modify (\<lambda>s. s\<lparr>instrPtr := startPtr ver\<rparr>)) (\<lambda>_.
     ret preCallSz))))))))))))))))))))))))"

definition callFun_leave :: "int \<Rightarrow> Value \<Rightarrow> Value M" where
  "callFun_leave preCallSz retVal =
     bnd popVal (\<lambda>ipVal.
     bnd (modify (\<lambda>s. s\<lparr>instrPtr := getWord ipVal\<rparr>)) (\<lambda>_.
     bnd (gets stackSize) (\<lambda>sz.
     if sz \<noteq> preCallSz then
       throw (RunError ''stack size does not match after call termination'')
     else ret retVal)))"

definition callFun :: "host \<Rightarrow> nat \<Rightarrow> int \<Rightarrow> Value list \<Rightarrow> vm \<Rightarrow> ((error + Value) \<times> vm) option" where
  "callFun h n f args s =
     (case callFun_enter h f args s of
        (Inl e, s1) \<Rightarrow> Some (Inl e, s1)
      | (Inr preCallSz, s1) \<Rightarrow>
          (case execCode h n s1 of
             None \<Rightarrow> None
           | Some (Inl e, s2) \<Rightarrow> Some (Inl e, s2)
           | Some (Inr retVal, s2) \<Rightarrow> Some (callFun_leave preCallSz retVal s2)))"

definition callExportFn :: "host \<Rightarrow> nat \<Rightarrow> int \<Rightarrow> string \<Rightarrow> Value list \<Rightarrow> vm \<Rightarrow> ((error + Value) \<times> vm) option" where
  "callExportFn h n pkg fnName args s =
     (case hasField pkg fnName s of
        (Inl e, s1) \<Rightarrow> Some (Inl e, s1)
      | (Inr False, s1) \<Rightarrow>
          Some (Inl (RunError (''package does not export function '' @ [dq] @ fnName @ [dq])), s1)
      | (Inr True, s1) \<Rightarrow>
          (case getField pkg fnName s1 of
             (Inl e, s2) \<Rightarrow> Some (Inl e, s2)
           | (Inr fnVal, s2) \<Rightarrow>
               if \<not> isObject fnVal then
                 Some (Inl (RunError (''field '' @ [dq] @ fnName @ [dq]
                        @ '' exported by package is not a function'')), s2)
               else callFun h n (getWord fnVal) args s2))"

section \<open>Initial state\<close>

definition CODE_HEAP_INIT_SIZE :: int where "CODE_HEAP_INIT_SIZE = 2 ^ 20"
definition STACK_INIT_SIZE :: int where "STACK_INIT_SIZE = 2 ^ 16"

text \<open>
  The globals at program start, for a loaded image \<open>hp\<close> (the object heap, with its next
  free address \<open>ha\<close>) and the address \<open>va\<close> that the first \<open>new BlockVersion\<close> returns.
  Modelled from the spec: a default-constructed \<open>Value\<close>, which fills \<open>charStrings\<close>, is
  \<open>FALSE\<close>, the empty-slot sentinel of the single-character cache.
\<close>

definition globals0 :: "(int \<Rightarrow> HeapObj option) \<Rightarrow> int \<Rightarrow> int \<Rightarrow> vm" where
  "globals0 hp ha va =
     \<lparr>codeHeap = 0, codeHeapLimit = 0, codeHeapAlloc = 0, code = Map.empty,
      versionMap = Map.empty, versions = Map.empty, verAlloc = va,
      instrMap = Map.empty, retAddrMap = Map.empty,
      stackLimit = 0, stackBase = 0, framePtr = 0, stackPtr = 0, stack = (\<lambda>_. FALSE),
      instrPtr = 0, charStrings = (\<lambda>_. FALSE), heap = hp, heapAlloc = ha\<rparr>"

text \<open>
  \<open>initInterp\<close>, given the addresses \<open>codeAddr\<close> and \<open>stackAddr\<close> of the two arrays it
  allocates.
\<close>

definition initInterp :: "int \<Rightarrow> int \<Rightarrow> vm \<Rightarrow> vm" where
  "initInterp codeAddr stackAddr s =
     s\<lparr>codeHeap := codeAddr,
       codeHeapLimit := codeAddr + CODE_HEAP_INIT_SIZE,
       codeHeapAlloc := codeAddr,
       stackLimit := stackAddr,
       stackBase := stackAddr + STACK_INIT_SIZE,
       stackPtr := stackAddr + STACK_INIT_SIZE\<rparr>"

section \<open>Well-formed states and what later states keep\<close>

text \<open>
  \<open>Inv\<close>: the code heap is allocated (its address is not null), the allocation pointer
  lies within it, every emitted value ends at or below the allocation pointer, the
  \<open>startPtr\<close> of a version that has one points into the emitted code, and every version
  was allocated below \<open>verAlloc\<close>.
\<close>

definition Inv :: "vm \<Rightarrow> bool" where
  "Inv s \<longleftrightarrow>
     0 < codeHeap s \<and> codeHeap s \<le> codeHeapAlloc s \<and> codeHeapAlloc s \<le> codeHeapLimit s \<and>
     (\<forall>a c. code s a = Some c \<longrightarrow> a + sizeof c \<le> codeHeapAlloc s) \<and>
     (\<forall>v ver. versions s v = Some ver \<longrightarrow> startPtr ver \<noteq> 0 \<longrightarrow>
        codeHeap s \<le> startPtr ver \<and> startPtr ver \<le> codeHeapAlloc s) \<and>
     (\<forall>v ver. versions s v = Some ver \<longrightarrow> v < verAlloc s)"

text \<open>
  A patched jump at address \<open>a\<close>: the opcode \<open>JUMP\<close> followed by a pointer into the emitted
  code. A version is \<open>compiled\<close> when its \<open>startPtr\<close> is not null.
\<close>

definition jumpSite :: "vm \<Rightarrow> int \<Rightarrow> bool" where
  "jumpSite s a \<longleftrightarrow>
     code s a = Some (COp JUMP) \<and>
     (\<exists>p. code s (a + sizeofOpcode) = Some (CPtr p) \<and> codeHeap s \<le> p \<and> p \<le> codeHeapAlloc s)"

definition compiled :: "int \<Rightarrow> vm \<Rightarrow> bool" where
  "compiled v s \<longleftrightarrow> (\<exists>ver. versions s v = Some ver \<and> startPtr ver \<noteq> 0)"

text \<open>
  \<open>ext s s'\<close>: what a later state \<open>s'\<close> keeps of \<open>s\<close>. The code heap stays where it is and
  only grows, a patched jump stays one, a filled slot of the single-character cache keeps
  its value, and a version stays, compiled if it was.
\<close>

definition ext :: "vm \<Rightarrow> vm \<Rightarrow> bool" where
  "ext s s' \<longleftrightarrow>
     codeHeap s' = codeHeap s \<and> codeHeapLimit s' = codeHeapLimit s \<and>
     codeHeapAlloc s \<le> codeHeapAlloc s' \<and>
     (\<forall>a. jumpSite s a \<longrightarrow> jumpSite s' a) \<and>
     (\<forall>b. charStrings s b \<noteq> FALSE \<longrightarrow> charStrings s' b = charStrings s b) \<and>
     (\<forall>v. versions s v \<noteq> None \<longrightarrow> versions s' v \<noteq> None) \<and>
     (\<forall>v. compiled v s \<longrightarrow> compiled v s')"

text \<open>
  The part of the state that \<open>Inv\<close> and \<open>ext\<close> read, and the part that the compiler does
  not touch.
\<close>

definition core :: "vm \<Rightarrow> int \<times> int \<times> int \<times> (int \<Rightarrow> Code option) \<times> (int \<Rightarrow> BlockVersion option) \<times> int \<times> (nat \<Rightarrow> Value)" where
  "core s = (codeHeap s, codeHeapLimit s, codeHeapAlloc s, code s, versions s, verAlloc s,
             charStrings s)"

definition frame :: "vm \<Rightarrow> (int \<Rightarrow> Value) \<times> int \<times> int \<times> int \<times> int \<times> (int \<Rightarrow> HeapObj option) \<times> int \<times> int \<times> (nat \<Rightarrow> Value)" where
  "frame s = (stack s, stackPtr s, framePtr s, stackLimit s, stackBase s, heap s, heapAlloc s,
              instrPtr s, charStrings s)"

text \<open>
  \<open>safe m\<close>: unless it ends the process, the statement \<open>m\<close> takes a well-formed state to
  a well-formed later state, also when it throws. \<open>tri P m Q\<close> is the same with a
  precondition and a postcondition on the result of a normal return. \<open>keeps m\<close>: the
  statement leaves the stack, the objects and the instruction pointer alone.
\<close>

definition tri :: "(vm \<Rightarrow> bool) \<Rightarrow> 'a M \<Rightarrow> ('a \<Rightarrow> vm \<Rightarrow> bool) \<Rightarrow> bool" where
  "tri P m Q \<longleftrightarrow>
     (\<forall>s r s'. m s = (r, s') \<longrightarrow> \<not> fatal r \<longrightarrow> Inv s \<longrightarrow> P s \<longrightarrow>
        Inv s' \<and> ext s s' \<and> (case r of Inr x \<Rightarrow> Q x s' | Inl e \<Rightarrow> True))"

definition safe :: "'a M \<Rightarrow> bool" where
  "safe m \<longleftrightarrow> tri (\<lambda>s. True) m (\<lambda>x s. True)"

definition keeps :: "'a M \<Rightarrow> bool" where
  "keeps m \<longleftrightarrow> (\<forall>s. frame (snd (m s)) = frame s)"

text \<open>
  What the theorems about later states ask of the collaborators: an import or a host
  function that returns (or throws a \<open>RunError\<close>) leaves a well-formed later state. A host
  function that only reads and builds objects does; so does one that calls back into
  \<open>callFun\<close>.
\<close>

definition hostOK :: "host \<Rightarrow> bool" where
  "hostOK h \<longleftrightarrow>
     (\<forall>name. safe (importPkg h name)) \<and> (\<forall>f args. safe (callHost h f args))"


text \<open>\<open>reads m\<close>: the statement \<open>m\<close> changes nothing.\<close>

definition reads :: "'a M \<Rightarrow> bool" where
  "reads m \<longleftrightarrow> (\<forall>s. snd (m s) = s)"


named_theorems safe_intros
named_theorems keeps_intros

section \<open>Runs and example programs\<close>

text \<open>
  \<open>steps h n s\<close>: the state after \<open>n\<close> iterations of the loop that all went on, and
  \<open>after h n s\<close>, the same state or \<open>s\<close> when there is none. \<open>operands s numLocals\<close> is
  the number of values that the running function, with \<open>numLocals\<close> locals, has on the stack
  above its locals and its three saved-context words.
\<close>

fun steps :: "host \<Rightarrow> nat \<Rightarrow> vm \<Rightarrow> vm option" where
  "steps h 0 s = Some s"
| "steps h (Suc n) s = (case step h s of (Inr None, s') \<Rightarrow> steps h n s' | _ \<Rightarrow> None)"

definition after :: "host \<Rightarrow> nat \<Rightarrow> vm \<Rightarrow> vm" where
  "after h n s = (case steps h n s of Some s' \<Rightarrow> s' | None \<Rightarrow> s)"

definition operands :: "vm \<Rightarrow> int \<Rightarrow> int" where
  "operands s numLocals = frameSize s - numLocals - 3"

text \<open>
  A host without packages whose host functions return \<open>UNDEF\<close>; its float32 operations
  are placeholders, the examples use none.
\<close>

definition h0 :: host where
  "h0 = \<lparr>addF32 = (\<lambda>a b. a), subF32 = (\<lambda>a b. a), mulF32 = (\<lambda>a b. a), divF32 = (\<lambda>a b. a),
          ltF32 = (\<lambda>a b. False), leF32 = (\<lambda>a b. False), gtF32 = (\<lambda>a b. False),
          geF32 = (\<lambda>a b. False), eqF32 = (\<lambda>a b. a = b),
          sinF32 = (\<lambda>a. a), cosF32 = (\<lambda>a. a), sqrtF32 = (\<lambda>a. a),
          i32ToF32 = (\<lambda>a. a), f32ToI32 = (\<lambda>a. a),
          f32ToString = (\<lambda>a. []), stof = (\<lambda>bs. None), strToTag = (\<lambda>bs. TAG_UNDEF),
          isValidIdent = (\<lambda>bs. bs \<noteq> []), posToString = (\<lambda>hp v. ''pos''),
          importPkg = (\<lambda>name s. (Inl (RunError ''no package''), s)),
          callHost = (\<lambda>f args s. (Inr UNDEF, s))\<rparr>"

definition obj :: "int \<Rightarrow> Value" where "obj p = Value p TAG_OBJECT"
definition arr :: "int \<Rightarrow> Value" where "arr p = Value p TAG_ARRAY"
definition str :: "int \<Rightarrow> Value" where "str p = Value p TAG_STRING"

text \<open>
  The example images. The strings 100 to 113 are the names of the operations; in every
  image the function called from outside is object 1.
\<close>

definition opNames :: "(int \<times> HeapObj) list" where
  "opNames = [
     (100, HStr ''push''),
     (101, HStr ''call''),
     (102, HStr ''ret''),
     (103, HStr ''get_local''),
     (104, HStr ''set_local''),
     (105, HStr ''jump''),
     (106, HStr ''if_true''),
     (107, HStr ''sub_i32''),
     (108, HStr ''gt_i32''),
     (109, HStr ''get_char''),
     (110, HStr ''pop''),
     (111, HStr ''new_object''),
     (112, HStr ''set_field''),
     (113, HStr ''get_field'')]"

text \<open>
  Function 1 pushes 5 and function 20, calls it with one argument and returns what it
  returns; function 20 returns its argument. Object 30 is a source position.
\<close>

definition imgCall :: "int \<Rightarrow> HeapObj option" where
  "imgCall = map_of (opNames @ [
     (1, HObj [(''entry'', obj 2), (''num_params'', int32 0), (''num_locals'', int32 0)]),
     (30, HObj []),
     (200, HObj [(''op'', str 100), (''val'', int32 5)]),
     (201, HObj [(''op'', str 100), (''val'', obj 20)]),
     (202, HObj [(''op'', str 101), (''num_args'', int32 1), (''ret_to'', obj 7), (''src_pos'', obj 30)]),
     (2, HObj [(''instrs'', arr 203)]),
     (203, HArr [obj 200, obj 201, obj 202]),
     (204, HObj [(''op'', str 102)]),
     (7, HObj [(''instrs'', arr 205)]),
     (205, HArr [obj 204]),
     (20, HObj [(''entry'', obj 21), (''num_params'', int32 1), (''num_locals'', int32 1)]),
     (206, HObj [(''op'', str 103), (''idx'', int32 0)]),
     (207, HObj [(''op'', str 102)]),
     (21, HObj [(''instrs'', arr 208)]),
     (208, HArr [obj 206, obj 207])])"

text \<open>
  Function 1 calls function 20 with one argument; function 20 declares one parameter and
  no local.
\<close>

definition imgLocals :: "int \<Rightarrow> HeapObj option" where
  "imgLocals = map_of (opNames @ [
     (1, HObj [(''entry'', obj 2), (''num_params'', int32 0), (''num_locals'', int32 0)]),
     (200, HObj [(''op'', str 100), (''val'', int32 5)]),
     (201, HObj [(''op'', str 100), (''val'', obj 20)]),
     (202, HObj [(''op'', str 101), (''num_args'', int32 1), (''ret_to'', obj 7)]),
     (2, HObj [(''instrs'', arr 203)]),
     (203, HArr [obj 200, obj 201, obj 202]),
     (204, HObj [(''op'', str 102)]),
     (7, HObj [(''instrs'', arr 205)]),
     (205, HArr [obj 204]),
     (20, HObj [(''entry'', obj 21), (''num_params'', int32 1), (''num_locals'', int32 0)]),
     (206, HObj [(''op'', str 102)]),
     (21, HObj [(''instrs'', arr 207)]),
     (207, HArr [obj 206])])"

text \<open>
  Function 1 calls function 20, which has one parameter, with two arguments. Object 30 is
  the source position of the call.
\<close>

definition imgArgs :: "int \<Rightarrow> HeapObj option" where
  "imgArgs = map_of (opNames @ [
     (1, HObj [(''entry'', obj 2), (''num_params'', int32 0), (''num_locals'', int32 0)]),
     (30, HObj []),
     (200, HObj [(''op'', str 100), (''val'', int32 5)]),
     (201, HObj [(''op'', str 100), (''val'', int32 6)]),
     (202, HObj [(''op'', str 100), (''val'', obj 20)]),
     (203, HObj [(''op'', str 101), (''num_args'', int32 2), (''ret_to'', obj 7), (''src_pos'', obj 30)]),
     (2, HObj [(''instrs'', arr 204)]),
     (204, HArr [obj 200, obj 201, obj 202, obj 203]),
     (205, HObj [(''op'', str 102)]),
     (7, HObj [(''instrs'', arr 206)]),
     (206, HArr [obj 205]),
     (20, HObj [(''entry'', obj 21), (''num_params'', int32 1), (''num_locals'', int32 1)]),
     (207, HObj [(''op'', str 103), (''idx'', int32 0)]),
     (208, HObj [(''op'', str 102)]),
     (21, HObj [(''instrs'', arr 209)]),
     (209, HArr [obj 207, obj 208])])"

text \<open>
  Function 1 pushes function 20 and calls it with nine arguments, more than the stack
  holds.
\<close>

definition imgUnder :: "int \<Rightarrow> HeapObj option" where
  "imgUnder = map_of (opNames @ [
     (1, HObj [(''entry'', obj 2), (''num_params'', int32 0), (''num_locals'', int32 0)]),
     (200, HObj [(''op'', str 100), (''val'', obj 20)]),
     (201, HObj [(''op'', str 101), (''num_args'', int32 9), (''ret_to'', obj 7)]),
     (2, HObj [(''instrs'', arr 202)]),
     (202, HArr [obj 200, obj 201]),
     (203, HObj [(''op'', str 102)]),
     (7, HObj [(''instrs'', arr 204)]),
     (204, HArr [obj 203]),
     (20, HObj [(''entry'', obj 21), (''num_params'', int32 1), (''num_locals'', int32 1)]),
     (205, HObj [(''op'', str 103), (''idx'', int32 0)]),
     (206, HObj [(''op'', str 102)]),
     (21, HObj [(''instrs'', arr 207)]),
     (207, HArr [obj 205, obj 206])])"

text \<open>
  Function 1 pushes function 20 and calls it with one argument, for which it has pushed
  no operand.
\<close>

definition imgShort :: "int \<Rightarrow> HeapObj option" where
  "imgShort = map_of (opNames @ [
     (1, HObj [(''entry'', obj 2), (''num_params'', int32 0), (''num_locals'', int32 0)]),
     (200, HObj [(''op'', str 100), (''val'', obj 20)]),
     (201, HObj [(''op'', str 101), (''num_args'', int32 1), (''ret_to'', obj 7)]),
     (2, HObj [(''instrs'', arr 202)]),
     (202, HArr [obj 200, obj 201]),
     (203, HObj [(''op'', str 102)]),
     (7, HObj [(''instrs'', arr 204)]),
     (204, HArr [obj 203]),
     (20, HObj [(''entry'', obj 21), (''num_params'', int32 1), (''num_locals'', int32 1)]),
     (205, HObj [(''op'', str 103), (''idx'', int32 0)]),
     (206, HObj [(''op'', str 102)]),
     (21, HObj [(''instrs'', arr 207)]),
     (207, HArr [obj 205, obj 206])])"

text \<open>
  Function 1 pushes the integer 5 and calls it with no argument.
\<close>

definition imgCallee :: "int \<Rightarrow> HeapObj option" where
  "imgCallee = map_of (opNames @ [
     (1, HObj [(''entry'', obj 2), (''num_params'', int32 0), (''num_locals'', int32 0)]),
     (200, HObj [(''op'', str 100), (''val'', int32 5)]),
     (201, HObj [(''op'', str 101), (''num_args'', int32 0), (''ret_to'', obj 7)]),
     (2, HObj [(''instrs'', arr 202)]),
     (202, HArr [obj 200, obj 201]),
     (203, HObj [(''op'', str 102)]),
     (7, HObj [(''instrs'', arr 204)]),
     (204, HArr [obj 203])])"

text \<open>
  Function 1 pushes the integer 5 and branches on it: to block 5, which returns 1, if it
  is true, and to block 7, which returns 2, otherwise.
\<close>

definition imgIf :: "int \<Rightarrow> HeapObj option" where
  "imgIf = map_of (opNames @ [
     (1, HObj [(''entry'', obj 2), (''num_params'', int32 0), (''num_locals'', int32 0)]),
     (200, HObj [(''op'', str 100), (''val'', int32 5)]),
     (201, HObj [(''op'', str 106), (''then'', obj 5), (''else'', obj 7)]),
     (2, HObj [(''instrs'', arr 202)]),
     (202, HArr [obj 200, obj 201]),
     (203, HObj [(''op'', str 100), (''val'', int32 1)]),
     (204, HObj [(''op'', str 102)]),
     (5, HObj [(''instrs'', arr 205)]),
     (205, HArr [obj 203, obj 204]),
     (206, HObj [(''op'', str 100), (''val'', int32 2)]),
     (207, HObj [(''op'', str 102)]),
     (7, HObj [(''instrs'', arr 208)]),
     (208, HArr [obj 206, obj 207])])"



text \<open>
  Function 1 makes an object, sets its field x to 7 and returns 1.
\<close>

definition imgField :: "int \<Rightarrow> HeapObj option" where
  "imgField = map_of (opNames @ [
     (122, HStr ''x''),
     (1, HObj [(''entry'', obj 2), (''num_params'', int32 0), (''num_locals'', int32 0)]),
     (200, HObj [(''op'', str 100), (''val'', int32 0)]),
     (201, HObj [(''op'', str 111)]),
     (202, HObj [(''op'', str 100), (''val'', str 122)]),
     (203, HObj [(''op'', str 100), (''val'', int32 7)]),
     (204, HObj [(''op'', str 112)]),
     (205, HObj [(''op'', str 100), (''val'', int32 1)]),
     (206, HObj [(''op'', str 102)]),
     (2, HObj [(''instrs'', arr 207)]),
     (207, HArr [obj 200, obj 201, obj 202, obj 203, obj 204, obj 205, obj 206])])"

text \<open>
  Function 1 makes an object and reads its field x.
\<close>

definition imgGetField :: "int \<Rightarrow> HeapObj option" where
  "imgGetField = map_of (opNames @ [
     (122, HStr ''x''),
     (1, HObj [(''entry'', obj 2), (''num_params'', int32 0), (''num_locals'', int32 0)]),
     (200, HObj [(''op'', str 100), (''val'', int32 0)]),
     (201, HObj [(''op'', str 111)]),
     (202, HObj [(''op'', str 100), (''val'', str 122)]),
     (203, HObj [(''op'', str 113)]),
     (204, HObj [(''op'', str 102)]),
     (2, HObj [(''instrs'', arr 205)]),
     (205, HArr [obj 200, obj 201, obj 202, obj 203, obj 204])])"

text \<open>
  \<open>start img\<close>: the interpreter initialised on an image, with its code heap at 4096 and
  its stack at 8000000. \<open>entered img args\<close>: the state in which \<open>callFun\<close> on function
  1 enters the loop.
\<close>

definition start :: "(int \<Rightarrow> HeapObj option) \<Rightarrow> vm" where
  "start img = initInterp 4096 8000000 (globals0 img 1000 3000000)"

definition entered :: "(int \<Rightarrow> HeapObj option) \<Rightarrow> Value list \<Rightarrow> vm" where
  "entered img args = snd (callFun_enter h0 1 args (start img))"

text \<open>
  The state that a call of function 1 without arguments leaves.
\<close>

definition called :: "vm \<Rightarrow> vm" where
  "called s = (case callFun h0 100 1 [] s of Some (r, s') \<Rightarrow> s' | None \<Rightarrow> s)"

section \<open>Lemmas: well-formed states are kept\<close>

lemma ext_refl: "ext s s"
  by (simp add: ext_def)

lemma ext_trans: "ext s s' \<Longrightarrow> ext s' s'' \<Longrightarrow> ext s s''"
  unfolding ext_def by (intro conjI; simp)

lemma core_Good: "core s' = core s \<Longrightarrow> Inv s \<Longrightarrow> Inv s' \<and> ext s s'"
  by (simp add: core_def Inv_def ext_def jumpSite_def compiled_def)

lemma triD:
  "tri P m Q \<Longrightarrow> m s = (r, s') \<Longrightarrow> \<not> fatal r \<Longrightarrow> Inv s \<Longrightarrow> P s \<Longrightarrow>
     Inv s' \<and> ext s s' \<and> (case r of Inr x \<Rightarrow> Q x s' | Inl e \<Rightarrow> True)"
  unfolding tri_def by blast

lemma tri_bnd:
  assumes m: "tri P m R" and f: "\<And>x. tri (R x) (f x) Q"
  shows "tri P (bnd m f) Q"
  unfolding tri_def
proof (intro allI impI)
  fix s r s''
  assume run: "bnd m f s = (r, s'')" and nf: "\<not> fatal r" and inv: "Inv s" and pre: "P s"
  obtain r1 s1 where ms: "m s = (r1, s1)" by (cases "m s")
  show "Inv s'' \<and> ext s s'' \<and> (case r of Inr x \<Rightarrow> Q x s'' | Inl e \<Rightarrow> True)"
  proof (cases r1)
    case (Inl e)
    with run ms have eq: "r = Inl e" "s'' = s1" by (simp_all add: bnd_def)
    from ms Inl have 1: "m s = (Inl e, s1)" by simp
    from nf eq have 2: "\<not> fatal (Inl e :: error + 'a)" by (cases e) simp_all
    from triD[OF m 1 2 inv pre] eq show ?thesis by simp
  next
    case (Inr x)
    with run ms have fx: "f x s1 = (r, s'')" by (simp add: bnd_def)
    from ms Inr have "m s = (Inr x, s1)" by simp
    from triD[OF m this _ inv pre] have 1: "Inv s1" "ext s s1" "R x s1" by simp_all
    from triD[OF f fx nf 1(1) 1(3)]
    have 2: "Inv s''" "ext s1 s''" "(case r of Inr x \<Rightarrow> Q x s'' | Inl e \<Rightarrow> True)"
      by simp_all
    with 1 show ?thesis by (blast intro: ext_trans)
  qed
qed

lemma tri_weaken:
  "tri P' m Q' \<Longrightarrow> (\<And>s. P s \<Longrightarrow> P' s) \<Longrightarrow> (\<And>x s. Q' x s \<Longrightarrow> Q x s) \<Longrightarrow> tri P m Q"
  unfolding tri_def by (fastforce split: sum.splits)

lemma safe_bnd: "safe m \<Longrightarrow> (\<And>x. safe (f x)) \<Longrightarrow> safe (bnd m f)"
  unfolding safe_def by (rule tri_bnd)

lemma safe_if: "(b \<Longrightarrow> safe m) \<Longrightarrow> (\<not> b \<Longrightarrow> safe m') \<Longrightarrow> safe (if b then m else m')"
  by simp

lemma safe_case_option:
  "(x = None \<Longrightarrow> safe a) \<Longrightarrow> (\<And>y. x = Some y \<Longrightarrow> safe (b y)) \<Longrightarrow> safe (case x of None \<Rightarrow> a | Some y \<Rightarrow> b y)"
  by (cases x) simp_all

lemma safe_core: "(\<And>s. core (snd (m s)) = core s) \<Longrightarrow> safe m"
  unfolding safe_def tri_def
  by (metis core_Good snd_conv sum.case_eq_if)

lemma safe_ret: "safe (ret x)"
  by (rule safe_core) (simp add: ret_def)

lemma safe_throw: "safe (throw e)"
  by (rule safe_core) (simp add: throw_def)

lemma safe_assert: "safe (assert b)"
  by (simp add: assert_def safe_ret safe_throw)

lemma safe_assertS: "safe (assertS P)"
  by (rule safe_core) (simp add: assertS_def)

lemma safe_gets: "safe (gets f)"
  by (rule safe_core) (simp add: gets_def)

lemma safe_modify: "(\<And>s. core (f s) = core s) \<Longrightarrow> safe (modify f)"
  by (rule safe_core) (simp add: modify_def)

lemma safe_readCode: "safe (readCode sz)"
  by (rule safe_core) (simp add: readCode_def core_def split: option.splits)

lemma safe_readOpcode: "safe readOpcode"
  by (rule safe_core)
    (simp add: readOpcode_def readCode_def bnd_def ret_def throw_def core_def
      split: option.splits Code.splits)

lemma safe_readU16: "safe readU16"
  by (rule safe_core)
    (simp add: readU16_def readCode_def bnd_def ret_def throw_def core_def
      split: option.splits Code.splits)

lemma safe_readValue: "safe readValue"
  by (rule safe_core)
    (simp add: readValue_def readCode_def bnd_def ret_def throw_def core_def
      split: option.splits Code.splits)

lemma safe_readPtr: "safe readPtr"
  by (rule safe_core)
    (simp add: readPtr_def readCode_def bnd_def ret_def throw_def core_def
      split: option.splits Code.splits)

lemma safe_readTag: "safe readTag"
  by (rule safe_core)
    (simp add: readTag_def readCode_def bnd_def ret_def throw_def core_def
      split: option.splits Code.splits)

lemma safe_pushVal: "safe (pushVal v)"
  by (rule safe_core) (simp add: pushVal_def core_def)

lemma safe_popVal: "safe popVal"
  by (rule safe_core) (simp add: popVal_def core_def)

lemma safe_strBytes: "safe (strBytes p)"
  by (rule safe_core) (simp add: strBytes_def split: option.splits HeapObj.splits)

lemma safe_objFields: "safe (objFields p)"
  by (rule safe_core) (simp add: objFields_def split: option.splits HeapObj.splits)

lemma safe_arrElems: "safe (arrElems p)"
  by (rule safe_core) (simp add: arrElems_def split: option.splits HeapObj.splits)

lemma safe_newHeapObj: "safe (newHeapObj x)"
  by (rule safe_core) (simp add: newHeapObj_def core_def)

lemma safe_storeHeapObj: "safe (storeHeapObj p x)"
  by (rule safe_core) (simp add: storeHeapObj_def core_def)

lemma safe_getVersion: "safe (getVersion p)"
  by (rule safe_core) (simp add: getVersion_def split: option.splits)

lemma safe_getCodePtr: "safe (getCodePtr p)"
  by (rule safe_core) (simp add: getCodePtr_def split: option.splits Code.splits)

lemmas safe_basic [safe_intros] =
  safe_bnd safe_if safe_case_option safe_ret safe_throw safe_assert safe_assertS safe_gets
  safe_modify safe_readCode safe_readOpcode safe_readU16 safe_readValue safe_readPtr
  safe_readTag safe_pushVal safe_popVal safe_strBytes safe_objFields safe_arrElems
  safe_newHeapObj safe_storeHeapObj safe_getVersion safe_getCodePtr

lemma safe_pushBool [safe_intros]: "safe (pushBool b)"
  unfolding pushBool_def by (intro safe_intros)

lemma safe_popBool [safe_intros]: "safe popBool"
  unfolding popBool_def by (intro safe_intros)


lemma safe_popFloat32 [safe_intros]: "safe popFloat32"
  unfolding popFloat32_def by (intro safe_intros)


lemma safe_popObj [safe_intros]: "safe popObj"
  unfolding popObj_def by (intro safe_intros)

lemma safe_popArr [safe_intros]: "safe popArr"
  unfolding popArr_def by (intro safe_intros)

lemma safe_newString [safe_intros]: "safe (newString bs)"
  unfolding newString_def by (intro safe_intros)

lemma safe_hasField [safe_intros]: "safe (hasField p n)"
  unfolding hasField_def by (intro safe_intros)

lemma safe_getField [safe_intros]: "safe (getField p n)"
  unfolding getField_def by (intro safe_intros)

lemma safe_setField [safe_intros]: "safe (setField p n v)"
  unfolding setField_def by (intro safe_intros)

lemma safe_ICache_getField [safe_intros]: "safe (ICache_getField n p)"
  unfolding ICache_getField_def by (intro safe_intros)

lemma safe_ICache_getInt32 [safe_intros]: "safe (ICache_getInt32 n p)"
  unfolding ICache_getInt32_def by (intro safe_intros)

lemma safe_ICache_getStr [safe_intros]: "safe (ICache_getStr n p)"
  unfolding ICache_getStr_def by (intro safe_intros)

lemma safe_ICache_getObj [safe_intros]: "safe (ICache_getObj n p)"
  unfolding ICache_getObj_def by (intro safe_intros)

lemma safe_ICache_getArr [safe_intros]: "safe (ICache_getArr n p)"
  unfolding ICache_getArr_def by (intro safe_intros)

lemma sizeof_pos: "0 < sizeof c"
  by (cases c) (simp_all add: sizeof_def sizeofOpcode_def sizeofU16_def sizeofValue_def
      sizeofPtr_def sizeofTag_def)

lemma safe_writeCode [safe_intros]: "safe (writeCode c)"
  unfolding safe_def tri_def
proof (intro allI impI)
  fix s r s'
  assume run: "writeCode c s = (r, s')" and nf: "\<not> fatal r" and inv: "Inv s"
  let ?a = "codeHeapAlloc s"
  from run nf have ok: "?a < codeHeapLimit s" "?a + sizeof c \<le> codeHeapLimit s"
    and s': "s' = s\<lparr>code := (code s)(?a \<mapsto> c), codeHeapAlloc := ?a + sizeof c\<rparr>"
    by (auto simp: writeCode_def Let_def split: if_splits)
  have pos: "0 < sizeof c" by (rule sizeof_pos)
  from inv have old: "\<And>a c'. code s a = Some c' \<Longrightarrow> a + sizeof c' \<le> ?a"
    by (simp add: Inv_def)
  have ne: "\<And>a c'. code s a = Some c' \<Longrightarrow> a \<noteq> ?a"
    using old sizeof_pos by (metis add.commute less_add_same_cancel2 not_le)
  have "Inv s'"
    using inv pos ok unfolding Inv_def s'
    by (auto split: if_splits) (force dest: old)+
  moreover have "ext s s'"
    using pos unfolding ext_def s' jumpSite_def compiled_def
    by (auto dest: ne)
  ultimately show "Inv s' \<and> ext s s' \<and> (case r of Inr x \<Rightarrow> True | Inl e \<Rightarrow> True)"
    by (simp split: sum.splits)
qed

lemma safe_getBlockVersion [safe_intros]: "safe (getBlockVersion f blk)"
  unfolding safe_def tri_def
proof (intro allI impI)
  fix s r s'
  assume run: "getBlockVersion f blk s = (r, s')" and nf: "\<not> fatal r" and inv: "Inv s"
  from inv have fresh: "versions s (verAlloc s) = None"
    by (cases "versions s (verAlloc s)") (auto simp: Inv_def)
  show "Inv s' \<and> ext s s' \<and> (case r of Inr x \<Rightarrow> True | Inl e \<Rightarrow> True)"
  proof (cases "versionMap s blk")
    case None
    with run have s': "s' = s\<lparr>versionMap := (versionMap s)(blk \<mapsto> [verAlloc s]),
        versions := (versions s)(verAlloc s \<mapsto> \<lparr>startPtr = 0, endPtr = 0, vfun = f, vblock = blk\<rparr>),
        verAlloc := verAlloc s + 1\<rparr>"
      by (simp add: getBlockVersion_def Let_def)
    have "Inv s'" using inv fresh unfolding Inv_def s' by (auto split: if_splits)
    moreover have "ext s s'" using fresh unfolding ext_def s' jumpSite_def compiled_def by auto
    ultimately show ?thesis by (simp split: sum.splits)
  next
    case (Some vs)
    with run nf have "s' = s"
      by (auto simp: getBlockVersion_def split: if_splits option.splits)
    with inv show ?thesis by (simp add: ext_refl split: sum.splits)
  qed
qed

lemma safe_compileInstr [safe_intros]: "safe (compileInstr h version instrVal)"
  unfolding compileInstr_def Let_def
  by (intro safe_intros) (simp_all add: core_def)

lemma safe_compileInstrs [safe_intros]: "safe (compileInstrs h version instrs)"
  by (induction instrs) (auto intro: safe_intros)

lemma ext_compiled: "ext s s' \<Longrightarrow> compiled v s \<Longrightarrow> compiled v s'"
  by (simp add: ext_def)

lemma tri_safe: "safe m \<Longrightarrow> tri (\<lambda>s. True) m (\<lambda>x s. True)"
  by (simp add: safe_def)

lemma tri_keep_compiled:
  assumes "safe m"
  shows "tri (compiled v) m (\<lambda>x. compiled v)"
  unfolding tri_def
proof (intro allI impI)
  fix s r s'
  assume run: "m s = (r, s')" and nf: "\<not> fatal r" and inv: "Inv s" and c: "compiled v s"
  from triD[OF assms[unfolded safe_def] run nf inv] have "Inv s'" "ext s s'" by simp_all
  with c show "Inv s' \<and> ext s s' \<and> (case r of Inr x \<Rightarrow> compiled v s' | Inl e \<Rightarrow> True)"
    by (auto split: sum.splits dest: ext_compiled)
qed


lemma tri_setStartPtr:
  "tri (\<lambda>s. x = codeHeapAlloc s) (setStartPtr v x) (\<lambda>_. compiled v)"
  unfolding tri_def
proof (intro allI impI)
  fix s r s'
  assume run: "setStartPtr v x s = (r, s')" and nf: "\<not> fatal r" and inv: "Inv s"
    and x: "x = codeHeapAlloc s"
  from run nf obtain ver where ver: "versions s v = Some ver"
    and s': "s' = s\<lparr>versions := (versions s)(v \<mapsto> ver\<lparr>startPtr := x\<rparr>)\<rparr>" and r: "r = Inr ()"
    by (auto simp: setStartPtr_def split: option.splits)
  from inv x have x0: "x \<noteq> 0" by (auto simp: Inv_def)
  have "Inv s'" using inv ver x unfolding Inv_def s' by (auto split: if_splits)
  moreover have "ext s s'" using x0 unfolding ext_def s' jumpSite_def compiled_def by auto
  moreover have "compiled v s'" using x0 by (simp add: compiled_def s')
  ultimately show "Inv s' \<and> ext s s' \<and> (case r of Inr x \<Rightarrow> compiled v s' | Inl e \<Rightarrow> True)"
    by (simp add: r)
qed

lemma safe_setEndPtr [safe_intros]: "safe (setEndPtr v x)"
  unfolding safe_def tri_def
proof (intro allI impI)
  fix s r s'
  assume run: "setEndPtr v x s = (r, s')" and nf: "\<not> fatal r" and inv: "Inv s"
  from run nf obtain ver where ver: "versions s v = Some ver"
    and s': "s' = s\<lparr>versions := (versions s)(v \<mapsto> ver\<lparr>endPtr := x\<rparr>)\<rparr>"
    by (auto simp: setEndPtr_def split: option.splits)
  have "Inv s'" using inv ver unfolding Inv_def s' by (auto split: if_splits)
  moreover have "ext s s'" using ver unfolding ext_def s' jumpSite_def compiled_def by auto
  ultimately show "Inv s' \<and> ext s s' \<and> (case r of Inr x \<Rightarrow> True | Inl e \<Rightarrow> True)"
    by (simp split: sum.splits)
qed

lemma tri_gets: "tri (\<lambda>s. True) (gets f) (\<lambda>x s. x = f s)"
  unfolding tri_def by (auto simp: gets_def ext_refl)

lemma tri_throw: "tri P (throw e) Q"
  unfolding tri_def by (auto simp: throw_def ext_refl)

lemma tri_getVersion: "tri (\<lambda>s. True) (getVersion v) (\<lambda>ver s. versions s v = Some ver)"
  unfolding tri_def by (auto simp: getVersion_def ext_refl split: option.splits)

lemma tri_compile: "tri (\<lambda>s. True) (compile h v) (\<lambda>_. compiled v)"
proof -
  have rest: "tri (compiled v)
      (bnd (compileInstrs h v instrs) (\<lambda>_. bnd (gets codeHeapAlloc) (\<lambda>fin. setEndPtr v fin)))
      (\<lambda>_. compiled v)" for instrs
    by (intro tri_bnd[where R="\<lambda>_. compiled v"] tri_keep_compiled safe_intros)
  have start: "tri (\<lambda>s. True)
      (bnd (gets codeHeapAlloc) (\<lambda>start. bnd (setStartPtr v start) (\<lambda>_.
         bnd (compileInstrs h v instrs) (\<lambda>_. bnd (gets codeHeapAlloc) (\<lambda>fin. setEndPtr v fin)))))
      (\<lambda>_. compiled v)" for instrs
    by (intro tri_bnd[where R="\<lambda>x s. x = codeHeapAlloc s"] tri_gets
           tri_bnd[where R="\<lambda>_. compiled v"] tri_setStartPtr rest)
  have body: "tri (\<lambda>s. True)
      (if length instrs = 0 then throw (RunError ''empty basic block'')
       else bnd (gets codeHeapAlloc) (\<lambda>start. bnd (setStartPtr v start) (\<lambda>_.
         bnd (compileInstrs h v instrs) (\<lambda>_. bnd (gets codeHeapAlloc) (\<lambda>fin. setEndPtr v fin)))))
      (\<lambda>_. compiled v)" for instrs
    using start[of instrs] by (simp add: tri_throw)
  show ?thesis
    unfolding compile_def
    by (intro tri_bnd[where R="\<lambda>_ _. True"] tri_safe safe_intros body)
qed

lemma tri_compileIfNeeded: "tri (\<lambda>s. True) (compileIfNeeded h v) (\<lambda>_. compiled v)"
  unfolding compileIfNeeded_def
proof (rule tri_bnd[OF tri_getVersion])
  fix ver
  show "tri (\<lambda>s. versions s v = Some ver)
          (if startPtr ver = 0 then compile h v else ret ()) (\<lambda>_. compiled v)"
  proof (cases "startPtr ver = 0")
    case True
    then show ?thesis by (simp add: tri_weaken[OF tri_compile])
  next
    case False
    then show ?thesis
      unfolding tri_def by (auto simp: ret_def ext_refl compiled_def)
  qed
qed

lemma safe_compileIfNeeded [safe_intros]: "safe (compileIfNeeded h v)"
  unfolding safe_def by (rule tri_weaken[OF tri_compileIfNeeded]) simp_all

lemma safe_compile [safe_intros]: "safe (compile h v)"
  unfolding safe_def by (rule tri_weaken[OF tri_compile]) simp_all



lemma bnd_assoc: "bnd (bnd m f) g = bnd m (\<lambda>x. bnd (f x) g)"
  by (rule ext) (simp add: bnd_def split: prod.splits sum.splits)


lemma valEq_TRUE: "valEq s v TRUE \<longleftrightarrow> v = TRUE"
  by (simp add: valEq_def TRUE_def)




lemma safe_with_state:
  assumes "\<And>x. safe (m x)"
  shows "safe (\<lambda>s. m (g s) s)"
  unfolding safe_def tri_def
proof (intro allI impI)
  fix s r s'
  assume run: "m (g s) s = (r, s')" and nf: "\<not> fatal r" and inv: "Inv s"
  from triD[OF assms[of "g s", unfolded safe_def] run nf inv]
  show "Inv s' \<and> ext s s' \<and> (case r of Inr x \<Rightarrow> True | Inl e \<Rightarrow> True)"
    by (simp split: sum.splits)
qed

lemma safe_srcPosLoop [safe_intros]: "safe (srcPosLoop instrs)"
proof (induction instrs)
  case Nil
  show ?case by (simp add: safe_ret)
next
  case (Cons a instrs)
  show ?case unfolding srcPosLoop.simps by (intro safe_intros Cons.IH)
qed

lemma safe_getSrcPos [safe_intros]: "safe (getSrcPos a)"
  unfolding getSrcPos_def by (intro safe_intros)

lemma safe_checkArgCount [safe_intros]: "safe (checkArgCount h a np na)"
  unfolding checkArgCount_def Let_def by (intro safe_intros)

lemma safe_funCall [safe_intros]: "safe (funCall h callInstr f numArgs retVer)"
  unfolding funCall_def Let_def by (intro safe_intros) (simp_all add: core_def)

lemma safe_callHost: "hostOK h \<Longrightarrow> safe (callHost h f args)"
  by (simp add: hostOK_def)

lemma safe_callHost_args: "hostOK h \<Longrightarrow> safe (\<lambda>s. callHost h f (g s) s)"
  by (rule safe_with_state) (simp add: hostOK_def)


lemma safe_hostCall [safe_intros]: "hostOK h \<Longrightarrow> safe (hostCall h callInstr f numArgs retVer)"
  unfolding hostCall_def Let_def
  by (intro safe_intros safe_callHost safe_callHost_args) (simp_all add: core_def)







lemma safe_copyArgs [safe_intros]: "safe (copyArgs i args)"
proof (induction args arbitrary: i)
  case Nil
  show ?case by (simp add: safe_ret)
next
  case (Cons a args)
  show ?case unfolding copyArgs.simps
    by (intro safe_intros Cons.IH) (simp add: core_def)
qed





section \<open>Lemmas: what the compiler leaves alone\<close>

lemma keepsD: "keeps m \<Longrightarrow> m s = (r, s') \<Longrightarrow> frame s' = frame s"
  unfolding keeps_def by (metis snd_conv)

lemma keeps_bnd: "keeps m \<Longrightarrow> (\<And>x. keeps (f x)) \<Longrightarrow> keeps (bnd m f)"
  unfolding keeps_def bnd_def
  by (auto split: prod.splits sum.splits) (metis snd_conv)+

lemma keeps_if: "(b \<Longrightarrow> keeps m) \<Longrightarrow> (\<not> b \<Longrightarrow> keeps m') \<Longrightarrow> keeps (if b then m else m')"
  by simp

lemma keeps_case_option:
  "(x = None \<Longrightarrow> keeps a) \<Longrightarrow> (\<And>y. x = Some y \<Longrightarrow> keeps (b y)) \<Longrightarrow>
   keeps (case x of None \<Rightarrow> a | Some y \<Rightarrow> b y)"
  by (cases x) simp_all

lemma keeps_ret: "keeps (ret x)"
  by (simp add: keeps_def ret_def)

lemma keeps_throw: "keeps (throw e)"
  by (simp add: keeps_def throw_def)

lemma keeps_assert: "keeps (assert b)"
  by (simp add: assert_def keeps_ret keeps_throw)

lemma keeps_gets: "keeps (gets f)"
  by (simp add: keeps_def gets_def)

lemma keeps_modify: "(\<And>s. frame (f s) = frame s) \<Longrightarrow> keeps (modify f)"
  by (simp add: keeps_def modify_def)

lemma keeps_writeCode: "keeps (writeCode c)"
  by (simp add: keeps_def writeCode_def frame_def Let_def)

lemma keeps_getVersion: "keeps (getVersion v)"
  by (simp add: keeps_def getVersion_def split: option.splits)

lemma keeps_setStartPtr: "keeps (setStartPtr v x)"
  by (simp add: keeps_def setStartPtr_def frame_def split: option.splits)

lemma keeps_setEndPtr: "keeps (setEndPtr v x)"
  by (simp add: keeps_def setEndPtr_def frame_def split: option.splits)

lemma keeps_getBlockVersion: "keeps (getBlockVersion f blk)"
  by (simp add: keeps_def getBlockVersion_def frame_def Let_def split: option.splits)

lemma keeps_strBytes: "keeps (strBytes p)"
  by (simp add: keeps_def strBytes_def split: option.splits HeapObj.splits)

lemma keeps_objFields: "keeps (objFields p)"
  by (simp add: keeps_def objFields_def split: option.splits HeapObj.splits)

lemma keeps_arrElems: "keeps (arrElems p)"
  by (simp add: keeps_def arrElems_def split: option.splits HeapObj.splits)

lemmas keeps_basic [keeps_intros] =
  keeps_bnd keeps_if keeps_case_option keeps_ret keeps_throw keeps_assert keeps_gets
  keeps_modify keeps_writeCode keeps_getVersion keeps_setStartPtr keeps_setEndPtr
  keeps_getBlockVersion keeps_strBytes keeps_objFields keeps_arrElems

lemma keeps_hasField [keeps_intros]: "keeps (hasField p n)"
  unfolding hasField_def by (intro keeps_intros)

lemma keeps_getField [keeps_intros]: "keeps (getField p n)"
  unfolding getField_def by (intro keeps_intros)

lemma keeps_ICache_getField [keeps_intros]: "keeps (ICache_getField n p)"
  unfolding ICache_getField_def by (intro keeps_intros)

lemma keeps_ICache_getInt32 [keeps_intros]: "keeps (ICache_getInt32 n p)"
  unfolding ICache_getInt32_def by (intro keeps_intros)

lemma keeps_ICache_getStr [keeps_intros]: "keeps (ICache_getStr n p)"
  unfolding ICache_getStr_def by (intro keeps_intros)

lemma keeps_ICache_getObj [keeps_intros]: "keeps (ICache_getObj n p)"
  unfolding ICache_getObj_def by (intro keeps_intros)

lemma keeps_ICache_getArr [keeps_intros]: "keeps (ICache_getArr n p)"
  unfolding ICache_getArr_def by (intro keeps_intros)

lemma keeps_compileInstr [keeps_intros]: "keeps (compileInstr h version instrVal)"
  unfolding compileInstr_def Let_def
  by (intro keeps_intros) (simp_all add: frame_def)

lemma keeps_compileInstrs [keeps_intros]: "keeps (compileInstrs h version instrs)"
proof (induction instrs)
  case Nil
  show ?case by (simp add: keeps_ret)
next
  case (Cons a instrs)
  show ?case unfolding compileInstrs.simps by (intro keeps_intros Cons.IH)
qed

lemma keeps_compile [keeps_intros]: "keeps (compile h v)"
  unfolding compile_def by (intro keeps_intros)

lemma keeps_compileIfNeeded [keeps_intros]: "keeps (compileIfNeeded h v)"
  unfolding compileIfNeeded_def by (intro keeps_intros)

lemma keeps_srcPosLoop [keeps_intros]: "keeps (srcPosLoop instrs)"
proof (induction instrs)
  case Nil
  show ?case by (simp add: keeps_ret)
next
  case (Cons a instrs)
  show ?case unfolding srcPosLoop.simps by (intro keeps_intros Cons.IH)
qed

lemma keeps_getSrcPos [keeps_intros]: "keeps (getSrcPos a)"
  unfolding getSrcPos_def by (intro keeps_intros)

lemma keeps_checkArgCount [keeps_intros]: "keeps (checkArgCount h a np na)"
  unfolding checkArgCount_def Let_def by (intro keeps_intros)

lemma frame_fields:
  "frame s' = frame s \<Longrightarrow>
     stack s' = stack s \<and> stackPtr s' = stackPtr s \<and> framePtr s' = framePtr s \<and>
     stackLimit s' = stackLimit s \<and> stackBase s' = stackBase s \<and> heap s' = heap s \<and>
     instrPtr s' = instrPtr s \<and> charStrings s' = charStrings s"
  by (simp add: frame_def)

section \<open>Lemmas: single statements and single steps\<close>

lemma readsD: "reads m \<Longrightarrow> m s = (r, s') \<Longrightarrow> s' = s"
  unfolding reads_def by (metis snd_conv)

lemma reads_bnd: "reads m \<Longrightarrow> (\<And>x. reads (f x)) \<Longrightarrow> reads (bnd m f)"
  unfolding reads_def bnd_def
  by (auto split: prod.splits sum.splits) (metis snd_conv)+

lemma reads_if: "(b \<Longrightarrow> reads m) \<Longrightarrow> (\<not> b \<Longrightarrow> reads m') \<Longrightarrow> reads (if b then m else m')"
  by simp

lemma reads_case_option:
  "(x = None \<Longrightarrow> reads a) \<Longrightarrow> (\<And>y. x = Some y \<Longrightarrow> reads (b y)) \<Longrightarrow>
   reads (case x of None \<Rightarrow> a | Some y \<Rightarrow> b y)"
  by (cases x) simp_all

lemma reads_ret: "reads (ret x)"
  by (simp add: reads_def ret_def)

lemma reads_throw: "reads (throw e)"
  by (simp add: reads_def throw_def)

lemma reads_assert: "reads (assert b)"
  by (simp add: assert_def reads_ret reads_throw)

lemma reads_gets: "reads (gets f)"
  by (simp add: reads_def gets_def)

lemma reads_getVersion: "reads (getVersion v)"
  by (simp add: reads_def getVersion_def split: option.splits)

lemma reads_objFields: "reads (objFields p)"
  by (simp add: reads_def objFields_def split: option.splits HeapObj.splits)

lemma reads_arrElems: "reads (arrElems p)"
  by (simp add: reads_def arrElems_def split: option.splits HeapObj.splits)

lemmas reads_basic =
  reads_bnd reads_if reads_case_option reads_ret reads_throw reads_assert reads_gets
  reads_getVersion reads_objFields reads_arrElems

lemma reads_hasField: "reads (hasField p n)"
  unfolding hasField_def by (intro reads_basic)

lemma reads_getField: "reads (getField p n)"
  unfolding getField_def by (intro reads_basic)

lemma reads_ICache_getField: "reads (ICache_getField n p)"
  unfolding ICache_getField_def by (intro reads_basic)

lemma reads_ICache_getArr: "reads (ICache_getArr n p)"
  unfolding ICache_getArr_def by (intro reads_basic reads_ICache_getField)

lemma reads_srcPosLoop: "reads (srcPosLoop instrs)"
proof (induction instrs)
  case Nil
  show ?case by (simp add: reads_ret)
next
  case (Cons a instrs)
  show ?case unfolding srcPosLoop.simps
    by (intro reads_basic reads_hasField reads_getField Cons.IH)
qed

lemma reads_getSrcPos: "reads (getSrcPos a)"
  unfolding getSrcPos_def by (intro reads_basic reads_ICache_getArr reads_srcPosLoop)

lemma bnd_InrE:
  assumes "bnd m f s = (Inr y, s'')"
  obtains x s' where "m s = (Inr x, s')" and "f x s' = (Inr y, s'')"
  using assms by (auto simp: bnd_def split: prod.splits sum.splits)

lemma bnd_Inr: "m s = (Inr x, s') \<Longrightarrow> bnd m f s = f x s'"
  by (simp add: bnd_def)

lemma bnd_Inl: "m s = (Inl e, s') \<Longrightarrow> bnd m f s = (Inl e, s')"
  by (simp add: bnd_def)

lemma toWord32_int32 [simp]: "toWord32 (int32 w) = w"
  by (simp add: toWord32_def int32_def)

lemma step_at:
  "code s (instrPtr s) = Some (COp op) \<Longrightarrow> instrPtr s + sizeofOpcode \<le> codeHeapLimit s \<Longrightarrow>
   step h s = execInstr h (instrPtr s) op (s\<lparr>instrPtr := instrPtr s + sizeofOpcode\<rparr>)"
  by (simp add: step_def bnd_def gets_def readOpcode_def readCode_def ret_def)

lemma step_result:
  assumes "step h s = (r, s')" and "code s (instrPtr s) = Some (COp op)"
  shows "(instrPtr s + sizeofOpcode \<le> codeHeapLimit s \<and>
          execInstr h (instrPtr s) op (s\<lparr>instrPtr := instrPtr s + sizeofOpcode\<rparr>) = (r, s'))
         \<or> r = Inl AssertFailed"
  using assms
  by (auto simp: step_def bnd_def gets_def readOpcode_def readCode_def ret_def split: if_splits)

lemma execInstr_RET:
  "execInstr h a RET =
     bnd popVal (\<lambda>retVal.
     bnd popVal (\<lambda>retVerVal.
     bnd popVal (\<lambda>prevFramePtr.
     bnd popVal (\<lambda>prevStackPtr.
     bnd (modify (\<lambda>s. s\<lparr>framePtr := getWord prevFramePtr\<rparr>)) (\<lambda>_.
     bnd (modify (\<lambda>s. s\<lparr>stackPtr := getWord prevStackPtr\<rparr>)) (\<lambda>_.
     if getWord retVerVal = 0 then ret (Some retVal)
     else
       bnd (pushVal retVal) (\<lambda>_.
       bnd (compileIfNeeded h (getWord retVerVal)) (\<lambda>_.
       bnd (getVersion (getWord retVerVal)) (\<lambda>ver.
       bnd (modify (\<lambda>s. s\<lparr>instrPtr := startPtr ver\<rparr>)) (\<lambda>_. ret None))))))))))"
  unfolding execInstr_def Let_def by simp

lemma execInstr_CALL:
  "execInstr h a CALL =
     bnd (bnd readU16 (\<lambda>n.
          bnd readPtr (\<lambda>retVer.
          bnd popVal (\<lambda>callee.
          bnd (gets stackSize) (\<lambda>sz.
          if sz < int (unat n) then throw (RunError ''stack underflow at call'')
          else if isObject callee then funCall h a (getWord callee) (unat n) retVer
          else if isHostFn callee then hostCall h a callee (unat n) retVer
          else throw (RunError ''invalid callee at call site''))))))
       (\<lambda>_. ret None)"
  unfolding execInstr_def Let_def by simp

lemma execInstr_IF_TRUE:
  "execInstr h a IF_TRUE =
     bnd (bnd (gets instrPtr) (\<lambda>thenAddr.
          bnd readPtr (\<lambda>thenWord.
          bnd (gets instrPtr) (\<lambda>elseAddr.
          bnd readPtr (\<lambda>elseWord.
          bnd popVal (\<lambda>arg0.
          bnd (gets (\<lambda>s. valEq s arg0 TRUE)) (\<lambda>isTrue.
          if isTrue then
            bnd (gets (\<lambda>s. thenWord < codeHeap s \<or> thenWord \<ge> codeHeapLimit s)) (\<lambda>stub.
            bnd (if stub then
                   bnd (compileIfNeeded h thenWord) (\<lambda>_.
                   bnd (getVersion thenWord) (\<lambda>thenVer.
                   setCodePtr thenAddr (startPtr thenVer)))
                 else ret ()) (\<lambda>_.
            bnd (getCodePtr thenAddr) (\<lambda>target.
            modify (\<lambda>s. s\<lparr>instrPtr := target\<rparr>))))
          else
            bnd (gets (\<lambda>s. elseWord < codeHeap s \<or> elseWord \<ge> codeHeapLimit s)) (\<lambda>stub.
            bnd (if stub then
                   bnd (compileIfNeeded h elseWord) (\<lambda>_.
                   bnd (getVersion elseWord) (\<lambda>elseVer.
                   setCodePtr elseAddr (startPtr elseVer)))
                 else ret ()) (\<lambda>_.
            bnd (getCodePtr elseAddr) (\<lambda>target.
            modify (\<lambda>s. s\<lparr>instrPtr := target\<rparr>)))))))))))
       (\<lambda>_. ret None)"
  unfolding execInstr_def Let_def by simp




lemma execInstr_GET_FIELD:
  "execInstr h a GET_FIELD =
     bnd (bnd popStr (\<lambda>fieldStr.
          bnd popObj (\<lambda>obj.
          bnd (strBytes fieldStr) (\<lambda>fieldName.
          bnd (hasField obj fieldName) (\<lambda>has.
          if \<not> has then
            throw (RunError (''get_field failed, missing field '' @ [dq] @ fieldName @ [dq]))
          else bnd (getField obj fieldName) pushVal)))))
       (\<lambda>_. ret None)"
  unfolding execInstr_def Let_def by simp

lemma execInstr_SET_FIELD:
  "execInstr h a SET_FIELD =
     bnd (bnd popVal (\<lambda>val.
          bnd popStr (\<lambda>fieldStr.
          bnd popObj (\<lambda>obj.
          bnd (strBytes fieldStr) (\<lambda>fieldName.
          if \<not> isValidIdent h fieldName then
            throw (RunError (''invalid identifier in set_field '' @ [dq] @ fieldName @ [dq]))
          else setField obj fieldName val)))))
       (\<lambda>_. ret None)"
  unfolding execInstr_def Let_def by simp

lemma pair_snd: "m = (x, snd m) \<longleftrightarrow> fst m = x"
  by (cases m) auto

lemma compileIfNeeded_version:
  "compileIfNeeded h v s = (Inr x, s') \<Longrightarrow> \<exists>ver. versions s' v = Some ver"
  by (auto simp: compileIfNeeded_def compile_def bnd_def getVersion_def ret_def throw_def
        setEndPtr_def gets_def
      split: option.splits if_splits prod.splits sum.splits)

lemma step_RET:
  assumes op: "code s (instrPtr s) = Some (COp RET)"
    and lim: "instrPtr s + sizeofOpcode \<le> codeHeapLimit s"
    and four: "stackPtr s + 4 \<le> stackBase s"
  shows "step h s =
     (let retVal = stack s (stackPtr s);
          retVer = getWord (stack s (stackPtr s + 1));
          prevFramePtr = getWord (stack s (stackPtr s + 2));
          prevStackPtr = getWord (stack s (stackPtr s + 3));
          s1 = s\<lparr>instrPtr := instrPtr s + sizeofOpcode, framePtr := prevFramePtr,
                 stackPtr := prevStackPtr\<rparr>
      in if retVer = 0 then (Inr (Some retVal), s1)
         else bnd (pushVal retVal) (\<lambda>_.
              bnd (compileIfNeeded h retVer) (\<lambda>_.
              bnd (getVersion retVer) (\<lambda>ver.
              bnd (modify (\<lambda>s. s\<lparr>instrPtr := startPtr ver\<rparr>)) (\<lambda>_. ret None)))) s1)"
proof -
  have pops: "stackPtr s < stackBase s" "stackPtr s + 1 < stackBase s"
    "stackPtr s + 2 < stackBase s" "stackPtr s + 3 < stackBase s"
    using four by simp_all
  show ?thesis
    using pops
    by (simp add: step_at[OF op lim] execInstr_RET bnd_def popVal_def modify_def ret_def
        Let_def add.commute add.left_commute)
qed

lemma step_CALL:
  assumes op: "code s (instrPtr s) = Some (COp CALL)"
    and n: "code s (instrPtr s + 2) = Some (CU16 n)"
    and rv: "code s (instrPtr s + 4) = Some (CPtr retVer)"
    and lim: "instrPtr s + 12 \<le> codeHeapLimit s"
    and top: "stackPtr s < stackBase s"
  shows "step h s =
     (let s1 = s\<lparr>instrPtr := instrPtr s + 12, stackPtr := stackPtr s + 1\<rparr>;
          callee = stack s (stackPtr s)
      in if stackBase s - (stackPtr s + 1) < uint n then
           (Inl (RunError ''stack underflow at call''), s1)
         else if isObject callee then
           bnd (funCall h (instrPtr s) (getWord callee) (unat n) retVer) (\<lambda>_. ret None) s1
         else if isHostFn callee then
           bnd (hostCall h (instrPtr s) callee (unat n) retVer) (\<lambda>_. ret None) s1
         else (Inl (RunError ''invalid callee at call site''), s1))"
proof -
  have lim2: "instrPtr s + sizeofOpcode \<le> codeHeapLimit s"
    using lim by (simp add: sizeofOpcode_def)
  show ?thesis
    using n rv lim top
    by (simp add: step_at[OF op lim2] execInstr_CALL bnd_def readU16_def readPtr_def
        readCode_def popVal_def gets_def stackSize_def throw_def ret_def sizeofOpcode_def
        sizeofU16_def sizeofPtr_def Let_def add.commute add.left_commute)
qed

lemma execLoop_steps: "steps h j s1 = Some s \<Longrightarrow> execLoop h (j + n) s1 = execLoop h n s"
proof (induction j arbitrary: s1)
  case 0
  then show ?case by simp
next
  case (Suc j)
  then show ?case
    by (auto split: prod.splits sum.splits option.splits)
qed

lemma steps_after: "\<not> Option.is_none (steps h n s) \<Longrightarrow> steps h n s = Some (after h n s)"
  by (cases "steps h n s") (simp_all add: after_def)

lemma setFieldList_absent: "map_of fs k = None \<Longrightarrow> setFieldList k v fs = fs @ [(k, v)]"
  by (induction fs) (auto split: if_splits)

lemma fatal_RunError: "\<not> fatal (Inl (RunError m))"
  by simp

lemma step_GET_FIELD_missing:
  assumes op: "code s (instrPtr s) = Some (COp GET_FIELD)"
    and lim: "instrPtr s + sizeofOpcode \<le> codeHeapLimit s"
    and two: "stackPtr s + 2 \<le> stackBase s"
    and name: "stack s (stackPtr s) = Value np TAG_STRING" "heap s np = Some (HStr name)"
    and obj: "stack s (stackPtr s + 1) = Value p TAG_OBJECT" "heap s p = Some (HObj fs)"
    and missing: "map_of fs name = None"
  shows "step h s =
           (Inl (RunError (''get_field failed, missing field '' @ [dq] @ name @ [dq])),
            s\<lparr>instrPtr := instrPtr s + sizeofOpcode, stackPtr := stackPtr s + 2\<rparr>)"
proof -
  have pops: "stackPtr s < stackBase s" "stackPtr s + 1 < stackBase s"
    using two by simp_all
  show ?thesis
    using pops name obj missing
    by (simp add: step_at[OF op lim] execInstr_GET_FIELD bnd_def popStr_def popObj_def
        popVal_def assert_def isString_def isObject_def strBytes_def hasField_def
        objFields_def ret_def throw_def add.commute add.left_commute)
qed

lemma step_SET_FIELD_missing:
  assumes op: "code t (instrPtr t) = Some (COp SET_FIELD)"
    and lim: "instrPtr t + sizeofOpcode \<le> codeHeapLimit t"
    and three: "stackPtr t + 3 \<le> stackBase t"
    and val: "stack t (stackPtr t) = val"
    and name: "stack t (stackPtr t + 1) = Value np TAG_STRING" "heap t np = Some (HStr name)"
    and obj: "stack t (stackPtr t + 2) = Value p TAG_OBJECT" "heap t p = Some (HObj fs)"
    and missing: "map_of fs name = None"
  shows "step h t =
           (if isValidIdent h name then
              (Inr None, t\<lparr>instrPtr := instrPtr t + sizeofOpcode, stackPtr := stackPtr t + 3,
                           heap := (heap t)(p \<mapsto> HObj (fs @ [(name, val)]))\<rparr>)
            else
              (Inl (RunError (''invalid identifier in set_field '' @ [dq] @ name @ [dq])),
               t\<lparr>instrPtr := instrPtr t + sizeofOpcode, stackPtr := stackPtr t + 3\<rparr>))"
proof -
  have pops: "stackPtr t < stackBase t" "stackPtr t + 1 < stackBase t"
    "stackPtr t + 2 < stackBase t"
    using three by simp_all
  show ?thesis
    using pops val name obj
    by (simp add: step_at[OF op lim] execInstr_SET_FIELD bnd_def popStr_def popObj_def
        popVal_def assert_def isString_def isObject_def strBytes_def setField_def
        objFields_def storeHeapObj_def ret_def throw_def setFieldList_absent[OF missing]
        add.commute add.left_commute)
qed

lemma ICache_getObj_run:
  "heap s p = Some (HObj fs) \<Longrightarrow> map_of fs name = Some (Value q TAG_OBJECT) \<Longrightarrow>
   ICache_getObj name p s = (Inr q, s)"
  by (simp add: ICache_getObj_def ICache_getField_def bnd_def objFields_def assert_def
      isObject_def ret_def)

lemma ICache_getInt32_run:
  "heap s p = Some (HObj fs) \<Longrightarrow> map_of fs name = Some (int32 w) \<Longrightarrow>
   ICache_getInt32 name p s = (Inr w, s)"
  by (simp add: ICache_getInt32_def ICache_getField_def bnd_def objFields_def assert_def
      isInt32_def ret_def int32_def toWord32_def)

lemma sizeT_unat16:
  assumes "unat (n :: 16 word) = sizeT P"
  shows "uint n = sint P"
proof -
  have lt: "uint n < 65536" using uint_lt2p[of n] by simp
  have ge: "- (2 ^ 31) \<le> sint P" using sint_ge[of P] by simp
  have "0 \<le> sint P mod (2 ^ 64 :: int)" by simp
  then have "int (sizeT P) = sint P mod 2 ^ 64" unfolding sizeT_def by simp
  moreover have "uint n = int (unat n)" by simp
  ultimately have eq: "uint n = sint P mod 2 ^ 64" using assms by simp
  show ?thesis
  proof (cases "sint P < 0")
    case True
    then have "sint P mod 2 ^ 64 = sint P + 2 ^ 64"
      using ge mod_add_self2[of "sint P" "2 ^ 64"] mod_pos_pos_trivial[of "sint P + 2 ^ 64" "2 ^ 64"] by simp
    with eq lt ge show ?thesis by simp
  next
    case False
    have "sint P < 2 ^ 64" using sint_lt[of P] by simp
    with False eq show ?thesis by simp
  qed
qed

lemma funCall_prefix:
  assumes hp: "heap s1 f = Some (HObj fs)"
    and ent: "map_of fs ''entry'' = Some (Value e TAG_OBJECT)"
    and nl: "map_of fs ''num_locals'' = Some (int32 L)"
    and np: "map_of fs ''num_params'' = Some (int32 P)"
    and gbv: "getBlockVersion f e s1 = (Inr v, s2)"
    and cin: "compileIfNeeded h v s2 = (Inr (), s3)"
    and pos: "fst (getSrcPos callInstr s3) = Inr srcPos"
  shows "frame s3 = frame s1"
    and "ICache_getObj ''entry'' f s1 = (Inr e, s1)"
    and "ICache_getInt32 ''num_locals'' f s3 = (Inr L, s3)"
    and "ICache_getInt32 ''num_params'' f s3 = (Inr P, s3)"
    and "getSrcPos callInstr s3 = (Inr srcPos, s3)"
proof -
  from keepsD[OF keeps_getBlockVersion gbv] keepsD[OF keeps_compileIfNeeded cin]
  show fr: "frame s3 = frame s1" by simp
  show "ICache_getObj ''entry'' f s1 = (Inr e, s1)"
    by (rule ICache_getObj_run[OF hp ent])
  from hp frame_fields[OF fr] have hp3: "heap s3 f = Some (HObj fs)" by simp
  show "ICache_getInt32 ''num_locals'' f s3 = (Inr L, s3)"
    by (rule ICache_getInt32_run[OF hp3 nl])
  show "ICache_getInt32 ''num_params'' f s3 = (Inr P, s3)"
    by (rule ICache_getInt32_run[OF hp3 np])
  show "getSrcPos callInstr s3 = (Inr srcPos, s3)"
    using pos readsD[OF reads_getSrcPos, of callInstr s3]
    by (cases "getSrcPos callInstr s3") auto
qed

lemma funCall_argcount:
  assumes hp: "heap s1 f = Some (HObj fs)"
    and ent: "map_of fs ''entry'' = Some (Value e TAG_OBJECT)"
    and nl: "map_of fs ''num_locals'' = Some (int32 L)"
    and np: "map_of fs ''num_params'' = Some (int32 P)"
    and gbv: "getBlockVersion f e s1 = (Inr v, s2)"
    and cin: "compileIfNeeded h v s2 = (Inr (), s3)"
    and pos: "fst (getSrcPos callInstr s3) = Inr srcPos"
    and ne: "n \<noteq> sizeT P"
  shows "funCall h callInstr f n retVer s1 =
     (Inl (RunError (argCountMsg
        (if isObject srcPos then posToString h (heap s1) srcPos @ '' - '' else []) n (sizeT P))),
      s3)"
proof -
  note p = funCall_prefix[OF hp ent nl np gbv cin pos]
  from frame_fields[OF p(1)] have hs: "heap s3 = heap s1" by simp
  show ?thesis
    unfolding funCall_def
    using ne
    by (simp add: bnd_def p(2-5) gbv cin checkArgCount_def gets_def throw_def Let_def hs)
qed

lemma bnd_ret: "bnd (ret x) k s = k x s"
  by (simp add: bnd_def ret_def)

lemma bnd_gets: "bnd (gets g) k s = k (g s) s"
  by (simp add: bnd_def gets_def)

lemma funCall_tail:
  assumes hp: "heap s1 f = Some (HObj fs)"
    and ent: "map_of fs ''entry'' = Some (Value e TAG_OBJECT)"
    and nl: "map_of fs ''num_locals'' = Some (int32 L)"
    and np: "map_of fs ''num_params'' = Some (int32 P)"
    and gbv: "getBlockVersion f e s1 = (Inr v, s2)"
    and cin: "compileIfNeeded h v s2 = (Inr (), s3)"
    and pos: "fst (getSrcPos callInstr s3) = Inr srcPos"
    and eq: "n = sizeT P"
  shows "funCall h callInstr f n retVer s1 =
      (if sint L < sint P then
         (Inl (RunError ''not enough locals to store function parameters''), s3)
       else
       bnd (assertS (\<lambda>s. stackPtr s > stackLimit s)) (\<lambda>_.
       bnd (modify (\<lambda>s. s\<lparr>framePtr := stackPtr s + int n - 1\<rparr>)) (\<lambda>_.
       bnd (modify (\<lambda>s. s\<lparr>stackPtr := stackPtr s - (sint L - int n)\<rparr>)) (\<lambda>_.
       bnd (pushVal (rawptr (stackPtr s1 + int n))) (\<lambda>_.
       bnd (pushVal (rawptr (framePtr s1))) (\<lambda>_.
       bnd (pushVal (rawptr retVer)) (\<lambda>_.
       bnd (getVersion v) (\<lambda>ver.
       modify (\<lambda>s. s\<lparr>instrPtr := startPtr ver\<rparr>)))))))) s3)"
proof -
  note p = funCall_prefix[OF hp ent nl np gbv cin pos]
  from frame_fields[OF p(1)]
  have ff: "stackPtr s3 = stackPtr s1" "framePtr s3 = framePtr s1"
    by simp_all
  show ?thesis
    unfolding funCall_def
    by (simp add: bnd_Inr[where m = "ICache_getObj ''entry'' f", OF p(2)]
        bnd_Inr[where m = "getBlockVersion f e", OF gbv]
        bnd_Inr[where m = "compileIfNeeded h v", OF cin]
        bnd_Inr[where m = "ICache_getInt32 ''num_locals'' f", OF p(3)]
        bnd_Inr[where m = "ICache_getInt32 ''num_params'' f", OF p(4)]
        bnd_Inr[where m = "getSrcPos callInstr", OF p(5)]
        checkArgCount_def eq bnd_ret bnd_assoc bnd_gets Let_def ff throw_def)
qed

lemma funCall_ok:
  assumes hp: "heap s1 f = Some (HObj fs)"
    and ent: "map_of fs ''entry'' = Some (Value e TAG_OBJECT)"
    and nl: "map_of fs ''num_locals'' = Some (int32 L)"
    and np: "map_of fs ''num_params'' = Some (int32 P)"
    and gbv: "getBlockVersion f e s1 = (Inr v, s2)"
    and cin: "compileIfNeeded h v s2 = (Inr (), s3)"
    and pos: "fst (getSrcPos callInstr s3) = Inr srcPos"
    and eq: "n = sizeT P" "int n = sint P"
    and loc: "sint P \<le> sint L"
    and room: "stackLimit s1 < stackPtr s1 - (sint L - int n) - 2"
    and ver: "versions s3 v = Some ver"
  shows "funCall h callInstr f n retVer s1 =
     (Inr (), s3\<lparr>framePtr := stackPtr s1 + int n - 1,
                  stackPtr := stackPtr s1 - (sint L - int n) - 3,
                  stack := (stack s1)
                    (stackPtr s1 - (sint L - int n) - 1 := rawptr (stackPtr s1 + int n),
                     stackPtr s1 - (sint L - int n) - 2 := rawptr (framePtr s1),
                     stackPtr s1 - (sint L - int n) - 3 := rawptr retVer),
                  instrPtr := startPtr ver\<rparr>)"
proof -
  from keepsD[OF keeps_getBlockVersion gbv] keepsD[OF keeps_compileIfNeeded cin]
  have "frame s3 = frame s1" by simp
  from frame_fields[OF this]
  have ff: "stack s3 = stack s1" "stackPtr s3 = stackPtr s1" "framePtr s3 = framePtr s1"
    "stackLimit s3 = stackLimit s1"
    by simp_all
  have a: "stackLimit s1 < stackPtr s1" using room loc eq by simp
  have b: "\<not> sint L < sint P" using loc by simp
  have tl: "funCall h callInstr f n retVer s1 =
       bnd (assertS (\<lambda>s. stackPtr s > stackLimit s)) (\<lambda>_.
       bnd (modify (\<lambda>s. s\<lparr>framePtr := stackPtr s + int n - 1\<rparr>)) (\<lambda>_.
       bnd (modify (\<lambda>s. s\<lparr>stackPtr := stackPtr s - (sint L - int n)\<rparr>)) (\<lambda>_.
       bnd (pushVal (rawptr (stackPtr s1 + int n))) (\<lambda>_.
       bnd (pushVal (rawptr (framePtr s1))) (\<lambda>_.
       bnd (pushVal (rawptr retVer)) (\<lambda>_.
       bnd (getVersion v) (\<lambda>ver.
       modify (\<lambda>s. s\<lparr>instrPtr := startPtr ver\<rparr>)))))))) s3"
    using b by (simp only: funCall_tail[OF hp ent nl np gbv cin pos eq(1)] if_False)
  show ?thesis
    unfolding tl
    using room a ver
    by (simp add: bnd_def assertS_def modify_def pushVal_def getVersion_def ff eq(2))
      (simp add: algebra_simps)
qed









lemma compileIfNeeded_compiled:
  "compiled v s \<Longrightarrow> compileIfNeeded h v s = (Inr (), s)"
  by (auto simp: compiled_def compileIfNeeded_def bnd_def getVersion_def ret_def)

lemma bnd_InrD:
  "bnd m f s = (Inr y, s'') \<Longrightarrow> \<exists>x s'. m s = (Inr x, s') \<and> f x s' = (Inr y, s'')"
  by (erule bnd_InrE) blast



lemma step_CALL_InrD:
  assumes op: "code s (instrPtr s) = Some (COp CALL)"
    and n: "code s (instrPtr s + 2) = Some (CU16 n)"
    and rv: "code s (instrPtr s + 4) = Some (CPtr retVer)"
    and callee: "isObject (stack s (stackPtr s))"
    and st: "step h s = (Inr None, s1)"
  shows "stackPtr s < stackBase s \<and>
         funCall h (instrPtr s) (getWord (stack s (stackPtr s))) (unat n) retVer
           (s\<lparr>instrPtr := instrPtr s + 12, stackPtr := stackPtr s + 1\<rparr>) = (Inr (), s1)"
proof -
  from step_result[OF st op]
  have ex: "execInstr h (instrPtr s) CALL (s\<lparr>instrPtr := instrPtr s + sizeofOpcode\<rparr>)
              = (Inr None, s1)"
    by simp
  show ?thesis
    using ex n rv callee
    by (auto simp: execInstr_CALL bnd_def readU16_def readPtr_def readCode_def popVal_def
        gets_def stackSize_def throw_def ret_def sizeofOpcode_def sizeofU16_def sizeofPtr_def
        add.commute add.left_commute
        split: if_splits prod.splits sum.splits)
qed

lemma funCall_InrD:
  assumes run: "funCall h a f (unat (n :: 16 word)) retVer sA = (Inr (), sB)"
  shows "\<exists>d. 0 \<le> d \<and> stackPtr sB = stackPtr sA - d - 3 \<and>
           stack sB (stackPtr sB) = rawptr retVer \<and>
           stack sB (stackPtr sB + 1) = rawptr (framePtr sA) \<and>
           stack sB (stackPtr sB + 2) = rawptr (stackPtr sA + uint n) \<and>
           stackBase sB = stackBase sA \<and> framePtr sB = stackPtr sA + uint n - 1"
proof -
  from bnd_InrD[OF run[unfolded funCall_def]] obtain e s1 where
    1: "ICache_getObj ''entry'' f sA = (Inr e, s1)"
    and r1: "bnd (getBlockVersion f e) (\<lambda>entryVer.
     bnd (compileIfNeeded h entryVer) (\<lambda>_.
     bnd (ICache_getInt32 ''num_locals'' f) (\<lambda>numLocals.
     bnd (ICache_getInt32 ''num_params'' f) (\<lambda>numParams.
     bnd (checkArgCount h a (sizeT numParams) (unat n)) (\<lambda>_.
     if sint numLocals < sint numParams then
       throw (RunError ''not enough locals to store function parameters'')
     else if unat n \<noteq> sizeT numParams then
       throw (RunError ''argument count mismatch'')
     else
       bnd (gets stackPtr) (\<lambda>sp.
       let prevStackPtr = sp + int (unat n) in
       bnd (gets framePtr) (\<lambda>prevFramePtr.
       bnd (assertS (\<lambda>s. stackPtr s > stackLimit s)) (\<lambda>_.
       bnd (modify (\<lambda>s. s\<lparr>framePtr := stackPtr s + int (unat n) - 1\<rparr>)) (\<lambda>_.
       bnd (modify (\<lambda>s. s\<lparr>stackPtr := stackPtr s - (sint numLocals - int (unat n))\<rparr>)) (\<lambda>_.
       bnd (pushVal (rawptr prevStackPtr)) (\<lambda>_.
       bnd (pushVal (rawptr prevFramePtr)) (\<lambda>_.
       bnd (pushVal (rawptr retVer)) (\<lambda>_.
       bnd (getVersion entryVer) (\<lambda>ver.
       modify (\<lambda>s. s\<lparr>instrPtr := startPtr ver\<rparr>))))))))))))))) s1 = (Inr (), sB)"
    by blast
  from bnd_InrD[OF r1] obtain v s2 where
    2: "getBlockVersion f e s1 = (Inr v, s2)"
    and r2: "bnd (compileIfNeeded h v) (\<lambda>_.
     bnd (ICache_getInt32 ''num_locals'' f) (\<lambda>numLocals.
     bnd (ICache_getInt32 ''num_params'' f) (\<lambda>numParams.
     bnd (checkArgCount h a (sizeT numParams) (unat n)) (\<lambda>_.
     if sint numLocals < sint numParams then
       throw (RunError ''not enough locals to store function parameters'')
     else if unat n \<noteq> sizeT numParams then
       throw (RunError ''argument count mismatch'')
     else
       bnd (gets stackPtr) (\<lambda>sp.
       let prevStackPtr = sp + int (unat n) in
       bnd (gets framePtr) (\<lambda>prevFramePtr.
       bnd (assertS (\<lambda>s. stackPtr s > stackLimit s)) (\<lambda>_.
       bnd (modify (\<lambda>s. s\<lparr>framePtr := stackPtr s + int (unat n) - 1\<rparr>)) (\<lambda>_.
       bnd (modify (\<lambda>s. s\<lparr>stackPtr := stackPtr s - (sint numLocals - int (unat n))\<rparr>)) (\<lambda>_.
       bnd (pushVal (rawptr prevStackPtr)) (\<lambda>_.
       bnd (pushVal (rawptr prevFramePtr)) (\<lambda>_.
       bnd (pushVal (rawptr retVer)) (\<lambda>_.
       bnd (getVersion v) (\<lambda>ver.
       modify (\<lambda>s. s\<lparr>instrPtr := startPtr ver\<rparr>)))))))))))))) s2 = (Inr (), sB)"
    by blast
  from bnd_InrD[OF r2] obtain x3 s3 where
    3: "compileIfNeeded h v s2 = (Inr x3, s3)"
    and r3: "bnd (ICache_getInt32 ''num_locals'' f) (\<lambda>numLocals.
     bnd (ICache_getInt32 ''num_params'' f) (\<lambda>numParams.
     bnd (checkArgCount h a (sizeT numParams) (unat n)) (\<lambda>_.
     if sint numLocals < sint numParams then
       throw (RunError ''not enough locals to store function parameters'')
     else if unat n \<noteq> sizeT numParams then
       throw (RunError ''argument count mismatch'')
     else
       bnd (gets stackPtr) (\<lambda>sp.
       let prevStackPtr = sp + int (unat n) in
       bnd (gets framePtr) (\<lambda>prevFramePtr.
       bnd (assertS (\<lambda>s. stackPtr s > stackLimit s)) (\<lambda>_.
       bnd (modify (\<lambda>s. s\<lparr>framePtr := stackPtr s + int (unat n) - 1\<rparr>)) (\<lambda>_.
       bnd (modify (\<lambda>s. s\<lparr>stackPtr := stackPtr s - (sint numLocals - int (unat n))\<rparr>)) (\<lambda>_.
       bnd (pushVal (rawptr prevStackPtr)) (\<lambda>_.
       bnd (pushVal (rawptr prevFramePtr)) (\<lambda>_.
       bnd (pushVal (rawptr retVer)) (\<lambda>_.
       bnd (getVersion v) (\<lambda>ver.
       modify (\<lambda>s. s\<lparr>instrPtr := startPtr ver\<rparr>))))))))))))) s3 = (Inr (), sB)"
    by blast
  from bnd_InrD[OF r3] obtain L s4 where
    4: "ICache_getInt32 ''num_locals'' f s3 = (Inr L, s4)"
    and r4: "bnd (ICache_getInt32 ''num_params'' f) (\<lambda>numParams.
     bnd (checkArgCount h a (sizeT numParams) (unat n)) (\<lambda>_.
     if sint L < sint numParams then
       throw (RunError ''not enough locals to store function parameters'')
     else if unat n \<noteq> sizeT numParams then
       throw (RunError ''argument count mismatch'')
     else
       bnd (gets stackPtr) (\<lambda>sp.
       let prevStackPtr = sp + int (unat n) in
       bnd (gets framePtr) (\<lambda>prevFramePtr.
       bnd (assertS (\<lambda>s. stackPtr s > stackLimit s)) (\<lambda>_.
       bnd (modify (\<lambda>s. s\<lparr>framePtr := stackPtr s + int (unat n) - 1\<rparr>)) (\<lambda>_.
       bnd (modify (\<lambda>s. s\<lparr>stackPtr := stackPtr s - (sint L - int (unat n))\<rparr>)) (\<lambda>_.
       bnd (pushVal (rawptr prevStackPtr)) (\<lambda>_.
       bnd (pushVal (rawptr prevFramePtr)) (\<lambda>_.
       bnd (pushVal (rawptr retVer)) (\<lambda>_.
       bnd (getVersion v) (\<lambda>ver.
       modify (\<lambda>s. s\<lparr>instrPtr := startPtr ver\<rparr>)))))))))))) s4 = (Inr (), sB)"
    by blast
  from bnd_InrD[OF r4] obtain P s5 where
    5: "ICache_getInt32 ''num_params'' f s4 = (Inr P, s5)"
    and r5: "bnd (checkArgCount h a (sizeT P) (unat n)) (\<lambda>_.
     if sint L < sint P then
       throw (RunError ''not enough locals to store function parameters'')
     else if unat n \<noteq> sizeT P then
       throw (RunError ''argument count mismatch'')
     else
       bnd (gets stackPtr) (\<lambda>sp.
       let prevStackPtr = sp + int (unat n) in
       bnd (gets framePtr) (\<lambda>prevFramePtr.
       bnd (assertS (\<lambda>s. stackPtr s > stackLimit s)) (\<lambda>_.
       bnd (modify (\<lambda>s. s\<lparr>framePtr := stackPtr s + int (unat n) - 1\<rparr>)) (\<lambda>_.
       bnd (modify (\<lambda>s. s\<lparr>stackPtr := stackPtr s - (sint L - int (unat n))\<rparr>)) (\<lambda>_.
       bnd (pushVal (rawptr prevStackPtr)) (\<lambda>_.
       bnd (pushVal (rawptr prevFramePtr)) (\<lambda>_.
       bnd (pushVal (rawptr retVer)) (\<lambda>_.
       bnd (getVersion v) (\<lambda>ver.
       modify (\<lambda>s. s\<lparr>instrPtr := startPtr ver\<rparr>))))))))))) s5 = (Inr (), sB)"
    by blast
  from bnd_InrD[OF r5] obtain x6 s6 where
    6: "checkArgCount h a (sizeT P) (unat n) s5 = (Inr x6, s6)"
    and r6: "(if sint L < sint P then
       throw (RunError ''not enough locals to store function parameters'')
     else if unat n \<noteq> sizeT P then
       throw (RunError ''argument count mismatch'')
     else
       bnd (gets stackPtr) (\<lambda>sp.
       let prevStackPtr = sp + int (unat n) in
       bnd (gets framePtr) (\<lambda>prevFramePtr.
       bnd (assertS (\<lambda>s. stackPtr s > stackLimit s)) (\<lambda>_.
       bnd (modify (\<lambda>s. s\<lparr>framePtr := stackPtr s + int (unat n) - 1\<rparr>)) (\<lambda>_.
       bnd (modify (\<lambda>s. s\<lparr>stackPtr := stackPtr s - (sint L - int (unat n))\<rparr>)) (\<lambda>_.
       bnd (pushVal (rawptr prevStackPtr)) (\<lambda>_.
       bnd (pushVal (rawptr prevFramePtr)) (\<lambda>_.
       bnd (pushVal (rawptr retVer)) (\<lambda>_.
       bnd (getVersion v) (\<lambda>ver.
       modify (\<lambda>s. s\<lparr>instrPtr := startPtr ver\<rparr>))))))))))) s6 = (Inr (), sB)"
    by blast
  from keepsD[OF keeps_ICache_getObj 1] keepsD[OF keeps_getBlockVersion 2]
    keepsD[OF keeps_compileIfNeeded 3] keepsD[OF keeps_ICache_getInt32 4]
    keepsD[OF keeps_ICache_getInt32 5] keepsD[OF keeps_checkArgCount 6]
  have "frame s6 = frame sA" by simp
  from frame_fields[OF this]
  have ff: "stack s6 = stack sA" "stackPtr s6 = stackPtr sA" "framePtr s6 = framePtr sA"
    "stackLimit s6 = stackLimit sA" "stackBase s6 = stackBase sA"
    by simp_all
  from r6 have loc: "sint P \<le> sint L" and eq: "unat n = sizeT P"
    by (auto simp: throw_def split: if_splits)
  have i: "uint n = sint P"
    using sizeT_unat16[OF eq] .
  from r6 loc eq
  have tl: "bnd (assertS (\<lambda>s. stackPtr s > stackLimit s)) (\<lambda>_.
       bnd (modify (\<lambda>s. s\<lparr>framePtr := stackPtr s + int (unat n) - 1\<rparr>)) (\<lambda>_.
       bnd (modify (\<lambda>s. s\<lparr>stackPtr := stackPtr s - (sint L - int (unat n))\<rparr>)) (\<lambda>_.
       bnd (pushVal (rawptr (stackPtr sA + int (unat n)))) (\<lambda>_.
       bnd (pushVal (rawptr (framePtr sA))) (\<lambda>_.
       bnd (pushVal (rawptr retVer)) (\<lambda>_.
       bnd (getVersion v) (\<lambda>ver.
       modify (\<lambda>s. s\<lparr>instrPtr := startPtr ver\<rparr>)))))))) s6 = (Inr (), sB)"
    by (simp add: bnd_gets Let_def ff)
  have "0 \<le> sint L - sint P \<and> stackPtr sB = stackPtr sA - (sint L - sint P) - 3 \<and>
           stack sB (stackPtr sB) = rawptr retVer \<and>
           stack sB (stackPtr sB + 1) = rawptr (framePtr sA) \<and>
           stack sB (stackPtr sB + 2) = rawptr (stackPtr sA + uint n) \<and>
           stackBase sB = stackBase sA \<and> framePtr sB = stackPtr sA + uint n - 1"
    using tl loc
    by (auto simp: bnd_def assertS_def modify_def pushVal_def getVersion_def ff i
        split: if_splits option.splits)
  then show ?thesis by blast
qed

lemma step_RET_InrD:
  assumes op: "code s (instrPtr s) = Some (COp RET)"
    and four: "stackPtr s + 4 \<le> stackBase s"
    and st: "step h s = (Inr None, s')"
  shows "stackPtr s' = getWord (stack s (stackPtr s + 3)) - 1 \<and>
         stack s' (stackPtr s') = stack s (stackPtr s) \<and>
         framePtr s' = getWord (stack s (stackPtr s + 2)) \<and>
         stackBase s' = stackBase s \<and>
         (\<exists>ver. versions s' (getWord (stack s (stackPtr s + 1))) = Some ver \<and>
                instrPtr s' = startPtr ver)"
proof -
  let ?retVer = "getWord (stack s (stackPtr s + 1))"
  let ?s1 = "s\<lparr>instrPtr := instrPtr s + sizeofOpcode,
               framePtr := getWord (stack s (stackPtr s + 2)),
               stackPtr := getWord (stack s (stackPtr s + 3))\<rparr>"
  from step_result[OF st op] have lim: "instrPtr s + sizeofOpcode \<le> codeHeapLimit s"
    by simp
  from st step_RET[OF op lim four, of h]
  have nz: "?retVer \<noteq> 0"
    and run: "bnd (pushVal (stack s (stackPtr s))) (\<lambda>_.
              bnd (compileIfNeeded h ?retVer) (\<lambda>_.
              bnd (getVersion ?retVer) (\<lambda>ver.
              bnd (modify (\<lambda>s. s\<lparr>instrPtr := startPtr ver\<rparr>)) (\<lambda>_. ret None)))) ?s1
            = (Inr (None :: Value option), s')"
    by (auto simp: Let_def split: if_splits)
  from bnd_InrD[OF run] obtain x sa where
    1: "pushVal (stack s (stackPtr s)) ?s1 = (Inr x, sa)"
    and r1: "bnd (compileIfNeeded h ?retVer) (\<lambda>_.
              bnd (getVersion ?retVer) (\<lambda>ver.
              bnd (modify (\<lambda>s. s\<lparr>instrPtr := startPtr ver\<rparr>)) (\<lambda>_. ret None))) sa
            = (Inr (None :: Value option), s')"
    by blast
  from 1 have sa: "sa = ?s1\<lparr>stackPtr := getWord (stack s (stackPtr s + 3)) - 1,
                    stack := (stack s)(getWord (stack s (stackPtr s + 3)) - 1 :=
                       stack s (stackPtr s))\<rparr>"
    by (auto simp: pushVal_def split: if_splits)
  from bnd_InrD[OF r1] obtain y sb where
    2: "compileIfNeeded h ?retVer sa = (Inr y, sb)"
    and r2: "bnd (getVersion ?retVer) (\<lambda>ver.
              bnd (modify (\<lambda>s. s\<lparr>instrPtr := startPtr ver\<rparr>)) (\<lambda>_. ret None)) sb
            = (Inr (None :: Value option), s')"
    by blast
  from frame_fields[OF keepsD[OF keeps_compileIfNeeded 2]]
  have ff: "stack sb = stack sa" "stackPtr sb = stackPtr sa" "framePtr sb = framePtr sa"
    "stackBase sb = stackBase sa"
    by simp_all
  from r2 obtain ver where ver: "versions sb ?retVer = Some ver"
    and s': "s' = sb\<lparr>instrPtr := startPtr ver\<rparr>"
    by (auto simp: bnd_def getVersion_def modify_def ret_def split: option.splits)
  show ?thesis
    using ver by (simp add: s' ff sa)
qed

section \<open>The claims\<close>

text \<open>
  C2. Executing \<open>RET\<close> with four values on the stack takes them, from the top, as the
  return value, the return version, the saved frame pointer and the saved stack pointer,
  and restores the two pointers. When the return version is null, the step and the loop
  return the return value. Otherwise, when the restored stack has room, the return value
  is pushed on it, the return version is compiled if it is not, and the instruction
  pointer is set to its \<open>startPtr\<close>.
\<close>

theorem C2_ret:
  assumes op: "code s (instrPtr s) = Some (COp RET)"
    and lim: "instrPtr s + sizeofOpcode \<le> codeHeapLimit s"
    and four: "stackPtr s + 4 \<le> stackBase s"
    and vals: "retVal = stack s (stackPtr s)" "retVer = getWord (stack s (stackPtr s + 1))"
      "prevFramePtr = getWord (stack s (stackPtr s + 2))"
      "prevStackPtr = getWord (stack s (stackPtr s + 3))"
    and s1: "s1 = s\<lparr>instrPtr := instrPtr s + sizeofOpcode, framePtr := prevFramePtr,
                      stackPtr := prevStackPtr\<rparr>"
    and s2: "s2 = s1\<lparr>stackPtr := prevStackPtr - 1, stack := (stack s)(prevStackPtr - 1 := retVal)\<rparr>"
  shows "(retVer = 0 \<longrightarrow>
            step h s = (Inr (Some retVal), s1) \<and> execLoop h (Suc n) s = Some (Inr retVal, s1)) \<and>
         (retVer \<noteq> 0 \<and> stackLimit s < prevStackPtr \<and> compileIfNeeded h retVer s2 = (Inr (), s3) \<longrightarrow>
            (\<exists>ver. versions s3 retVer = Some ver \<and>
                   step h s = (Inr None, s3\<lparr>instrPtr := startPtr ver\<rparr>)))"
proof (intro conjI impI)
  note st = step_RET[OF op lim four, of h, unfolded Let_def, folded vals, folded s1]
  {
    assume z: "retVer = 0"
    with st show 1: "step h s = (Inr (Some retVal), s1)" by simp
    then show "execLoop h (Suc n) s = Some (Inr retVal, s1)" by simp
  }
  assume a: "retVer \<noteq> 0 \<and> stackLimit s < prevStackPtr \<and> compileIfNeeded h retVer s2 = (Inr (), s3)"
  then obtain ver where ver: "versions s3 retVer = Some ver"
    using compileIfNeeded_version by blast
  have "pushVal retVal s1 = (Inr (), s2)"
    using a by (simp add: pushVal_def s1 s2)
  with a ver st have "step h s = (Inr None, s3\<lparr>instrPtr := startPtr ver\<rparr>)"
    by (simp add: bnd_def getVersion_def modify_def ret_def)
  with ver show "\<exists>ver. versions s3 retVer = Some ver \<and>
                   step h s = (Inr None, s3\<lparr>instrPtr := startPtr ver\<rparr>)"
    by blast
qed

theorem C2_ret_witness:
  "fst (step h0 (after h0 4 (entered imgCall []))) = Inr None \<and>
   instrPtr (snd (step h0 (after h0 4 (entered imgCall [])))) = 4150 \<and>
   map_option fst (execLoop h0 (Suc 0) (after h0 5 (entered imgCall []))) = Some (Inr (int32 5))"
proof -
  define sR where "sR = after h0 4 (entered imgCall [])"
  define sT where "sT = after h0 5 (entered imgCall [])"
  define rv where "rv = getWord (stack sR (stackPtr sR + 1))"
  define s2 where "s2 = sR\<lparr>instrPtr := instrPtr sR + sizeofOpcode,
      framePtr := getWord (stack sR (stackPtr sR + 2)),
      stackPtr := getWord (stack sR (stackPtr sR + 3))\<rparr>
      \<lparr>stackPtr := getWord (stack sR (stackPtr sR + 3)) - 1,
       stack := (stack sR)(getWord (stack sR (stackPtr sR + 3)) - 1 := stack sR (stackPtr sR))\<rparr>"
  define s3 where "s3 = snd (compileIfNeeded h0 rv s2)"
  have "let sR = after h0 4 (entered imgCall []);
            rv = getWord (stack sR (stackPtr sR + 1));
            s2 = sR\<lparr>instrPtr := instrPtr sR + sizeofOpcode,
              framePtr := getWord (stack sR (stackPtr sR + 2)),
              stackPtr := getWord (stack sR (stackPtr sR + 3))\<rparr>
              \<lparr>stackPtr := getWord (stack sR (stackPtr sR + 3)) - 1,
               stack := (stack sR)
                 (getWord (stack sR (stackPtr sR + 3)) - 1 := stack sR (stackPtr sR))\<rparr>;
            c = compileIfNeeded h0 rv s2
        in code sR (instrPtr sR) = Some (COp RET) \<and>
           instrPtr sR + sizeofOpcode \<le> codeHeapLimit sR \<and>
           stackPtr sR + 4 \<le> stackBase sR \<and> rv \<noteq> 0 \<and>
           stackLimit sR < getWord (stack sR (stackPtr sR + 3)) \<and>
           fst c = Inr () \<and> map_option startPtr (versions (snd c) rv) = Some 4150"
    by code_simp
  then have r1: "code sR (instrPtr sR) = Some (COp RET)"
    and r2: "instrPtr sR + sizeofOpcode \<le> codeHeapLimit sR"
    and r3: "stackPtr sR + 4 \<le> stackBase sR"
    and r4: "rv \<noteq> 0"
    and r5: "stackLimit sR < getWord (stack sR (stackPtr sR + 3))"
    and r6: "fst (compileIfNeeded h0 rv s2) = Inr ()"
    and r7: "map_option startPtr (versions s3 rv) = Some 4150"
    by (simp_all add: Let_def sR_def rv_def s2_def s3_def)
  have "let sT = after h0 5 (entered imgCall [])
        in code sT (instrPtr sT) = Some (COp RET) \<and>
           instrPtr sT + sizeofOpcode \<le> codeHeapLimit sT \<and>
           stackPtr sT + 4 \<le> stackBase sT \<and>
           getWord (stack sT (stackPtr sT + 1)) = 0 \<and> stack sT (stackPtr sT) = int32 5"
    by code_simp
  then have t1: "code sT (instrPtr sT) = Some (COp RET)"
    and t2: "instrPtr sT + sizeofOpcode \<le> codeHeapLimit sT"
    and t3: "stackPtr sT + 4 \<le> stackBase sT"
    and t4: "getWord (stack sT (stackPtr sT + 1)) = 0"
    and t5: "stack sT (stackPtr sT) = int32 5"
    by (simp_all add: Let_def sT_def)
  from C2_ret[OF r1 r2 r3 refl rv_def refl refl refl s2_def, where h = h0 and ?s3.0 = s3]
    r4 r5 r6
  obtain ver where "versions s3 rv = Some ver"
    and "step h0 sR = (Inr None, s3\<lparr>instrPtr := startPtr ver\<rparr>)"
    by (auto simp: s3_def pair_snd)
  with r7 have A: "fst (step h0 sR) = Inr None" "instrPtr (snd (step h0 sR)) = 4150"
    by simp_all
  from C2_ret[OF t1 t2 t3 refl refl refl refl refl refl, where h = h0 and n = 0] t4 t5
  have B: "map_option fst (execLoop h0 (Suc 0) sT) = Some (Inr (int32 5))"
    by simp
  from A B show ?thesis by (simp add: sR_def sT_def)
qed

text \<open>
  C9. Executing \<open>IF_TRUE\<close> pops a value and compares it with \<open>TRUE\<close> only: the taken
  target word is the then word when the value is \<open>TRUE\<close> and the else word for every
  other value, of any tag, and no error comes from the value. A word within the code
  heap is the target; otherwise it is a version, which is compiled if needed and whose
  \<open>startPtr\<close> is the target and replaces the word. The other word is left as it is.
\<close>

theorem C9_if_true:
  assumes op: "code s (instrPtr s) = Some (COp IF_TRUE)"
    and thenw: "code s (instrPtr s + 2) = Some (CPtr thenWord)"
    and elsew: "code s (instrPtr s + 10) = Some (CPtr elseWord)"
    and lim: "instrPtr s + 18 \<le> codeHeapLimit s"
    and top: "stackPtr s < stackBase s"
    and taken: "(w, a) = (if stack s (stackPtr s) = TRUE then (thenWord, instrPtr s + 2)
                          else (elseWord, instrPtr s + 10))"
    and s1: "s1 = s\<lparr>instrPtr := instrPtr s + 18, stackPtr := stackPtr s + 1\<rparr>"
    and target: "if codeHeap s \<le> w \<and> w < codeHeapLimit s then s2 = s1 \<and> t = w
                 else compileIfNeeded h w s1 = (Inr (), s2) \<and> code s2 a = Some (CPtr w) \<and>
                      (\<exists>ver. versions s2 w = Some ver \<and> t = startPtr ver)"
  shows "step h s = (Inr None, s2\<lparr>instrPtr := t, code := (code s2)(a \<mapsto> CPtr t)\<rparr>)"
proof -
  have lim2: "instrPtr s + sizeofOpcode \<le> codeHeapLimit s"
    using lim by (simp add: sizeofOpcode_def)
  have idem: "(code s)(a \<mapsto> CPtr w) = code s"
    using taken thenw elsew by (auto split: if_splits intro: fun_upd_idem)
  have st: "step h s =
      bnd (bnd (gets (\<lambda>s. w < codeHeap s \<or> w \<ge> codeHeapLimit s)) (\<lambda>stub.
           bnd (if stub then
                  bnd (compileIfNeeded h w) (\<lambda>_.
                  bnd (getVersion w) (\<lambda>ver. setCodePtr a (startPtr ver)))
                else ret ()) (\<lambda>_.
           bnd (getCodePtr a) (\<lambda>target. modify (\<lambda>s. s\<lparr>instrPtr := target\<rparr>)))))
        (\<lambda>_. ret None) s1"
    using thenw elsew lim top taken
    by (auto simp add: step_at[OF op lim2] execInstr_IF_TRUE bnd_def readPtr_def
        readCode_def popVal_def gets_def valEq_TRUE ret_def sizeofOpcode_def sizeofPtr_def s1
        add.commute add.left_commute split: if_splits)
  show ?thesis
  proof (cases "codeHeap s \<le> w \<and> w < codeHeapLimit s")
    case True
    with target have e: "s2 = s1" "t = w" by simp_all
    have ca: "code s a = Some (CPtr w)"
      using taken thenw elsew by (auto split: if_splits)
    from True ca show ?thesis
      unfolding st e
      by (simp add: bnd_def gets_def ret_def getCodePtr_def modify_def s1 idem)
  next
    case False
    with target obtain ver where c: "compileIfNeeded h w s1 = (Inr (), s2)"
      and ca: "code s2 a = Some (CPtr w)" and ver: "versions s2 w = Some ver"
      and t: "t = startPtr ver"
      by auto
    from False have stub: "w < codeHeap s1 \<or> codeHeapLimit s1 \<le> w"
      by (auto simp: s1)
    from stub c ca ver show ?thesis
      unfolding st t
      by (simp add: bnd_def gets_def ret_def getVersion_def setCodePtr_def getCodePtr_def
          modify_def)
  qed
qed

theorem C9_if_true_witness:
  "stack (after h0 1 (entered imgIf [])) (stackPtr (after h0 1 (entered imgIf []))) = int32 5 \<and>
   fst (step h0 (after h0 1 (entered imgIf []))) = Inr None \<and>
   instrPtr (snd (step h0 (after h0 1 (entered imgIf [])))) = 4132 \<and>
   stackPtr (snd (step h0 (after h0 1 (entered imgIf [])))) =
     stackPtr (after h0 1 (entered imgIf [])) + 1"
proof -
  define s where "s = after h0 1 (entered imgIf [])"
  define s1 where "s1 = s\<lparr>instrPtr := instrPtr s + 18, stackPtr := stackPtr s + 1\<rparr>"
  define s2 where "s2 = snd (compileIfNeeded h0 3000002 s1)"
  have "let s = after h0 1 (entered imgIf []);
            s1 = s\<lparr>instrPtr := instrPtr s + 18, stackPtr := stackPtr s + 1\<rparr>;
            c = compileIfNeeded h0 3000002 s1
        in code s (instrPtr s) = Some (COp IF_TRUE) \<and>
           code s (instrPtr s + 2) = Some (CPtr 3000001) \<and>
           code s (instrPtr s + 10) = Some (CPtr 3000002) \<and>
           instrPtr s + 18 \<le> codeHeapLimit s \<and> stackPtr s < stackBase s \<and>
           stack s (stackPtr s) = int32 5 \<and> codeHeapLimit s \<le> 3000002 \<and>
           fst c = Inr () \<and> code (snd c) (instrPtr s + 10) = Some (CPtr 3000002) \<and>
           map_option startPtr (versions (snd c) 3000002) = Some 4132 \<and>
           stackPtr (snd c) = stackPtr s + 1"
    by code_simp
  then have f: "code s (instrPtr s) = Some (COp IF_TRUE)"
      "code s (instrPtr s + 2) = Some (CPtr 3000001)"
      "code s (instrPtr s + 10) = Some (CPtr 3000002)"
      "instrPtr s + 18 \<le> codeHeapLimit s" "stackPtr s < stackBase s"
    and v: "stack s (stackPtr s) = int32 5"
    and out: "codeHeapLimit s \<le> 3000002"
    and c: "fst (compileIfNeeded h0 3000002 s1) = Inr ()"
      "code s2 (instrPtr s + 10) = Some (CPtr 3000002)"
      "map_option startPtr (versions s2 3000002) = Some 4132"
    and sp: "stackPtr s2 = stackPtr s + 1"
    by (simp_all add: Let_def s_def s1_def s2_def)
  from c(3) obtain ver where ver: "versions s2 3000002 = Some ver" "startPtr ver = 4132"
    by auto
  have tk: "(3000002, instrPtr s + 10) =
      (if stack s (stackPtr s) = TRUE then (3000001, instrPtr s + 2)
       else (3000002, instrPtr s + 10))"
    by (simp add: v TRUE_def int32_def)
  have "step h0 s = (Inr None, s2\<lparr>instrPtr := 4132,
          code := (code s2)(instrPtr s + 10 \<mapsto> CPtr 4132)\<rparr>)"
    by (rule C9_if_true[OF f tk s1_def])
       (use out c ver in \<open>simp add: s2_def pair_snd\<close>)
  with v sp show ?thesis
    unfolding s_def by simp
qed

text \<open>
  C10. When \<open>CALL\<close> finds fewer slots on the stack than its argument count, or a callee
  that is neither a function nor a host function, it throws \<open>stack underflow at call\<close> or
  \<open>invalid callee at call site\<close> in the state in which the callee has been popped: the
  stack is one slot smaller than before the instruction.
\<close>

theorem C10_call_error_after_pop:
  assumes op: "code s (instrPtr s) = Some (COp CALL)"
    and n: "code s (instrPtr s + 2) = Some (CU16 n)"
    and rv: "code s (instrPtr s + 4) = Some (CPtr retVer)"
    and lim: "instrPtr s + 12 \<le> codeHeapLimit s"
    and top: "stackPtr s < stackBase s"
    and callee: "callee = stack s (stackPtr s)"
    and fails: "stackBase s - (stackPtr s + 1) < uint n \<or> (\<not> isObject callee \<and> \<not> isHostFn callee)"
  shows "step h s =
           (Inl (RunError (if stackBase s - (stackPtr s + 1) < uint n
                           then ''stack underflow at call''
                           else ''invalid callee at call site'')),
            s\<lparr>instrPtr := instrPtr s + 12, stackPtr := stackPtr s + 1\<rparr>) \<and>
         stackSize (snd (step h s)) = stackSize s - 1"
  using fails callee
  by (auto simp: step_CALL[OF op n rv lim top] Let_def stackSize_def)

theorem C10_call_error_after_pop_witness:
  "fst (step h0 (after h0 1 (entered imgCallee []))) =
     Inl (RunError ''invalid callee at call site'') \<and>
   stackSize (snd (step h0 (after h0 1 (entered imgCallee [])))) =
     stackSize (after h0 1 (entered imgCallee [])) - 1"
proof -
  define s where "s = after h0 1 (entered imgCallee [])"
  have "let s = after h0 1 (entered imgCallee [])
        in code s (instrPtr s) = Some (COp CALL) \<and> code s (instrPtr s + 2) = Some (CU16 0) \<and>
           code s (instrPtr s + 4) = Some (CPtr 3000001) \<and>
           instrPtr s + 12 \<le> codeHeapLimit s \<and> stackPtr s < stackBase s \<and>
           \<not> isObject (stack s (stackPtr s)) \<and> \<not> isHostFn (stack s (stackPtr s)) \<and>
           \<not> stackBase s - (stackPtr s + 1) < 0"
    by code_simp
  then have f: "code s (instrPtr s) = Some (COp CALL)" "code s (instrPtr s + 2) = Some (CU16 0)"
      "code s (instrPtr s + 4) = Some (CPtr 3000001)"
      "instrPtr s + 12 \<le> codeHeapLimit s" "stackPtr s < stackBase s"
    and g: "\<not> isObject (stack s (stackPtr s)) \<and> \<not> isHostFn (stack s (stackPtr s))"
      "\<not> stackBase s - (stackPtr s + 1) < 0"
    by (simp_all add: Let_def s_def)
  from C10_call_error_after_pop[OF f refl, of h0] g
  show ?thesis unfolding s_def by (simp add: stackSize_def)
qed

text \<open>
  C7 (amended). \<open>CALL\<close> compares its argument count with the size of the whole stack, not
  with the operands of the running function. When, the callee popped, the stack holds
  fewer slots than the argument count, the instruction throws \<open>stack underflow at call\<close>,
  a \<open>RunError\<close>, and \<open>callFun\<close> hands it to its caller in the state of the throw. When
  the stack holds at least as many slots as the argument count, whatever they are (locals
  and saved words of any frame count), the instruction goes on to the call according to
  the kind of the callee.
\<close>

theorem C7_stack_underflow:
  assumes enter: "callFun_enter h f args s0 = (Inr preCallSz, s1)"
    and inr: "codeHeap s1 \<le> instrPtr s1" "instrPtr s1 < codeHeapLimit s1"
    and run: "steps h j s1 = Some s"
    and op: "code s (instrPtr s) = Some (COp CALL)"
    and n: "code s (instrPtr s + 2) = Some (CU16 n)"
    and rv: "code s (instrPtr s + 4) = Some (CPtr retVer)"
    and lim: "instrPtr s + 12 \<le> codeHeapLimit s"
    and top: "stackPtr s < stackBase s"
    and s': "s' = s\<lparr>instrPtr := instrPtr s + 12, stackPtr := stackPtr s + 1\<rparr>"
    and callee: "callee = stack s (stackPtr s)"
  shows "(stackSize s' < uint n \<longrightarrow>
            callFun h (j + Suc k) f args s0 =
              Some (Inl (RunError ''stack underflow at call''), s') \<and>
            \<not> fatal (Inl (RunError ''stack underflow at call'') :: error + Value)) \<and>
         (uint n \<le> stackSize s' \<longrightarrow>
            step h s =
              (if isObject callee then
                 bnd (funCall h (instrPtr s) (getWord callee) (unat n) retVer)
                   (\<lambda>_. ret None) s'
               else if isHostFn callee then
                 bnd (hostCall h (instrPtr s) callee (unat n) retVer) (\<lambda>_. ret None) s'
               else (Inl (RunError ''invalid callee at call site''), s')))"
proof (intro conjI impI)
  assume under: "stackSize s' < uint n"
  then have "step h s = (Inl (RunError ''stack underflow at call''), s')"
    by (simp add: step_CALL[OF op n rv lim top] Let_def s' stackSize_def)
  then have "execLoop h (Suc k) s = Some (Inl (RunError ''stack underflow at call''), s')"
    by simp
  with execLoop_steps[OF run, of "Suc k"]
  have "execLoop h (j + Suc k) s1 = Some (Inl (RunError ''stack underflow at call''), s')"
    by simp
  with inr have "execCode h (j + Suc k) s1 = Some (Inl (RunError ''stack underflow at call''), s')"
    by (simp add: execCode_def)
  with enter
  show "callFun h (j + Suc k) f args s0 = Some (Inl (RunError ''stack underflow at call''), s')"
    by (simp add: callFun_def)
next
  show "\<not> fatal (Inl (RunError ''stack underflow at call'') :: error + Value)"
    by simp
next
  assume "uint n \<le> stackSize s'"
  then show "step h s =
              (if isObject callee then
                 bnd (funCall h (instrPtr s) (getWord callee) (unat n) retVer)
                   (\<lambda>_. ret None) s'
               else if isHostFn callee then
                 bnd (hostCall h (instrPtr s) callee (unat n) retVer) (\<lambda>_. ret None) s'
               else (Inl (RunError ''invalid callee at call site''), s'))"
    by (simp add: step_CALL[OF op n rv lim top] Let_def s' callee stackSize_def)
qed

theorem C7_stack_underflow_witness:
  "map_option fst (callFun h0 (1 + Suc 0) 1 [] (start imgUnder)) =
     Some (Inl (RunError ''stack underflow at call'')) \<and>
   operands (after h0 1 (entered imgShort [])) 0 - 1 < 1 \<and>
   step h0 (after h0 1 (entered imgShort [])) =
     bnd (funCall h0 (instrPtr (after h0 1 (entered imgShort []))) 20 (unat (1 :: 16 word))
            3000001) (\<lambda>_. ret None)
       ((after h0 1 (entered imgShort []))
          \<lparr>instrPtr := instrPtr (after h0 1 (entered imgShort [])) + 12,
           stackPtr := stackPtr (after h0 1 (entered imgShort [])) + 1\<rparr>)"
proof -
  define s1 where "s1 = entered imgUnder []"
  define s where "s = after h0 1 s1"
  define t1 where "t1 = entered imgShort []"
  define t where "t = after h0 1 t1"
  have "let e = callFun_enter h0 1 [] (start imgUnder);
            s1 = snd e;
            s = after h0 1 s1
        in fst e = Inr 0 \<and> codeHeap s1 \<le> instrPtr s1 \<and> instrPtr s1 < codeHeapLimit s1 \<and>
           \<not> Option.is_none (steps h0 1 s1) \<and>
           code s (instrPtr s) = Some (COp CALL) \<and> code s (instrPtr s + 2) = Some (CU16 9) \<and>
           code s (instrPtr s + 4) = Some (CPtr 3000001) \<and>
           instrPtr s + 12 \<le> codeHeapLimit s \<and> stackPtr s < stackBase s \<and>
           stackBase s - (stackPtr s + 1) < 9"
    by code_simp
  then have e: "fst (callFun_enter h0 1 [] (start imgUnder)) = Inr 0"
    and i: "codeHeap s1 \<le> instrPtr s1" "instrPtr s1 < codeHeapLimit s1"
    and r: "\<not> Option.is_none (steps h0 1 s1)"
    and f: "code s (instrPtr s) = Some (COp CALL)" "code s (instrPtr s + 2) = Some (CU16 9)"
      "code s (instrPtr s + 4) = Some (CPtr 3000001)"
      "instrPtr s + 12 \<le> codeHeapLimit s" "stackPtr s < stackBase s"
    and u: "stackBase s - (stackPtr s + 1) < uint (9 :: 16 word)"
    by (simp_all add: Let_def s_def s1_def entered_def)
  from e have e': "callFun_enter h0 1 [] (start imgUnder) = (Inr 0, s1)"
    by (simp add: s1_def entered_def pair_snd)
  from steps_after[OF r] have r': "steps h0 1 s1 = Some s"
    by (simp add: s_def)
  have "let e = callFun_enter h0 1 [] (start imgShort);
            t1 = snd e;
            t = after h0 1 t1
        in fst e = Inr 0 \<and> codeHeap t1 \<le> instrPtr t1 \<and> instrPtr t1 < codeHeapLimit t1 \<and>
           \<not> Option.is_none (steps h0 1 t1) \<and>
           code t (instrPtr t) = Some (COp CALL) \<and> code t (instrPtr t + 2) = Some (CU16 1) \<and>
           code t (instrPtr t + 4) = Some (CPtr 3000001) \<and>
           instrPtr t + 12 \<le> codeHeapLimit t \<and> stackPtr t < stackBase t \<and>
           1 \<le> stackBase t - (stackPtr t + 1) \<and> stack t (stackPtr t) = Value 20 TAG_OBJECT \<and>
           operands t 0 - 1 < 1"
    by code_simp
  then have d: "fst (callFun_enter h0 1 [] (start imgShort)) = Inr 0"
    and j: "codeHeap t1 \<le> instrPtr t1" "instrPtr t1 < codeHeapLimit t1"
    and q: "\<not> Option.is_none (steps h0 1 t1)"
    and g: "code t (instrPtr t) = Some (COp CALL)" "code t (instrPtr t + 2) = Some (CU16 1)"
      "code t (instrPtr t + 4) = Some (CPtr 3000001)"
      "instrPtr t + 12 \<le> codeHeapLimit t" "stackPtr t < stackBase t"
    and w: "uint (1 :: 16 word) \<le> stackBase t - (stackPtr t + 1)"
      "stack t (stackPtr t) = Value 20 TAG_OBJECT" "operands t 0 - 1 < 1"
    by (simp_all add: Let_def t_def t1_def entered_def)
  from d have d': "callFun_enter h0 1 [] (start imgShort) = (Inr 0, t1)"
    by (simp add: t1_def entered_def pair_snd)
  from steps_after[OF q] have q': "steps h0 1 t1 = Some t"
    by (simp add: t_def)
  from C7_stack_underflow[OF e' i r' f refl refl, of 0] u
    C7_stack_underflow[OF d' j q' g refl refl, of 0] w
  show ?thesis
    unfolding s_def s1_def t_def t1_def
    by (simp add: stackSize_def isObject_def)
qed

theorem C7_counterexample:
  "code (after h0 1 (entered imgShort [])) (instrPtr (after h0 1 (entered imgShort [])))
     = Some (COp CALL) \<and>
   code (after h0 1 (entered imgShort [])) (instrPtr (after h0 1 (entered imgShort [])) + 2)
     = Some (CU16 1) \<and>
   operands (after h0 1 (entered imgShort [])) 0 - 1 < 1 \<and>
   fst (step h0 (after h0 1 (entered imgShort []))) = Inr None"
proof -
  have "let s = after h0 1 (entered imgShort [])
        in code s (instrPtr s) = Some (COp CALL) \<and> code s (instrPtr s + 2) = Some (CU16 1) \<and>
           operands s 0 - 1 < 1 \<and> fst (step h0 s) = Inr None"
    by code_simp
  then show ?thesis
    unfolding Let_def by simp
qed

text \<open>
  C6 (amended). \<open>get_field\<close> on an object that lacks the named field throws the
  \<open>RunError\<close> \<open>get_field failed, missing field\<close>, with its two operands popped.
  \<open>set_field\<close> on an object that lacks the named field does not fail for the missing
  field: when the name is a valid identifier it adds the field with the value and the
  loop goes on, and when it is not it throws \<open>invalid identifier in set_field\<close>, with its
  three operands popped.
\<close>

theorem C6_missing_field:
  "(code s (instrPtr s) = Some (COp GET_FIELD) \<and>
    instrPtr s + sizeofOpcode \<le> codeHeapLimit s \<and> stackPtr s + 2 \<le> stackBase s \<and>
    stack s (stackPtr s) = Value np TAG_STRING \<and> heap s np = Some (HStr name) \<and>
    stack s (stackPtr s + 1) = Value p TAG_OBJECT \<and> heap s p = Some (HObj fs) \<and>
    map_of fs name = None \<longrightarrow>
      step h s =
        (Inl (RunError (''get_field failed, missing field '' @ [dq] @ name @ [dq])),
         s\<lparr>instrPtr := instrPtr s + sizeofOpcode, stackPtr := stackPtr s + 2\<rparr>) \<and>
      \<not> fatal (fst (step h s))) \<and>
   (code t (instrPtr t) = Some (COp SET_FIELD) \<and>
    instrPtr t + sizeofOpcode \<le> codeHeapLimit t \<and> stackPtr t + 3 \<le> stackBase t \<and>
    stack t (stackPtr t + 1) = Value np' TAG_STRING \<and> heap t np' = Some (HStr name') \<and>
    stack t (stackPtr t + 2) = Value p' TAG_OBJECT \<and> heap t p' = Some (HObj fs') \<and>
    map_of fs' name' = None \<longrightarrow>
      step h t =
        (if isValidIdent h name' then
           (Inr None,
            t\<lparr>instrPtr := instrPtr t + sizeofOpcode, stackPtr := stackPtr t + 3,
              heap := (heap t)(p' \<mapsto> HObj (fs' @ [(name', stack t (stackPtr t))]))\<rparr>)
         else
           (Inl (RunError (''invalid identifier in set_field '' @ [dq] @ name' @ [dq])),
            t\<lparr>instrPtr := instrPtr t + sizeofOpcode, stackPtr := stackPtr t + 3\<rparr>)) \<and>
      \<not> fatal (fst (step h t)))"
proof (intro conjI impI)
  assume a: "code s (instrPtr s) = Some (COp GET_FIELD) \<and>
    instrPtr s + sizeofOpcode \<le> codeHeapLimit s \<and> stackPtr s + 2 \<le> stackBase s \<and>
    stack s (stackPtr s) = Value np TAG_STRING \<and> heap s np = Some (HStr name) \<and>
    stack s (stackPtr s + 1) = Value p TAG_OBJECT \<and> heap s p = Some (HObj fs) \<and>
    map_of fs name = None"
  then have g: "step h s =
        (Inl (RunError (''get_field failed, missing field '' @ [dq] @ name @ [dq])),
         s\<lparr>instrPtr := instrPtr s + sizeofOpcode, stackPtr := stackPtr s + 2\<rparr>)"
    using step_GET_FIELD_missing[where s = s and np = np and name = name and p = p
        and fs = fs and h = h]
    by simp
  then show "step h s =
        (Inl (RunError (''get_field failed, missing field '' @ [dq] @ name @ [dq])),
         s\<lparr>instrPtr := instrPtr s + sizeofOpcode, stackPtr := stackPtr s + 2\<rparr>)" .
  from g show "\<not> fatal (fst (step h s))" by simp
next
  assume a: "code t (instrPtr t) = Some (COp SET_FIELD) \<and>
    instrPtr t + sizeofOpcode \<le> codeHeapLimit t \<and> stackPtr t + 3 \<le> stackBase t \<and>
    stack t (stackPtr t + 1) = Value np' TAG_STRING \<and> heap t np' = Some (HStr name') \<and>
    stack t (stackPtr t + 2) = Value p' TAG_OBJECT \<and> heap t p' = Some (HObj fs') \<and>
    map_of fs' name' = None"
  then have u: "step h t =
        (if isValidIdent h name' then
           (Inr None,
            t\<lparr>instrPtr := instrPtr t + sizeofOpcode, stackPtr := stackPtr t + 3,
              heap := (heap t)(p' \<mapsto> HObj (fs' @ [(name', stack t (stackPtr t))]))\<rparr>)
         else
           (Inl (RunError (''invalid identifier in set_field '' @ [dq] @ name' @ [dq])),
            t\<lparr>instrPtr := instrPtr t + sizeofOpcode, stackPtr := stackPtr t + 3\<rparr>))"
    using step_SET_FIELD_missing[where t = t and np = np' and name = name' and p = p'
        and fs = fs' and h = h and val = "stack t (stackPtr t)"]
    by simp
  then show "step h t =
        (if isValidIdent h name' then
           (Inr None,
            t\<lparr>instrPtr := instrPtr t + sizeofOpcode, stackPtr := stackPtr t + 3,
              heap := (heap t)(p' \<mapsto> HObj (fs' @ [(name', stack t (stackPtr t))]))\<rparr>)
         else
           (Inl (RunError (''invalid identifier in set_field '' @ [dq] @ name' @ [dq])),
            t\<lparr>instrPtr := instrPtr t + sizeofOpcode, stackPtr := stackPtr t + 3\<rparr>))" .
  from u show "\<not> fatal (fst (step h t))" by simp
qed

theorem C6_missing_field_witness:
  "fst (step h0 (after h0 3 (entered imgGetField []))) =
     Inl (RunError (''get_field failed, missing field '' @ [dq] @ ''x'' @ [dq])) \<and>
   fst (step h0 (after h0 4 (entered imgField []))) = Inr None \<and>
   heap (snd (step h0 (after h0 4 (entered imgField [])))) 1000 = Some (HObj [(''x'', int32 7)]) \<and>
   fst (step (h0\<lparr>isValidIdent := (\<lambda>bs. False)\<rparr>) (after h0 4 (entered imgField []))) =
     Inl (RunError (''invalid identifier in set_field '' @ [dq] @ ''x'' @ [dq]))"
proof -
  define s where "s = after h0 3 (entered imgGetField [])"
  define t where "t = after h0 4 (entered imgField [])"
  have "let s = after h0 3 (entered imgGetField [])
        in code s (instrPtr s) = Some (COp GET_FIELD) \<and>
           instrPtr s + sizeofOpcode \<le> codeHeapLimit s \<and> stackPtr s + 2 \<le> stackBase s \<and>
           stack s (stackPtr s) = Value 122 TAG_STRING \<and> heap s 122 = Some (HStr ''x'') \<and>
           stack s (stackPtr s + 1) = Value 1000 TAG_OBJECT \<and> heap s 1000 = Some (HObj [])"
    by code_simp
  then have g: "code s (instrPtr s) = Some (COp GET_FIELD)"
      "instrPtr s + sizeofOpcode \<le> codeHeapLimit s" "stackPtr s + 2 \<le> stackBase s"
      "stack s (stackPtr s) = Value 122 TAG_STRING" "heap s 122 = Some (HStr ''x'')"
      "stack s (stackPtr s + 1) = Value 1000 TAG_OBJECT" "heap s 1000 = Some (HObj [])"
    by (simp_all add: Let_def s_def)
  have "let t = after h0 4 (entered imgField [])
        in code t (instrPtr t) = Some (COp SET_FIELD) \<and>
           instrPtr t + sizeofOpcode \<le> codeHeapLimit t \<and> stackPtr t + 3 \<le> stackBase t \<and>
           stack t (stackPtr t) = int32 7 \<and>
           stack t (stackPtr t + 1) = Value 122 TAG_STRING \<and> heap t 122 = Some (HStr ''x'') \<and>
           stack t (stackPtr t + 2) = Value 1000 TAG_OBJECT \<and> heap t 1000 = Some (HObj [])"
    by code_simp
  then have u: "code t (instrPtr t) = Some (COp SET_FIELD)"
      "instrPtr t + sizeofOpcode \<le> codeHeapLimit t" "stackPtr t + 3 \<le> stackBase t"
      "stack t (stackPtr t + 1) = Value 122 TAG_STRING" "heap t 122 = Some (HStr ''x'')"
      "stack t (stackPtr t + 2) = Value 1000 TAG_OBJECT" "heap t 1000 = Some (HObj [])"
    and v: "stack t (stackPtr t) = int32 7"
    by (simp_all add: Let_def t_def)
  have m: "map_of ([] :: (string \<times> Value) list) ''x'' = None"
    by simp
  from C6_missing_field[where h = h0 and s = s and np = 122 and name = "''x''" and p = 1000
      and fs = "[]" and t = t and np' = 122 and name' = "''x''" and p' = 1000 and fs' = "[]"]
    C6_missing_field[where h = "h0\<lparr>isValidIdent := (\<lambda>bs. False)\<rparr>" and s = s and np = 122
      and name = "''x''" and p = 1000 and fs = "[]" and t = t and np' = 122
      and name' = "''x''" and p' = 1000 and fs' = "[]"]
    g u v m
  show ?thesis
    unfolding s_def t_def by (simp add: h0_def)
qed

theorem C6_counterexample:
  "code (after h0 4 (entered imgField [])) (instrPtr (after h0 4 (entered imgField [])))
     = Some (COp SET_FIELD) \<and>
   stack (after h0 4 (entered imgField [])) (stackPtr (after h0 4 (entered imgField [])) + 2)
     = Value 1000 TAG_OBJECT \<and>
   fst (hasField 1000 ''x'' (after h0 4 (entered imgField []))) = Inr False \<and>
   fst (step h0 (after h0 4 (entered imgField []))) = Inr None"
proof -
  have "let t = after h0 4 (entered imgField [])
        in code t (instrPtr t) = Some (COp SET_FIELD) \<and>
           stack t (stackPtr t + 2) = Value 1000 TAG_OBJECT \<and>
           fst (hasField 1000 ''x'' t) = Inr False \<and> fst (step h0 t) = Inr None"
    by code_simp
  then show ?thesis
    unfolding Let_def by simp
qed

text \<open>
  C1 (amended). A \<open>CALL\<close> with \<open>n\<close> arguments on a function object \<open>f\<close> (enough slots on
  the stack) looks up the version \<open>v\<close> of the entry block of \<open>f\<close> and compiles it if
  needed, which gives the state \<open>s3\<close>; only then are the counts compared. When \<open>n\<close> is
  \<open>num_params\<close>, \<open>num_params \<le> num_locals\<close> and the stack has room, the frame pointer
  goes to the slot of the first argument, the stack pointer goes down by
  \<open>num_locals - n\<close>, the three saved words (the stack pointer before the arguments were
  pushed, the frame pointer of the caller, the return version) are pushed below the
  locals, and control goes to the \<open>startPtr\<close> of \<open>v\<close>. When \<open>n\<close> is \<open>num_params\<close> and
  \<open>num_locals < num_params\<close>, the call throws \<open>not enough locals to store function
  parameters\<close>. When \<open>n\<close> is not \<open>num_params\<close> it throws the argument-count error, which
  starts with the source position of the call when there is one.
\<close>

theorem C1_call_function:
  assumes op: "code s (instrPtr s) = Some (COp CALL)"
    and n: "code s (instrPtr s + 2) = Some (CU16 n)"
    and rv: "code s (instrPtr s + 4) = Some (CPtr retVer)"
    and lim: "instrPtr s + 12 \<le> codeHeapLimit s"
    and top: "stackPtr s < stackBase s"
    and callee: "stack s (stackPtr s) = Value f TAG_OBJECT"
    and enough: "uint n \<le> stackBase s - (stackPtr s + 1)"
    and hp: "heap s f = Some (HObj fs)"
    and ent: "map_of fs ''entry'' = Some (Value e TAG_OBJECT)"
    and nl: "map_of fs ''num_locals'' = Some (int32 L)"
    and np: "map_of fs ''num_params'' = Some (int32 P)"
    and s1: "s1 = s\<lparr>instrPtr := instrPtr s + 12, stackPtr := stackPtr s + 1\<rparr>"
    and gbv: "getBlockVersion f e s1 = (Inr v, s2)"
    and cin: "compileIfNeeded h v s2 = (Inr (), s3)"
    and pos: "fst (getSrcPos (instrPtr s) s3) = Inr srcPos"
  shows "(unat n = sizeT P \<and> sint P \<le> sint L \<and>
          stackLimit s < stackPtr s + 1 - (sint L - uint n) - 2 \<longrightarrow>
            (\<exists>ver. versions s3 v = Some ver \<and>
               step h s =
                 (Inr None,
                  (let top = stackPtr s + 1 - (sint L - uint n)
                   in s3\<lparr>framePtr := stackPtr s + uint n,
                         stackPtr := top - 3,
                         stack := (stack s)
                           (top - 1 := rawptr (stackPtr s + 1 + uint n),
                            top - 2 := rawptr (framePtr s),
                            top - 3 := rawptr retVer),
                         instrPtr := startPtr ver\<rparr>)))) \<and>
         (unat n = sizeT P \<and> sint L < sint P \<longrightarrow>
            step h s =
              (Inl (RunError ''not enough locals to store function parameters''), s3)) \<and>
         (unat n \<noteq> sizeT P \<longrightarrow>
            step h s =
              (Inl (RunError (argCountMsg
                 (if isObject srcPos then posToString h (heap s) srcPos @ '' - '' else [])
                 (unat n) (sizeT P))), s3))"
proof -
  have st: "step h s = bnd (funCall h (instrPtr s) f (unat n) retVer) (\<lambda>_. ret None) s1"
    using enough callee
    by (simp add: step_CALL[OF op n rv lim top] Let_def s1 isObject_def)
  have hp1: "heap s1 f = Some (HObj fs)"
    using hp by (simp add: s1)
  have s1f: "stackPtr s1 = stackPtr s + 1" "framePtr s1 = framePtr s" "stack s1 = stack s"
    "stackLimit s1 = stackLimit s" "heap s1 = heap s"
    by (simp_all add: s1)
  obtain ver where ver: "versions s3 v = Some ver"
    using compileIfNeeded_version[OF cin] by blast
  have A: "\<exists>ver. versions s3 v = Some ver \<and>
               step h s =
                 (Inr None,
                  (let top = stackPtr s + 1 - (sint L - uint n)
                   in s3\<lparr>framePtr := stackPtr s + uint n,
                         stackPtr := top - 3,
                         stack := (stack s)
                           (top - 1 := rawptr (stackPtr s + 1 + uint n),
                            top - 2 := rawptr (framePtr s),
                            top - 3 := rawptr retVer),
                         instrPtr := startPtr ver\<rparr>))"
    if eq: "unat n = sizeT P" and loc: "sint P \<le> sint L"
      and room: "stackLimit s < stackPtr s + 1 - (sint L - uint n) - 2"
  proof -
    have i: "int (unat n) = sint P"
      using sizeT_unat16[OF eq] by simp
    have r: "stackLimit s1 < stackPtr s1 - (sint L - int (unat n)) - 2"
      using room by (simp add: s1f)
    have "step h s =
            (Inr None,
             s3\<lparr>framePtr := stackPtr s1 + int (unat n) - 1,
                stackPtr := stackPtr s1 - (sint L - int (unat n)) - 3,
                stack := (stack s1)
                  (stackPtr s1 - (sint L - int (unat n)) - 1 :=
                     rawptr (stackPtr s1 + int (unat n)),
                   stackPtr s1 - (sint L - int (unat n)) - 2 := rawptr (framePtr s1),
                   stackPtr s1 - (sint L - int (unat n)) - 3 := rawptr retVer),
                instrPtr := startPtr ver\<rparr>)"
      unfolding st
      by (simp add: bnd_Inr[where m = "funCall h (instrPtr s) f (unat n) retVer",
            OF funCall_ok[OF hp1 ent nl np gbv cin pos eq i loc r ver]] ret_def)
    then have "step h s =
                 (Inr None,
                  (let top = stackPtr s + 1 - (sint L - uint n)
                   in s3\<lparr>framePtr := stackPtr s + uint n,
                         stackPtr := top - 3,
                         stack := (stack s)
                           (top - 1 := rawptr (stackPtr s + 1 + uint n),
                            top - 2 := rawptr (framePtr s),
                            top - 3 := rawptr retVer),
                         instrPtr := startPtr ver\<rparr>))"
      by (simp add: s1f Let_def algebra_simps)
    with ver show ?thesis by blast
  qed
  have B: "step h s =
              (Inl (RunError ''not enough locals to store function parameters''), s3)"
    if eq: "unat n = sizeT P" and loc: "sint L < sint P"
    unfolding st
    using loc
    by (simp add: bnd_Inl[where m = "funCall h (instrPtr s) f (unat n) retVer"]
        funCall_tail[OF hp1 ent nl np gbv cin pos eq])
  have C: "step h s =
              (Inl (RunError (argCountMsg
                 (if isObject srcPos then posToString h (heap s) srcPos @ '' - '' else [])
                 (unat n) (sizeT P))), s3)"
    if ne: "unat n \<noteq> sizeT P"
    unfolding st
    by (simp add: bnd_Inl[where m = "funCall h (instrPtr s) f (unat n) retVer"]
        funCall_argcount[OF hp1 ent nl np gbv cin pos ne] s1f)
  from A B C show ?thesis by blast
qed

theorem C1_call_function_witness:
  "fst (step h0 (after h0 2 (entered imgCall []))) = Inr None \<and>
   instrPtr (snd (step h0 (after h0 2 (entered imgCall [])))) = 4144 \<and>
   framePtr (snd (step h0 (after h0 2 (entered imgCall [])))) =
     stackPtr (after h0 2 (entered imgCall [])) + 1 \<and>
   fst (step h0 (after h0 2 (entered imgLocals []))) =
     Inl (RunError ''not enough locals to store function parameters'') \<and>
   fst (step h0 (after h0 3 (entered imgArgs []))) =
     Inl (RunError (argCountMsg ''pos - '' 2 1))"
proof -
  define s where "s = after h0 2 (entered imgCall [])"
  define s1 where "s1 = s\<lparr>instrPtr := instrPtr s + 12, stackPtr := stackPtr s + 1\<rparr>"
  define s2 where "s2 = snd (getBlockVersion 20 21 s1)"
  define s3 where "s3 = snd (compileIfNeeded h0 3000002 s2)"
  define fs where "fs = [(''entry'', obj 21), (''num_params'', int32 1), (''num_locals'', int32 1)]"
  have "let s = after h0 2 (entered imgCall []);
            s1 = s\<lparr>instrPtr := instrPtr s + 12, stackPtr := stackPtr s + 1\<rparr>;
            g = getBlockVersion 20 21 s1;
            s2 = snd g;
            c = compileIfNeeded h0 3000002 s2;
            s3 = snd c
        in code s (instrPtr s) = Some (COp CALL) \<and> code s (instrPtr s + 2) = Some (CU16 1) \<and>
           code s (instrPtr s + 4) = Some (CPtr 3000001) \<and>
           instrPtr s + 12 \<le> codeHeapLimit s \<and> stackPtr s < stackBase s \<and>
           stack s (stackPtr s) = Value 20 TAG_OBJECT \<and>
           1 \<le> stackBase s - (stackPtr s + 1) \<and>
           heap s 20 = Some (HObj [(''entry'', obj 21), (''num_params'', int32 1),
                                   (''num_locals'', int32 1)]) \<and>
           fst g = Inr 3000002 \<and> fst c = Inr () \<and>
           fst (getSrcPos (instrPtr s) s3) = Inr (obj 30) \<and>
           stackLimit s < stackPtr s + 1 - (1 - 1) - 2 \<and>
           map_option startPtr (versions s3 3000002) = Some 4144"
    by code_simp
  then have f: "code s (instrPtr s) = Some (COp CALL)" "code s (instrPtr s + 2) = Some (CU16 1)"
      "code s (instrPtr s + 4) = Some (CPtr 3000001)"
      "instrPtr s + 12 \<le> codeHeapLimit s" "stackPtr s < stackBase s"
      "stack s (stackPtr s) = Value 20 TAG_OBJECT"
      "uint (1 :: 16 word) \<le> stackBase s - (stackPtr s + 1)"
      "heap s 20 = Some (HObj fs)"
    and g: "fst (getBlockVersion 20 21 s1) = Inr 3000002"
    and c: "fst (compileIfNeeded h0 3000002 s2) = Inr ()"
    and p: "fst (getSrcPos (instrPtr s) s3) = Inr (obj 30)"
    and r: "stackLimit s < stackPtr s + 1 - (1 - 1) - 2"
    and v: "map_option startPtr (versions s3 3000002) = Some 4144"
    by (simp_all add: Let_def s_def s1_def s2_def s3_def fs_def)
  have m: "map_of fs ''entry'' = Some (Value 21 TAG_OBJECT)"
      "map_of fs ''num_locals'' = Some (int32 1)" "map_of fs ''num_params'' = Some (int32 1)"
    by (simp_all add: fs_def obj_def)
  from g have g': "getBlockVersion 20 21 s1 = (Inr 3000002, s2)"
    by (simp add: s2_def pair_snd)
  from c have c': "compileIfNeeded h0 3000002 s2 = (Inr (), s3)"
    by (simp add: s3_def pair_snd)
  have A: "fst (step h0 s) = Inr None \<and> instrPtr (snd (step h0 s)) = 4144 \<and>
           framePtr (snd (step h0 s)) = stackPtr s + 1"
    using C1_call_function[OF f m s1_def g' c' p] r v
    by (auto simp: sizeT_def Let_def)

  define t where "t = after h0 2 (entered imgLocals [])"
  define t1 where "t1 = t\<lparr>instrPtr := instrPtr t + 12, stackPtr := stackPtr t + 1\<rparr>"
  define t2 where "t2 = snd (getBlockVersion 20 21 t1)"
  define t3 where "t3 = snd (compileIfNeeded h0 3000002 t2)"
  define gs where "gs = [(''entry'', obj 21), (''num_params'', int32 1), (''num_locals'', int32 0)]"
  have "let s = after h0 2 (entered imgLocals []);
            s1 = s\<lparr>instrPtr := instrPtr s + 12, stackPtr := stackPtr s + 1\<rparr>;
            g = getBlockVersion 20 21 s1;
            s2 = snd g;
            c = compileIfNeeded h0 3000002 s2;
            s3 = snd c
        in code s (instrPtr s) = Some (COp CALL) \<and> code s (instrPtr s + 2) = Some (CU16 1) \<and>
           code s (instrPtr s + 4) = Some (CPtr 3000001) \<and>
           instrPtr s + 12 \<le> codeHeapLimit s \<and> stackPtr s < stackBase s \<and>
           stack s (stackPtr s) = Value 20 TAG_OBJECT \<and>
           1 \<le> stackBase s - (stackPtr s + 1) \<and>
           heap s 20 = Some (HObj [(''entry'', obj 21), (''num_params'', int32 1),
                                   (''num_locals'', int32 0)]) \<and>
           fst g = Inr 3000002 \<and> fst c = Inr () \<and>
           fst (getSrcPos (instrPtr s) s3) = Inr UNDEF"
    by code_simp
  then have f2: "code t (instrPtr t) = Some (COp CALL)" "code t (instrPtr t + 2) = Some (CU16 1)"
      "code t (instrPtr t + 4) = Some (CPtr 3000001)"
      "instrPtr t + 12 \<le> codeHeapLimit t" "stackPtr t < stackBase t"
      "stack t (stackPtr t) = Value 20 TAG_OBJECT"
      "uint (1 :: 16 word) \<le> stackBase t - (stackPtr t + 1)"
      "heap t 20 = Some (HObj gs)"
    and g2: "fst (getBlockVersion 20 21 t1) = Inr 3000002"
    and c2: "fst (compileIfNeeded h0 3000002 t2) = Inr ()"
    and p2: "fst (getSrcPos (instrPtr t) t3) = Inr UNDEF"
    by (simp_all add: Let_def t_def t1_def t2_def t3_def gs_def)
  have m2: "map_of gs ''entry'' = Some (Value 21 TAG_OBJECT)"
      "map_of gs ''num_locals'' = Some (int32 0)" "map_of gs ''num_params'' = Some (int32 1)"
    by (simp_all add: gs_def obj_def)
  from g2 have g2': "getBlockVersion 20 21 t1 = (Inr 3000002, t2)"
    by (simp add: t2_def pair_snd)
  from c2 have c2': "compileIfNeeded h0 3000002 t2 = (Inr (), t3)"
    by (simp add: t3_def pair_snd)
  have B: "fst (step h0 t) = Inl (RunError ''not enough locals to store function parameters'')"
    using C1_call_function[OF f2 m2 t1_def g2' c2' p2]
    by (simp add: sizeT_def)

  define u where "u = after h0 3 (entered imgArgs [])"
  define u1 where "u1 = u\<lparr>instrPtr := instrPtr u + 12, stackPtr := stackPtr u + 1\<rparr>"
  define u2 where "u2 = snd (getBlockVersion 20 21 u1)"
  define u3 where "u3 = snd (compileIfNeeded h0 3000002 u2)"
  have "let s = after h0 3 (entered imgArgs []);
            s1 = s\<lparr>instrPtr := instrPtr s + 12, stackPtr := stackPtr s + 1\<rparr>;
            g = getBlockVersion 20 21 s1;
            s2 = snd g;
            c = compileIfNeeded h0 3000002 s2;
            s3 = snd c
        in code s (instrPtr s) = Some (COp CALL) \<and> code s (instrPtr s + 2) = Some (CU16 2) \<and>
           code s (instrPtr s + 4) = Some (CPtr 3000001) \<and>
           instrPtr s + 12 \<le> codeHeapLimit s \<and> stackPtr s < stackBase s \<and>
           stack s (stackPtr s) = Value 20 TAG_OBJECT \<and>
           2 \<le> stackBase s - (stackPtr s + 1) \<and>
           heap s 20 = Some (HObj [(''entry'', obj 21), (''num_params'', int32 1),
                                   (''num_locals'', int32 1)]) \<and>
           fst g = Inr 3000002 \<and> fst c = Inr () \<and>
           fst (getSrcPos (instrPtr s) s3) = Inr (obj 30)"
    by code_simp
  then have f3: "code u (instrPtr u) = Some (COp CALL)" "code u (instrPtr u + 2) = Some (CU16 2)"
      "code u (instrPtr u + 4) = Some (CPtr 3000001)"
      "instrPtr u + 12 \<le> codeHeapLimit u" "stackPtr u < stackBase u"
      "stack u (stackPtr u) = Value 20 TAG_OBJECT"
      "uint (2 :: 16 word) \<le> stackBase u - (stackPtr u + 1)"
      "heap u 20 = Some (HObj fs)"
    and g3: "fst (getBlockVersion 20 21 u1) = Inr 3000002"
    and c3: "fst (compileIfNeeded h0 3000002 u2) = Inr ()"
    and p3: "fst (getSrcPos (instrPtr u) u3) = Inr (obj 30)"
    by (simp_all add: Let_def u_def u1_def u2_def u3_def fs_def)
  from g3 have g3': "getBlockVersion 20 21 u1 = (Inr 3000002, u2)"
    by (simp add: u2_def pair_snd)
  from c3 have c3': "compileIfNeeded h0 3000002 u2 = (Inr (), u3)"
    by (simp add: u3_def pair_snd)
  have C: "fst (step h0 u) = Inl (RunError (argCountMsg ''pos - '' 2 1))"
    using C1_call_function[OF f3 m u1_def g3' c3' p3]
    by (simp add: sizeT_def obj_def isObject_def h0_def)
  from A B C show ?thesis
    unfolding s_def t_def u_def by simp
qed

theorem C1_counterexample:
  "code (after h0 2 (entered imgLocals [])) (instrPtr (after h0 2 (entered imgLocals [])))
     = Some (COp CALL) \<and>
   code (after h0 2 (entered imgLocals [])) (instrPtr (after h0 2 (entered imgLocals [])) + 2)
     = Some (CU16 1) \<and>
   stack (after h0 2 (entered imgLocals [])) (stackPtr (after h0 2 (entered imgLocals [])))
     = Value 20 TAG_OBJECT \<and>
   fst (ICache_getInt32 ''num_params'' 20 (after h0 2 (entered imgLocals []))) = Inr 1 \<and>
   fst (step h0 (after h0 2 (entered imgLocals []))) =
     Inl (RunError ''not enough locals to store function parameters'')"
proof -
  have "let s = after h0 2 (entered imgLocals [])
        in code s (instrPtr s) = Some (COp CALL) \<and> code s (instrPtr s + 2) = Some (CU16 1) \<and>
           stack s (stackPtr s) = Value 20 TAG_OBJECT \<and>
           fst (ICache_getInt32 ''num_params'' 20 s) = Inr 1 \<and>
           fst (step h0 s) = Inl (RunError ''not enough locals to store function parameters'')"
    by code_simp
  then show ?thesis
    unfolding Let_def by simp
qed

text \<open>
  C4. \<open>callFun\<close> compiles the entry version of the function whether or not it is compiled.
  Two calls of function 1 of \<open>imgCall\<close> in a row both return 5; block 2, its entry block,
  has the one version 3000000 throughout, compiled at 4096 to 4144 by the first call and
  again at 4152 to 4200 by the second.
\<close>

theorem C4_callFun_recompiles:
  "map_option fst (callFun h0 100 1 [] (start imgCall)) = Some (Inr (int32 5)) \<and>
   versionMap (called (start imgCall)) 2 = Some [3000000] \<and>
   map_option startPtr (versions (called (start imgCall)) 3000000) = Some 4096 \<and>
   map_option endPtr (versions (called (start imgCall)) 3000000) = Some 4144 \<and>
   map_option fst (callFun h0 100 1 [] (called (start imgCall))) = Some (Inr (int32 5)) \<and>
   versionMap (called (called (start imgCall))) 2 = Some [3000000] \<and>
   map_option startPtr (versions (called (called (start imgCall))) 3000000) = Some 4152 \<and>
   map_option endPtr (versions (called (called (start imgCall))) 3000000) = Some 4200"
proof -
  have "let r1 = callFun h0 100 1 [] (start imgCall);
            s1 = (case r1 of Some (r, s') \<Rightarrow> s' | None \<Rightarrow> start imgCall);
            r2 = callFun h0 100 1 [] s1;
            s2 = (case r2 of Some (r, s') \<Rightarrow> s' | None \<Rightarrow> s1)
        in map_option fst r1 = Some (Inr (int32 5)) \<and>
           versionMap s1 2 = Some [3000000] \<and>
           map_option startPtr (versions s1 3000000) = Some 4096 \<and>
           map_option endPtr (versions s1 3000000) = Some 4144 \<and>
           map_option fst r2 = Some (Inr (int32 5)) \<and>
           versionMap s2 2 = Some [3000000] \<and>
           map_option startPtr (versions s2 3000000) = Some 4152 \<and>
           map_option endPtr (versions s2 3000000) = Some 4200"
    by code_simp
  then show ?thesis
    unfolding Let_def called_def by simp
qed





text \<open>
  C5 (amended). A \<open>CALL\<close> with \<open>n\<close> arguments on a function object that goes on, and the
  \<open>RET\<close> that returns from it, the one that finds on the stack, under the returned value,
  the three saved words that the \<open>CALL\<close> pushed: when control is back in the caller, at
  the version the \<open>CALL\<close> named, the frame pointer is the one of the caller, the returned
  value is on top of the stack, and the stack is \<open>n\<close> slots smaller than it was before the
  \<open>CALL\<close>: the callee and the \<open>n\<close> arguments are gone, the returned value is there.
\<close>

theorem C5_call_ret_stack_size:
  assumes cop: "code s0 (instrPtr s0) = Some (COp CALL)"
    and cn: "code s0 (instrPtr s0 + 2) = Some (CU16 n)"
    and crv: "code s0 (instrPtr s0 + 4) = Some (CPtr retVer)"
    and callee: "isObject (stack s0 (stackPtr s0))"
    and call: "step h s0 = (Inr None, s1)"
    and rop: "code s2 (instrPtr s2) = Some (COp RET)"
    and same: "stackBase s2 = stackBase s1" "stackPtr s2 + 1 = stackPtr s1"
      "stack s2 (stackPtr s1) = stack s1 (stackPtr s1)"
      "stack s2 (stackPtr s1 + 1) = stack s1 (stackPtr s1 + 1)"
      "stack s2 (stackPtr s1 + 2) = stack s1 (stackPtr s1 + 2)"
    and ret: "step h s2 = (Inr None, s3)"
  shows "stackSize s3 = stackSize s0 - uint n \<and>
         framePtr s3 = framePtr s0 \<and>
         stack s3 (stackPtr s3) = stack s2 (stackPtr s2) \<and>
         (\<exists>ver. versions s3 retVer = Some ver \<and> instrPtr s3 = startPtr ver)"
proof -
  from step_CALL_InrD[OF cop cn crv callee call]
  have top: "stackPtr s0 < stackBase s0"
    and fc: "funCall h (instrPtr s0) (getWord (stack s0 (stackPtr s0))) (unat n) retVer
           (s0\<lparr>instrPtr := instrPtr s0 + 12, stackPtr := stackPtr s0 + 1\<rparr>) = (Inr (), s1)"
    by simp_all
  from funCall_InrD[OF fc] obtain d where d: "0 \<le> d"
    and sp1: "stackPtr s1 = stackPtr s0 + 1 - d - 3"
    and w: "stack s1 (stackPtr s1) = rawptr retVer"
      "stack s1 (stackPtr s1 + 1) = rawptr (framePtr s0)"
      "stack s1 (stackPtr s1 + 2) = rawptr (stackPtr s0 + 1 + uint n)"
    and b1: "stackBase s1 = stackBase s0"
    by auto
  have sp2: "stackPtr s2 = stackPtr s1 - 1"
    using same(2) by simp
  have four: "stackPtr s2 + 4 \<le> stackBase s2"
    using sp2 sp1 d top same(1) b1 by simp
  have at: "stack s2 (stackPtr s2 + 1) = rawptr retVer"
    "stack s2 (stackPtr s2 + 2) = rawptr (framePtr s0)"
    "stack s2 (stackPtr s2 + 3) = rawptr (stackPtr s0 + 1 + uint n)"
    using same(3-5) w by (simp_all add: sp2 add.commute)
  from step_RET_InrD[OF rop four ret]
  have r: "stackPtr s3 = getWord (stack s2 (stackPtr s2 + 3)) - 1"
    "stack s3 (stackPtr s3) = stack s2 (stackPtr s2)"
    "framePtr s3 = getWord (stack s2 (stackPtr s2 + 2))"
    "stackBase s3 = stackBase s2"
    "\<exists>ver. versions s3 (getWord (stack s2 (stackPtr s2 + 1))) = Some ver \<and>
           instrPtr s3 = startPtr ver"
    by blast+
  have "stackSize s3 = stackSize s0 - uint n"
    using r(1,4) same(1) b1 by (simp add: stackSize_def at rawptr_def)
  moreover have "framePtr s3 = framePtr s0"
    using r(3) by (simp add: at rawptr_def)
  moreover have "\<exists>ver. versions s3 retVer = Some ver \<and> instrPtr s3 = startPtr ver"
    using r(5) by (simp add: at rawptr_def)
  ultimately show ?thesis
    using r(2) by simp
qed

theorem C5_call_ret_stack_size_witness:
  "stackSize (snd (step h0 (after h0 1 (snd (step h0 (after h0 2 (entered imgCall []))))))) =
     stackSize (after h0 2 (entered imgCall [])) - 1 \<and>
   framePtr (snd (step h0 (after h0 1 (snd (step h0 (after h0 2 (entered imgCall []))))))) =
     framePtr (after h0 2 (entered imgCall []))"
proof -
  define s0 where "s0 = after h0 2 (entered imgCall [])"
  define s1 where "s1 = snd (step h0 s0)"
  define s2 where "s2 = after h0 1 s1"
  define s3 where "s3 = snd (step h0 s2)"
  have "let s0 = after h0 2 (entered imgCall []);
            c = step h0 s0;
            s1 = snd c;
            s2 = after h0 1 s1;
            d = step h0 s2
        in code s0 (instrPtr s0) = Some (COp CALL) \<and>
           code s0 (instrPtr s0 + 2) = Some (CU16 1) \<and>
           code s0 (instrPtr s0 + 4) = Some (CPtr 3000001) \<and>
           isObject (stack s0 (stackPtr s0)) \<and> fst c = Inr None \<and>
           code s2 (instrPtr s2) = Some (COp RET) \<and>
           stackBase s2 = stackBase s1 \<and> stackPtr s2 + 1 = stackPtr s1 \<and>
           stack s2 (stackPtr s1) = stack s1 (stackPtr s1) \<and>
           stack s2 (stackPtr s1 + 1) = stack s1 (stackPtr s1 + 1) \<and>
           stack s2 (stackPtr s1 + 2) = stack s1 (stackPtr s1 + 2) \<and>
           fst d = Inr None"
    by code_simp
  then have f: "code s0 (instrPtr s0) = Some (COp CALL)"
      "code s0 (instrPtr s0 + 2) = Some (CU16 1)"
      "code s0 (instrPtr s0 + 4) = Some (CPtr 3000001)"
      "isObject (stack s0 (stackPtr s0))"
    and c: "fst (step h0 s0) = Inr None"
    and g: "code s2 (instrPtr s2) = Some (COp RET)"
      "stackBase s2 = stackBase s1" "stackPtr s2 + 1 = stackPtr s1"
      "stack s2 (stackPtr s1) = stack s1 (stackPtr s1)"
      "stack s2 (stackPtr s1 + 1) = stack s1 (stackPtr s1 + 1)"
      "stack s2 (stackPtr s1 + 2) = stack s1 (stackPtr s1 + 2)"
    and d: "fst (step h0 s2) = Inr None"
    by (simp_all add: Let_def s0_def s1_def s2_def)
  from c have c': "step h0 s0 = (Inr None, s1)"
    by (simp add: s1_def pair_snd)
  from d have d': "step h0 s2 = (Inr None, s3)"
    by (simp add: s3_def pair_snd)
  from C5_call_ret_stack_size[OF f c' g d']
  show ?thesis
    unfolding s3_def s2_def s1_def s0_def by simp
qed

theorem C5_counterexample:
  "code (after h0 2 (entered imgCall [])) (instrPtr (after h0 2 (entered imgCall [])))
     = Some (COp CALL) \<and>
   stackSize (after h0 2 (entered imgCall [])) = 6 \<and>
   code (after h0 4 (entered imgCall [])) (instrPtr (after h0 4 (entered imgCall [])))
     = Some (COp RET) \<and>
   map_option startPtr (versions (after h0 5 (entered imgCall [])) 3000001)
     = Some (instrPtr (after h0 5 (entered imgCall []))) \<and>
   framePtr (after h0 5 (entered imgCall [])) = framePtr (after h0 2 (entered imgCall [])) \<and>
   stackSize (after h0 5 (entered imgCall [])) = 5"
proof -
  have "let e = entered imgCall [];
            s = after h0 2 e;
            t = after h0 4 e;
            u = after h0 5 e
        in code s (instrPtr s) = Some (COp CALL) \<and> stackSize s = 6 \<and>
           code t (instrPtr t) = Some (COp RET) \<and>
           map_option startPtr (versions u 3000001) = Some (instrPtr u) \<and>
           framePtr u = framePtr s \<and> stackSize u = 5"
    by code_simp
  then show ?thesis
    unfolding Let_def by simp
qed

end
